theory Spec2Isabelle
  imports Complex_Main
begin

section \<open>Numbers and arrays of the source language\<close>

text \<open>
  The program is TypeScript and its numbers are doubles. Every price and volume read from
  the store is taken to parse to a finite number. The rounding of doubles is modelled in
  the exponential moving average, in the MACD built on it and in the position ledger,
  whose results depend on it at ordinary inputs (section Double arithmetic); the other
  indicators are computed over exact reals. The functions that divide by a value that can
  be zero are computed over \<open>jsnum\<close>, which adds the three non-finite values a division
  can produce.
\<close>

datatype jsnum = Num real | PosInf | NegInf | NaN

fun js_neg :: "jsnum \<Rightarrow> jsnum" where
  "js_neg (Num a) = Num (- a)"
| "js_neg PosInf = NegInf"
| "js_neg NegInf = PosInf"
| "js_neg NaN = NaN"

fun js_add :: "jsnum \<Rightarrow> jsnum \<Rightarrow> jsnum" where
  "js_add NaN _ = NaN"
| "js_add _ NaN = NaN"
| "js_add (Num a) (Num b) = Num (a + b)"
| "js_add PosInf NegInf = NaN"
| "js_add NegInf PosInf = NaN"
| "js_add PosInf _ = PosInf"
| "js_add NegInf _ = NegInf"
| "js_add (Num a) b = b"

definition js_sub :: "jsnum \<Rightarrow> jsnum \<Rightarrow> jsnum" where
  "js_sub a b = js_add a (js_neg b)"

text \<open>The sign of a non-NaN value: \<open>1\<close>, \<open>0\<close> or \<open>-1\<close>.\<close>

fun js_sign :: "jsnum \<Rightarrow> real" where
  "js_sign (Num a) = sgn a"
| "js_sign PosInf = 1"
| "js_sign NegInf = - 1"
| "js_sign NaN = 0"

definition js_inf :: "real \<Rightarrow> jsnum" where
  "js_inf s = (if s = 0 then NaN else if 0 < s then PosInf else NegInf)"

fun js_mul :: "jsnum \<Rightarrow> jsnum \<Rightarrow> jsnum" where
  "js_mul NaN _ = NaN"
| "js_mul _ NaN = NaN"
| "js_mul (Num a) (Num b) = Num (a * b)"
| "js_mul a b = js_inf (js_sign a * js_sign b)"

text \<open>
  Division: a finite number over zero is an infinity of the numerator's sign, and zero over
  zero is NaN. A zero divisor is taken as positive zero, which is what a difference
  \<open>x - x\<close> evaluates to.
\<close>

fun js_div :: "jsnum \<Rightarrow> jsnum \<Rightarrow> jsnum" where
  "js_div NaN _ = NaN"
| "js_div _ NaN = NaN"
| "js_div (Num a) (Num b) = (if b = 0 then js_inf (sgn a) else Num (a / b))"
| "js_div (Num a) _ = Num 0"
| "js_div a (Num b) = js_inf (js_sign a * (if b < 0 then - 1 else 1))"
| "js_div _ _ = NaN"

fun is_finite :: "jsnum \<Rightarrow> bool" where
  "is_finite (Num _) = True"
| "is_finite _ = False"

text \<open>\<open>Math.max(...xs)\<close> and \<open>Math.min(...xs)\<close>; on no arguments they are the infinities.\<close>

fun math_max :: "real list \<Rightarrow> jsnum" where
  "math_max [] = NegInf"
| "math_max (x # xs) = Num (foldl max x xs)"

fun math_min :: "real list \<Rightarrow> jsnum" where
  "math_min [] = PosInf"
| "math_min (x # xs) = Num (foldl min x xs)"

text \<open>
  \<open>xs.slice(start)\<close>: a negative start counts from the end and is clamped at the
  beginning. \<open>xs.slice(-n)\<close> is \<open>slice_neg n xs\<close>; for \<open>n = 0\<close> it is the whole
  array, as \<open>-0\<close> is \<open>0\<close>.
\<close>

definition slice_from :: "int \<Rightarrow> 'a list \<Rightarrow> 'a list" where
  "slice_from start xs =
     (if start < 0 then drop (nat (int (length xs) + start)) xs else drop (nat start) xs)"

definition slice_neg :: "nat \<Rightarrow> 'a list \<Rightarrow> 'a list" where
  "slice_neg n xs = slice_from (- int n) xs"

text \<open>\<open>xs.slice(a, b)\<close> for indices that are not negative.\<close>

definition slice_range :: "nat \<Rightarrow> nat \<Rightarrow> 'a list \<Rightarrow> 'a list" where
  "slice_range a b xs = take (b - a) (drop a xs)"

text \<open>\<open>xs.reduce((a, b) => a + b, 0)\<close>.\<close>

definition reduce_sum :: "real list \<Rightarrow> real" where
  "reduce_sum xs = foldl (+) 0 xs"

text \<open>
  The truth value of an optional number: \<open>null\<close>, \<open>undefined\<close> and \<open>0\<close> are falsy.
\<close>

fun truthy :: "real option \<Rightarrow> bool" where
  "truthy None = False"
| "truthy (Some x) = (x \<noteq> 0)"

section \<open>Double arithmetic\<close>

text \<open>
  An operation on doubles returns its exact result rounded to the nearest double. Where the
  rounding is modelled it is a parameter \<open>fl\<close> of the function, applied to the exact
  result of every operation; \<open>fl_round fl\<close> rounds a finite result and leaves NaN and the
  infinities as they are.
\<close>

fun fl_round :: "(real \<Rightarrow> real) \<Rightarrow> jsnum \<Rightarrow> jsnum" where
  "fl_round fl (Num a) = Num (fl a)"
| "fl_round fl PosInf = PosInf"
| "fl_round fl NegInf = NegInf"
| "fl_round fl NaN = NaN"

definition fl_add :: "(real \<Rightarrow> real) \<Rightarrow> jsnum \<Rightarrow> jsnum \<Rightarrow> jsnum" where
  "fl_add fl a b = fl_round fl (js_add a b)"

definition fl_sub :: "(real \<Rightarrow> real) \<Rightarrow> jsnum \<Rightarrow> jsnum \<Rightarrow> jsnum" where
  "fl_sub fl a b = fl_round fl (js_sub a b)"

definition fl_mul :: "(real \<Rightarrow> real) \<Rightarrow> jsnum \<Rightarrow> jsnum \<Rightarrow> jsnum" where
  "fl_mul fl a b = fl_round fl (js_mul a b)"

definition fl_div :: "(real \<Rightarrow> real) \<Rightarrow> jsnum \<Rightarrow> jsnum \<Rightarrow> jsnum" where
  "fl_div fl a b = fl_round fl (js_div a b)"

text \<open>The comparisons \<open>a < b\<close> and \<open>a >= b\<close>; every comparison with NaN is false.\<close>

fun js_less :: "jsnum \<Rightarrow> jsnum \<Rightarrow> bool" where
  "js_less NaN _ = False"
| "js_less _ NaN = False"
| "js_less (Num a) (Num b) = (a < b)"
| "js_less PosInf _ = False"
| "js_less _ NegInf = False"
| "js_less _ _ = True"

definition js_ge :: "jsnum \<Rightarrow> jsnum \<Rightarrow> bool" where
  "js_ge a b = (a \<noteq> NaN \<and> b \<noteq> NaN \<and> \<not> js_less a b)"

text \<open>
  Rounding to the nearest double, ties to the even mantissa: the value is scaled by the
  power of two that brings it between \<open>2^52\<close> and \<open>2^53\<close>, rounded to an integer and scaled
  back. The exponent is not bounded, so neither overflow to an infinity nor the coarser
  spacing of the subnormal numbers is modelled.
\<close>

definition round_half_even :: "real \<Rightarrow> int" where
  "round_half_even r =
     (let f = \<lfloor>r\<rfloor>; t = r - of_int f
      in if t < 1 / 2 then f else if t > 1 / 2 then f + 1 else if even f then f else f + 1)"

definition binary_exponent :: "real \<Rightarrow> int" where
  "binary_exponent x = (if x \<le> 0 then 0 else \<lfloor>log 2 x\<rfloor>)"

definition double_round :: "real \<Rightarrow> real" where
  "double_round x =
     (if x = 0 then 0
      else let ulp = 2 powi (binary_exponent \<bar>x\<bar> - 52)
           in of_int (round_half_even (x / ulp)) * ulp)"

text \<open>The unit roundoff of doubles.\<close>

definition unit_roundoff :: real where
  "unit_roundoff = 1 / 2 ^ 53"

text \<open>
  The standard model of rounded arithmetic: a result that is not negative is returned
  with a relative error of at most \<open>u\<close>.
\<close>

definition rounds_within :: "real \<Rightarrow> (real \<Rightarrow> real) \<Rightarrow> bool" where
  "rounds_within u fl \<longleftrightarrow>
     0 \<le> u \<and> u < 1 \<and> (\<forall>x. 0 \<le> x \<longrightarrow> (1 - u) * x \<le> fl x \<and> fl x \<le> (1 + u) * x)"

section \<open>The indicator engine\<close>

text \<open>
  \<open>calculateSMA\<close>, \<open>calculateEMA\<close>, \<open>calculateRSI\<close> and the others take a period; every
  call of the program passes a positive constant (9, 12, 14, 20, 26, 50, 200). The quotient
  by the period is the real quotient, so the model is the program for positive periods.
\<close>

definition calculateSMA :: "real list \<Rightarrow> nat \<Rightarrow> real option" where
  "calculateSMA prices period =
     (if length prices < period then None
      else Some (reduce_sum (slice_neg period prices) / real period))"

text \<open>
  The loop of \<open>calculateEMA\<close>, each of its four operations rounded by \<open>fl\<close>:
  \<open>ema = (prices[i] * multiplier) + (ema * (1 - multiplier))\<close>.
\<close>

fun ema_loop :: "(real \<Rightarrow> real) \<Rightarrow> real \<Rightarrow> real \<Rightarrow> real list \<Rightarrow> real" where
  "ema_loop fl multiplier ema [] = ema"
| "ema_loop fl multiplier ema (p # ps) =
     ema_loop fl multiplier (fl (fl (p * multiplier) + fl (ema * fl (1 - multiplier)))) ps"

text \<open>
  On an empty array (possible only with period 0) the source returns \<open>prices[0]\<close>, which is
  \<open>undefined\<close>; this is \<open>None\<close> here.
\<close>

definition calculateEMA :: "(real \<Rightarrow> real) \<Rightarrow> real list \<Rightarrow> nat \<Rightarrow> real option" where
  "calculateEMA fl prices period =
     (if length prices < period then None
      else case prices of
             [] \<Rightarrow> None
           | p0 # rest \<Rightarrow> Some (ema_loop fl (fl (2 / (real period + 1))) p0 rest))"

record macd_result =
  macd :: real
  signal :: real
  histogram :: real

text \<open>
  The MACD history: for every \<open>i\<close> from 26 to the length, the difference of the two EMAs
  of the first \<open>i\<close> prices, kept when both are truthy.
\<close>

definition macdHistory :: "(real \<Rightarrow> real) \<Rightarrow> real list \<Rightarrow> real list" where
  "macdHistory fl prices =
     concat (map (\<lambda>i. let ema12_slice = calculateEMA fl (take i prices) 12;
                           ema26_slice = calculateEMA fl (take i prices) 26
                       in if truthy ema12_slice \<and> truthy ema26_slice
                          then [fl (the ema12_slice - the ema26_slice)] else [])
                 [26 ..< Suc (length prices)])"

definition calculateMACD :: "(real \<Rightarrow> real) \<Rightarrow> real list \<Rightarrow> macd_result option" where
  "calculateMACD fl prices =
     (let ema12 = calculateEMA fl prices 12; ema26 = calculateEMA fl prices 26
      in if \<not> truthy ema12 \<or> \<not> truthy ema26 then None
         else let macdLine = fl (the ema12 - the ema26);
                  sig = calculateEMA fl (macdHistory fl prices) 9;
                  signalLine = (if truthy sig then the sig else 0);
                  hist = fl (macdLine - signalLine)
              in Some \<lparr>macd = macdLine, signal = signalLine, histogram = hist\<rparr>)"

fun price_changes :: "real list \<Rightarrow> real list" where
  "price_changes (a # b # rest) = (b - a) # price_changes (b # rest)"
| "price_changes _ = []"

definition gains :: "real list \<Rightarrow> real list" where
  "gains changes = map (\<lambda>c. if c > 0 then c else 0) changes"

definition losses :: "real list \<Rightarrow> real list" where
  "losses changes = map (\<lambda>c. if c < 0 then \<bar>c\<bar> else 0) changes"

definition avgGain :: "real list \<Rightarrow> nat \<Rightarrow> real" where
  "avgGain prices period =
     reduce_sum (slice_neg period (gains (price_changes prices))) / real period"

definition avgLoss :: "real list \<Rightarrow> nat \<Rightarrow> real" where
  "avgLoss prices period =
     reduce_sum (slice_neg period (losses (price_changes prices))) / real period"

definition calculateRSI :: "real list \<Rightarrow> nat \<Rightarrow> real option" where
  "calculateRSI prices period =
     (if length prices < period + 1 then None
      else if avgLoss prices period = 0 then Some 100
      else let rs = avgGain prices period / avgLoss prices period
           in Some (100 - 100 / (1 + rs)))"

text \<open>
  \<open>xs.slice(-1)[0]\<close> and \<open>xs[i]\<close> as operands of arithmetic: a missing element is
  \<open>undefined\<close>, which arithmetic turns into NaN.
\<close>

definition js_last :: "real list \<Rightarrow> jsnum" where
  "js_last xs = (case xs of [] \<Rightarrow> NaN | _ # _ \<Rightarrow> Num (last xs))"

definition js_nth :: "real list \<Rightarrow> nat \<Rightarrow> jsnum" where
  "js_nth xs i = (if i < length xs then Num (xs ! i) else NaN)"

record stochastic_result =
  k :: jsnum
  d :: jsnum

text \<open>The expression \<open>((close - low) / (high - low)) * 100\<close>, written twice in the source.\<close>

definition percentK :: "jsnum \<Rightarrow> jsnum \<Rightarrow> jsnum \<Rightarrow> jsnum" where
  "percentK close low high = js_mul (js_div (js_sub close low) (js_sub high low)) (Num 100)"

text \<open>
  The loop \<open>for (i = period - 1; i < highs.length; i++)\<close> is indexed here by \<open>j = i + 1\<close>,
  the end of the window \<open>slice(i - period + 1, i + 1)\<close>; \<open>closes[i]\<close> is \<open>closes[j - 1]\<close>,
  which for \<open>j = 0\<close> is \<open>closes[-1]\<close>, undefined.
\<close>

definition kValues :: "real list \<Rightarrow> real list \<Rightarrow> real list \<Rightarrow> nat \<Rightarrow> jsnum list" where
  "kValues highs lows closes period =
     map (\<lambda>j. let periodHigh = math_max (slice_range (j - period) j highs);
                   periodLow = math_min (slice_range (j - period) j lows)
               in percentK (if j = 0 then NaN else js_nth closes (j - 1)) periodLow periodHigh)
         [period ..< Suc (length highs)]"

definition calculateStochastic ::
  "real list \<Rightarrow> real list \<Rightarrow> real list \<Rightarrow> nat \<Rightarrow> stochastic_result option" where
  "calculateStochastic highs lows closes period =
     (if length highs < period then None
      else let highestHigh = math_max (slice_neg period highs);
               lowestLow = math_min (slice_neg period lows);
               currentClose = js_last closes;
               kv = percentK currentClose lowestLow highestHigh;
               dv = js_div (foldl js_add (Num 0) (slice_neg 3 (kValues highs lows closes period)))
                      (Num 3)
           in Some \<lparr>k = kv, d = dv\<rparr>)"

definition calculateWilliamsR ::
  "real list \<Rightarrow> real list \<Rightarrow> real list \<Rightarrow> nat \<Rightarrow> jsnum option" where
  "calculateWilliamsR highs lows closes period =
     (if length highs < period then None
      else let highestHigh = math_max (slice_neg period highs);
               lowestLow = math_min (slice_neg period lows);
               currentClose = js_last closes
           in Some (js_mul (js_div (js_sub highestHigh currentClose) (js_sub highestHigh lowestLow))
                      (Num (- 100))))"

record bollinger_result =
  upper :: real
  middle :: real
  lower :: real
  bandwidth :: real

definition calculateBollingerBands :: "real list \<Rightarrow> nat \<Rightarrow> real \<Rightarrow> bollinger_result option" where
  "calculateBollingerBands prices period stdDev =
     (if length prices < period then None
      else let sma = calculateSMA prices period
           in if \<not> truthy sma then None
              else let m = the sma;
                       variance = foldl (\<lambda>acc price. acc + (price - m) ^ 2) 0
                                    (slice_neg period prices) / real period;
                       standardDeviation = sqrt variance
                   in Some \<lparr>upper = m + standardDeviation * stdDev,
                            middle = m,
                            lower = m - standardDeviation * stdDev,
                            bandwidth = ((m + standardDeviation * stdDev)
                                         - (m - standardDeviation * stdDev)) / m\<rparr>)"

text \<open>
  The true ranges read \<open>lows[i]\<close> and \<open>closes[i - 1]\<close> for every index of \<open>highs\<close>. The
  program builds the three arrays from one candle list, so they have one length; the model
  is the program under that condition.
\<close>

definition trueRanges :: "real list \<Rightarrow> real list \<Rightarrow> real list \<Rightarrow> real list" where
  "trueRanges highs lows closes =
     map (\<lambda>i. let tr1 = highs ! i - lows ! i;
                   tr2 = \<bar>highs ! i - closes ! (i - 1)\<bar>;
                   tr3 = \<bar>lows ! i - closes ! (i - 1)\<bar>
               in max tr1 (max tr2 tr3))
         [1 ..< length highs]"

definition calculateATR :: "real list \<Rightarrow> real list \<Rightarrow> real list \<Rightarrow> nat \<Rightarrow> real option" where
  "calculateATR highs lows closes period =
     (if length highs < period + 1 then None
      else calculateSMA (trueRanges highs lows closes) period)"

text \<open>
  The on-balance volume, the pivot points and two of the composite scores read array
  elements that may be missing or divide by a price, so they are computed over \<open>jsnum\<close>.
  \<open>Math.sqrt\<close>, \<open>Math.min\<close> and \<open>Math.max\<close> of two arguments:
\<close>

fun js_sqrt :: "jsnum \<Rightarrow> jsnum" where
  "js_sqrt (Num a) = (if a < 0 then NaN else Num (sqrt a))"
| "js_sqrt PosInf = PosInf"
| "js_sqrt NegInf = NaN"
| "js_sqrt NaN = NaN"

fun js_min :: "jsnum \<Rightarrow> jsnum \<Rightarrow> jsnum" where
  "js_min NaN _ = NaN"
| "js_min _ NaN = NaN"
| "js_min NegInf _ = NegInf"
| "js_min _ NegInf = NegInf"
| "js_min PosInf b = b"
| "js_min a PosInf = a"
| "js_min (Num a) (Num b) = Num (min a b)"

fun js_max :: "jsnum \<Rightarrow> jsnum \<Rightarrow> jsnum" where
  "js_max NaN _ = NaN"
| "js_max _ NaN = NaN"
| "js_max PosInf _ = PosInf"
| "js_max _ PosInf = PosInf"
| "js_max NegInf b = b"
| "js_max a NegInf = a"
| "js_max (Num a) (Num b) = Num (max a b)"

text \<open>One turn of the loop of \<open>calculateOBV\<close>, at index \<open>i\<close>.\<close>

definition obv_step :: "real list \<Rightarrow> real list \<Rightarrow> jsnum \<Rightarrow> nat \<Rightarrow> jsnum" where
  "obv_step prices volumes obv i =
     (if prices ! i > prices ! (i - 1) then js_add obv (js_nth volumes i)
      else if prices ! i < prices ! (i - 1) then js_sub obv (js_nth volumes i)
      else obv)"

definition calculateOBV :: "real list \<Rightarrow> real list \<Rightarrow> jsnum" where
  "calculateOBV prices volumes = foldl (obv_step prices volumes) (Num 0) [1 ..< length prices]"

record pivot_points =
  pivot :: jsnum
  resistance1 :: jsnum
  resistance2 :: jsnum
  resistance3 :: jsnum
  support1 :: jsnum
  support2 :: jsnum
  support3 :: jsnum

definition calculatePivotPoints :: "jsnum \<Rightarrow> jsnum \<Rightarrow> jsnum \<Rightarrow> pivot_points" where
  "calculatePivotPoints h l c =
     (let pv = js_div (js_add (js_add h l) c) (Num 3)
      in \<lparr>pivot = pv,
          resistance1 = js_sub (js_mul (Num 2) pv) l,
          resistance2 = js_add pv (js_sub h l),
          resistance3 = js_add h (js_mul (Num 2) (js_sub pv l)),
          support1 = js_sub (js_mul (Num 2) pv) h,
          support2 = js_sub pv (js_sub h l),
          support3 = js_sub l (js_mul (Num 2) (js_sub h pv))\<rparr>)"

text \<open>\<open>x || d\<close> for an optional number \<open>x\<close>.\<close>

definition or_default :: "real option \<Rightarrow> real \<Rightarrow> real" where
  "or_default x dflt = (if truthy x then the x else dflt)"

text \<open>
  \<open>calculateTrendStrength\<close>. Past the guard there are at least 20 prices, so the last
  price and the first of the last ten exist.
\<close>

definition calculateTrendStrength :: "real list \<Rightarrow> int" where
  "calculateTrendStrength prices =
     (if length prices < 20 then 0
      else let s20 = or_default (calculateSMA prices 20) 0;
               s50 = or_default (calculateSMA prices 50) 0;
               cur = last prices;
               recentSlope = (last prices - hd (slice_neg 10 prices)) / 10
           in (if cur > s20 then 25 else 0) + (if cur > s50 then 25 else 0)
              + (if s20 > s50 then 25 else 0) + (if recentSlope > 0 then 25 else 0))"

fun price_returns :: "real list \<Rightarrow> jsnum list" where
  "price_returns (a # b # rest) = js_div (Num (b - a)) (Num a) # price_returns (b # rest)"
| "price_returns _ = []"

definition calculateVolatilityScore :: "real list \<Rightarrow> jsnum" where
  "calculateVolatilityScore prices =
     (if length prices < 20 then Num 0
      else let returns = price_returns prices;
               n = Num (real (length returns));
               mean = js_div (foldl js_add (Num 0) returns) n;
               variance = js_div (foldl (\<lambda>acc ret. js_add acc
                                           (js_mul (js_sub ret mean) (js_sub ret mean)))
                                    (Num 0) returns) n;
               volatility = js_mul (js_sqrt variance) (Num (sqrt 252))
           in js_min (Num 100) (js_mul volatility (Num 100)))"

definition calculateMomentumScore :: "real list \<Rightarrow> jsnum" where
  "calculateMomentumScore prices =
     (if length prices < 10 then Num 50
      else let rsiv = or_default (calculateRSI prices 14) 50;
               first10 = hd (slice_neg 10 prices);
               priceChange = js_mul (js_div (Num (last prices - first10)) (Num first10)) (Num 100);
               momentumScore =
                 js_div (js_add (js_add (Num rsiv)
                                   (js_max (Num (- 50)) (js_min (Num 50)
                                                           (js_mul priceChange (Num 2)))))
                           (Num 50))
                   (Num 2)
           in js_max (Num 0) (js_min (Num 100) momentumScore))"

section \<open>The signal synthesizer\<close>

datatype indicator_type = RSI | MACD | MA | BB

datatype signal_kind =
  oversold | overbought | bullish_crossover | bearish_crossover | uptrend | downtrend

datatype signal_strength = strong | medium

record signal_entry =
  etype :: indicator_type
  esignal :: signal_kind
  estrength :: signal_strength

datatype overall_signal = bullish | bearish | neutral

record trading_signals =
  overall :: overall_signal
  strength :: int
  signals :: "signal_entry list"

record votes =
  bullishSignals :: int
  bearishSignals :: int
  entries :: "signal_entry list"

text \<open>
  A comparison with \<open>currentPrice = prices.slice(-1)[0]\<close>, which is \<open>undefined\<close> on an
  empty array; every comparison with \<open>undefined\<close> is false.
\<close>

definition currentPrice :: "real list \<Rightarrow> real option" where
  "currentPrice prices = (case prices of [] \<Rightarrow> None | _ # _ \<Rightarrow> Some (last prices))"

fun price_gt :: "real option \<Rightarrow> real \<Rightarrow> bool" where
  "price_gt None _ = False"
| "price_gt (Some p) x = (p > x)"

fun price_lt :: "real option \<Rightarrow> real \<Rightarrow> bool" where
  "price_lt None _ = False"
| "price_lt (Some p) x = (p < x)"

definition push_vote :: "bool \<Rightarrow> int \<Rightarrow> signal_entry \<Rightarrow> votes \<Rightarrow> votes" where
  "push_vote bull w e v =
     (if bull then v\<lparr>bullishSignals := bullishSignals v + w, entries := entries v @ [e]\<rparr>
      else v\<lparr>bearishSignals := bearishSignals v + w, entries := entries v @ [e]\<rparr>)"

definition rsi_votes :: "real option \<Rightarrow> votes \<Rightarrow> votes" where
  "rsi_votes rsi v =
     (if truthy rsi then
        (if the rsi < 30
         then push_vote True 2 \<lparr>etype = RSI, esignal = oversold, estrength = strong\<rparr> v
         else if the rsi > 70
         then push_vote False 2 \<lparr>etype = RSI, esignal = overbought, estrength = strong\<rparr> v
         else v)
      else v)"

definition macd_votes :: "macd_result option \<Rightarrow> votes \<Rightarrow> votes" where
  "macd_votes m v =
     (case m of
        None \<Rightarrow> v
      | Some r \<Rightarrow>
          if macd r > signal r \<and> histogram r > 0
          then push_vote True 1 \<lparr>etype = MACD, esignal = bullish_crossover, estrength = medium\<rparr> v
          else if macd r < signal r \<and> histogram r < 0
          then push_vote False 1 \<lparr>etype = MACD, esignal = bearish_crossover, estrength = medium\<rparr> v
          else v)"

definition ma_votes :: "real option \<Rightarrow> real option \<Rightarrow> real option \<Rightarrow> votes \<Rightarrow> votes" where
  "ma_votes cur sma20 sma50 v =
     (if truthy sma20 \<and> truthy sma50 then
        (if price_gt cur (the sma20) \<and> the sma20 > the sma50
         then push_vote True 1 \<lparr>etype = MA, esignal = uptrend, estrength = medium\<rparr> v
         else if price_lt cur (the sma20) \<and> the sma20 < the sma50
         then push_vote False 1 \<lparr>etype = MA, esignal = downtrend, estrength = medium\<rparr> v
         else v)
      else v)"

definition bb_votes :: "real option \<Rightarrow> bollinger_result option \<Rightarrow> votes \<Rightarrow> votes" where
  "bb_votes cur bb v =
     (case bb of
        None \<Rightarrow> v
      | Some b \<Rightarrow>
          if price_lt cur (lower b)
          then push_vote True 1 \<lparr>etype = BB, esignal = oversold, estrength = medium\<rparr> v
          else if price_gt cur (upper b)
          then push_vote False 1 \<lparr>etype = BB, esignal = overbought, estrength = medium\<rparr> v
          else v)"

text \<open>
  The first half of \<open>generateTradingSignals\<close>: the four blocks, in the order of the source,
  each adding its weight to one counter and its entry to the list.
\<close>

definition countVotes ::
  "real option \<Rightarrow> macd_result option \<Rightarrow> bollinger_result option \<Rightarrow> real option
     \<Rightarrow> real option \<Rightarrow> real option \<Rightarrow> votes" where
  "countVotes rsiv macdv bb s20 s50 cur =
     bb_votes cur bb
       (ma_votes cur s20 s50
          (macd_votes macdv
             (rsi_votes rsiv \<lparr>bullishSignals = 0, bearishSignals = 0, entries = []\<rparr>)))"

definition collectVotes :: "(real \<Rightarrow> real) \<Rightarrow> real list \<Rightarrow> votes" where
  "collectVotes fl prices =
     countVotes (calculateRSI prices 14) (calculateMACD fl prices)
       (calculateBollingerBands prices 20 2) (calculateSMA prices 20) (calculateSMA prices 50)
       (currentPrice prices)"

text \<open>The second half: the overall signal from the net count. The arrays \<open>highs\<close>, \<open>lows\<close>
  and \<open>volumes\<close> are parameters the source never reads.\<close>

definition generateTradingSignals ::
  "(real \<Rightarrow> real) \<Rightarrow> real list \<Rightarrow> real list \<Rightarrow> real list \<Rightarrow> real list
     \<Rightarrow> trading_signals" where
  "generateTradingSignals fl prices highs lows volumes =
     (let v = collectVotes fl prices;
          netSignal = bullishSignals v - bearishSignals v
      in if netSignal > 1
         then \<lparr>overall = bullish, strength = min 100 (netSignal * 20), signals = entries v\<rparr>
         else if netSignal < - 1
         then \<lparr>overall = bearish, strength = min 100 (\<bar>netSignal\<bar> * 20), signals = entries v\<rparr>
         else \<lparr>overall = neutral, strength = 0, signals = entries v\<rparr>)"

section \<open>The indicator snapshot and its entry point\<close>

record candle =
  timestamp :: int
  c_open :: real
  high :: real
  low :: real
  close :: real
  volume :: real

text \<open>The snapshot \<open>calculateAllIndicators\<close> returns, field by field.\<close>

record indicators =
  sma20 :: "real option"
  sma50 :: "real option"
  sma200 :: "real option"
  ema12 :: "real option"
  ema26 :: "real option"
  ema50 :: "real option"
  ind_macd :: "macd_result option"
  rsi :: "real option"
  stochastic :: "stochastic_result option"
  williams :: "jsnum option"
  bollingerBands :: "bollinger_result option"
  atr :: "real option"
  volumeSMA :: "real option"
  obv :: jsnum
  pivotPoints :: pivot_points
  trendStrength :: int
  volatilityScore :: jsnum
  momentumScore :: jsnum
  ind_signals :: trading_signals

text \<open>The four arrays are taken from the candles and then reversed, as the source does.\<close>

definition calculateAllIndicators :: "(real \<Rightarrow> real) \<Rightarrow> candle list \<Rightarrow> indicators" where
  "calculateAllIndicators fl priceData =
     (let prices = rev (map close priceData);
          volumes = rev (map volume priceData);
          highs = rev (map high priceData);
          lows = rev (map low priceData)
      in \<lparr>sma20 = calculateSMA prices 20,
          sma50 = calculateSMA prices 50,
          sma200 = calculateSMA prices 200,
          ema12 = calculateEMA fl prices 12,
          ema26 = calculateEMA fl prices 26,
          ema50 = calculateEMA fl prices 50,
          ind_macd = calculateMACD fl prices,
          rsi = calculateRSI prices 14,
          stochastic = calculateStochastic highs lows prices 14,
          williams = calculateWilliamsR highs lows prices 14,
          bollingerBands = calculateBollingerBands prices 20 2,
          atr = calculateATR highs lows prices 14,
          volumeSMA = calculateSMA volumes 20,
          obv = calculateOBV prices volumes,
          pivotPoints = calculatePivotPoints (js_last highs) (js_last lows) (js_last prices),
          trendStrength = calculateTrendStrength prices,
          volatilityScore = calculateVolatilityScore prices,
          momentumScore = calculateMomentumScore prices,
          ind_signals = generateTradingSignals fl prices highs lows volumes\<rparr>)"

datatype error =
    InsufficientPriceData
  | UserNotFoundOrInactive
  | InvalidWallet
  | DailyTradeLimitReached
  | MaxOpenPositionsReached
  | InvalidPositionUpdate
  | QueryFailed
  | StrategyNotFound
  | ConcurrencyConflict

text \<open>
  The handler of \<open>calculateTokenIndicators\<close>. Its two calls into the store are taken as
  given: \<open>priceHistory\<close> is the answer of the price-history query, a failure or the
  candles, and \<open>storeIndicators\<close> is the outcome of the mutation that stores the snapshot,
  \<open>None\<close> when it succeeds. A failure of either leaves the handler as an exception.
\<close>

definition calculateTokenIndicators ::
  "(real \<Rightarrow> real) \<Rightarrow> error + candle list \<Rightarrow> (indicators \<Rightarrow> error option)
     \<Rightarrow> error + indicators" where
  "calculateTokenIndicators fl priceHistory storeIndicators =
     (case priceHistory of
        Inl e \<Rightarrow> Inl e
      | Inr data \<Rightarrow>
          if length data < 20 then Inl InsufficientPriceData
          else let inds = calculateAllIndicators fl data
               in (case storeIndicators inds of
                     Some e \<Rightarrow> Inl e
                   | None \<Rightarrow> Inr inds))"

section \<open>The position ledger\<close>

text \<open>
  A position document. Its numbers are stored as strings and parsed when read; a number
  printed and parsed again is the same number, so the fields hold the numbers themselves,
  NaN and the infinities included.
\<close>

record position =
  p_userId :: nat
  p_walletId :: nat
  p_tokenMint :: string
  p_amount :: jsnum
  p_averagePrice :: jsnum
  p_currentPrice :: jsnum
  p_marketValue :: jsnum
  p_costBasis :: jsnum
  p_pnlAmount :: jsnum
  p_pnlPercentage :: jsnum
  p_isProfit :: bool

datatype position_action = ActAdd | ActRemove | ActUpdate

datatype position_result = created | updated | closed | reduced

text \<open>A table is the list of its documents in creation order; a patch or a delete by id
  touches the one document found, here the first that matches.\<close>

fun patch_first :: "('a \<Rightarrow> bool) \<Rightarrow> ('a \<Rightarrow> 'a) \<Rightarrow> 'a list \<Rightarrow> 'a list" where
  "patch_first P f [] = []"
| "patch_first P f (x # xs) = (if P x then f x # xs else x # patch_first P f xs)"

fun delete_first :: "('a \<Rightarrow> bool) \<Rightarrow> 'a list \<Rightarrow> 'a list" where
  "delete_first P [] = []"
| "delete_first P (x # xs) = (if P x then xs else x # delete_first P xs)"

text \<open>
  \<open>updatePosition\<close> on the positions table, under the rounding \<open>fl\<close>. \<open>amount\<close> and
  \<open>price\<close> are the parsed arguments.
\<close>

definition updatePosition ::
  "(real \<Rightarrow> real) \<Rightarrow> position list \<Rightarrow> nat \<Rightarrow> nat \<Rightarrow> string \<Rightarrow> jsnum \<Rightarrow> jsnum
     \<Rightarrow> position_action \<Rightarrow> error + (position list \<times> position_result)" where
  "updatePosition fl positions userId walletId tokenMint amount price action =
     (let key = (\<lambda>p. p_userId p = userId \<and> p_tokenMint p = tokenMint);
          existing = find key positions
      in if action = ActAdd \<or> action = ActUpdate then
           (case existing of
              Some e \<Rightarrow>
                let currentAmount = p_amount e;
                    currentAvgPrice = p_averagePrice e;
                    updatedAmount = (if action = ActAdd then fl_add fl currentAmount amount
                                     else currentAmount);
                    updatedAvgPrice =
                      (if action = ActAdd
                       then fl_div fl (fl_add fl (fl_mul fl currentAmount currentAvgPrice)
                                         (fl_mul fl amount price))
                              updatedAmount
                       else currentAvgPrice);
                    marketValue = fl_mul fl updatedAmount price;
                    costBasis = fl_mul fl updatedAmount updatedAvgPrice;
                    pnlAmount = fl_sub fl marketValue costBasis;
                    pnlPercentage = fl_mul fl (fl_div fl pnlAmount costBasis) (Num 100)
                in Inr (patch_first key
                          (\<lambda>p. p\<lparr>p_amount := updatedAmount,
                                  p_averagePrice := updatedAvgPrice,
                                  p_currentPrice := price,
                                  p_marketValue := marketValue,
                                  p_costBasis := costBasis,
                                  p_pnlAmount := pnlAmount,
                                  p_pnlPercentage := pnlPercentage,
                                  p_isProfit := js_less (Num 0) pnlAmount\<rparr>)
                          positions, updated)
            | None \<Rightarrow>
                let marketValue = fl_mul fl amount price
                in Inr (positions @
                          [\<lparr>p_userId = userId, p_walletId = walletId, p_tokenMint = tokenMint,
                            p_amount = amount, p_averagePrice = price, p_currentPrice = price,
                            p_marketValue = marketValue, p_costBasis = marketValue,
                            p_pnlAmount = Num 0, p_pnlPercentage = Num 0, p_isProfit = False\<rparr>],
                        created))
         else
           (case existing of
              Some e \<Rightarrow>
                if action = ActRemove then
                  (let currentAmount = p_amount e in
                   if js_ge amount currentAmount then Inr (delete_first key positions, closed)
                   else let remainingAmount = fl_sub fl currentAmount amount;
                            marketValue = fl_mul fl remainingAmount price;
                            costBasis = fl_mul fl remainingAmount (p_averagePrice e);
                            pnlAmount = fl_sub fl marketValue costBasis;
                            pnlPercentage = fl_mul fl (fl_div fl pnlAmount costBasis) (Num 100)
                        in Inr (patch_first key
                                  (\<lambda>p. p\<lparr>p_amount := remainingAmount,
                                          p_currentPrice := price,
                                          p_marketValue := marketValue,
                                          p_costBasis := costBasis,
                                          p_pnlAmount := pnlAmount,
                                          p_pnlPercentage := pnlPercentage,
                                          p_isProfit := js_less (Num 0) pnlAmount\<rparr>)
                                  positions, reduced))
                else Inl InvalidPositionUpdate
            | None \<Rightarrow> Inl InvalidPositionUpdate))"

text \<open>A run of buy fills \<open>(quantity, price)\<close> for one owner and asset, each applied with
  action \<open>add\<close> as \<open>handleCompletedOrder\<close> does for a completed buy order.\<close>

fun applyBuys ::
  "(real \<Rightarrow> real) \<Rightarrow> position list \<Rightarrow> nat \<Rightarrow> nat \<Rightarrow> string \<Rightarrow> (real \<times> real) list
     \<Rightarrow> position list" where
  "applyBuys fl positions userId walletId tokenMint [] = positions"
| "applyBuys fl positions userId walletId tokenMint ((q, p) # rest) =
     (case updatePosition fl positions userId walletId tokenMint (Num q) (Num p) ActAdd of
        Inl _ \<Rightarrow> applyBuys fl positions userId walletId tokenMint rest
      | Inr (positions', _) \<Rightarrow> applyBuys fl positions' userId walletId tokenMint rest)"

section \<open>Strategies and the store\<close>

datatype frequency_type = interval | cron | dynamic

record frequency =
  ftype :: frequency_type
  fvalue :: string

text \<open>
  The optional strings \<open>minPrice\<close>, \<open>maxPrice\<close> and \<open>maxInvestment\<close> are kept parsed;
  \<open>None\<close> stands for an absent or empty string, the two falsy cases. The optional numbers
  \<open>dipThreshold\<close>, \<open>maxExecutions\<close> and \<open>endDate\<close> are falsy when absent or zero.
  \<open>volatilityAdjustment\<close> is read by the value-averaging pass; a missing field reads as
  false.
\<close>

record conditions =
  minPrice :: "real option"
  maxPrice :: "real option"
  onlyBuyDips :: bool
  dipThreshold :: "real option"
  volatilityAdjustment :: bool

record limits =
  maxInvestment :: "real option"
  maxExecutions :: "nat option"
  endDate :: "int option"

text \<open>The object \<open>config.advanced\<close> with the three fields the schema declares for it.\<close>

record advanced =
  valueAveraging :: bool
  rebalancing :: bool
  compounding :: bool

text \<open>
  The read \<open>strategy.config.advanced.weekendBoost\<close> of the weekend-boost pass. The schema
  of \<open>dcaStrategies\<close> gives \<open>advanced\<close> exactly the fields \<open>valueAveraging\<close>,
  \<open>rebalancing\<close> and \<open>compounding\<close>, and the store keeps no field its schema does not
  declare; on a stored strategy the read is \<open>undefined\<close>, which is falsy.
\<close>

definition advanced_weekendBoost :: "advanced \<Rightarrow> bool" where
  "advanced_weekendBoost a = False"

record execution =
  e_orderId :: nat
  e_timestamp :: int
  e_amountIn :: real

text \<open>A document of the table \<open>dcaStrategies\<close>; the fields of \<open>config\<close> and \<open>stats\<close>
  that the actions read or write, side by side.\<close>

record strategy =
  sid :: nat
  s_userId :: nat
  s_walletId :: nat
  isActive :: bool
  isPaused :: bool
  tokenIn :: string
  tokenOut :: string
  amount :: real
  s_frequency :: frequency
  s_conditions :: "conditions option"
  s_limits :: limits
  s_advanced :: advanced
  totalExecutions :: nat
  totalInvested :: real
  nextExecution :: "int option"
  executions :: "execution list"

record user =
  u_isActive :: bool
  dailyTrades :: nat
  maxOpenPositions :: nat
  lastActive :: int

datatype side = buy | sell

record order =
  o_userId :: nat
  o_walletId :: nat
  o_side :: side
  o_tokenIn :: string
  o_amount :: real
  o_tokenOut :: string
  o_slippage :: real
  o_createdAt :: int

record error_entry =
  err_strategyId :: nat
  err_error :: error
  err_timestamp :: int

record db =
  users :: "nat \<rightharpoonup> user"
  wallets :: "nat \<rightharpoonup> nat"
  orders :: "order list"
  positions :: "position list"
  dcaStrategies :: "strategy list"
  errorLog :: "error_entry list"

text \<open>
  What an action reads from outside the store: the two price queries, the position query
  of the value-averaging pass (a failure, no position, or the position's market value),
  and the clock.
\<close>

record env =
  getCurrentPrice :: "string \<Rightarrow> error + real"
  getPriceChange24h :: "string \<Rightarrow> error + real"
  getPosition :: "nat \<Rightarrow> string \<Rightarrow> error + real option"
  dateNow :: int

section \<open>Placing a trade\<close>

text \<open>Midnight before \<open>now\<close>, in milliseconds; the server's day is taken as the UTC day.\<close>

definition todayStart :: "int \<Rightarrow> int" where
  "todayStart now = now - now mod 86400000"

text \<open>
  \<open>placeTrade\<close>: the validations in the order of the source, then the insert of the order
  and the patch of the user. The new order's id is its index in the table. The job the
  mutation schedules for the order runs later and is not part of this step.
\<close>

definition placeTrade ::
  "db \<Rightarrow> int \<Rightarrow> nat \<Rightarrow> nat \<Rightarrow> side \<Rightarrow> string \<Rightarrow> real \<Rightarrow> string \<Rightarrow> real \<Rightarrow> error + (db \<times> nat)" where
  "placeTrade st now userId walletId sd tokIn amt tokOut slippage =
     (case users st userId of
        None \<Rightarrow> Inl UserNotFoundOrInactive
      | Some u \<Rightarrow>
          if \<not> u_isActive u then Inl UserNotFoundOrInactive
          else if wallets st walletId \<noteq> Some userId then Inl InvalidWallet
          else
            let todayOrders = filter (\<lambda>ord. o_userId ord = userId \<and> o_createdAt ord \<ge> todayStart now)
                                (orders st);
                openPositions = filter (\<lambda>p. p_userId p = userId) (positions st)
            in if length todayOrders \<ge> dailyTrades u then Inl DailyTradeLimitReached
               else if sd = buy \<and> length openPositions \<ge> maxOpenPositions u
               then Inl MaxOpenPositionsReached
               else
                 let orderId = length (orders st);
                     newOrder = \<lparr>o_userId = userId, o_walletId = walletId, o_side = sd,
                                 o_tokenIn = tokIn, o_amount = amt, o_tokenOut = tokOut,
                                 o_slippage = slippage, o_createdAt = now\<rparr>
                 in Inr (st\<lparr>orders := orders st @ [newOrder],
                            users := (users st)(userId \<mapsto> u\<lparr>lastActive := now\<rparr>)\<rparr>,
                         orderId))"

section \<open>The strategy mutations\<close>

text \<open>
  Modelled from the spec: the mutation \<open>recordExecution\<close> (module \<open>mutations/dca\<close>, not
  among the sources). The spec makes the execution records append-only and unique in
  (strategyId, scheduledTime): a second record for a time the strategy already has is a
  concurrency conflict, the later attempt is aborted and the earlier one stands. A
  successful record counts one execution and adds the amount to the total invested.
\<close>

definition recordExecution :: "db \<Rightarrow> nat \<Rightarrow> nat \<Rightarrow> real \<Rightarrow> int \<Rightarrow> error + db" where
  "recordExecution st strategyId orderId amt ts =
     (case find (\<lambda>s. sid s = strategyId) (dcaStrategies st) of
        None \<Rightarrow> Inl StrategyNotFound
      | Some s \<Rightarrow>
          if ts \<in> set (map e_timestamp (executions s)) then Inl ConcurrencyConflict
          else Inr (st\<lparr>dcaStrategies :=
                        patch_first (\<lambda>s. sid s = strategyId)
                          (\<lambda>s. s\<lparr>executions := executions s @
                                      [\<lparr>e_orderId = orderId, e_timestamp = ts, e_amountIn = amt\<rparr>],
                                  totalExecutions := totalExecutions s + 1,
                                  totalInvested := totalInvested s + amt\<rparr>)
                          (dcaStrategies st)\<rparr>))"

text \<open>
  Modelled from the spec: the mutation \<open>updateNextExecution\<close> (module \<open>mutations/dca\<close>, not
  among the sources). It stores the given time as the strategy's next execution time.
\<close>

definition updateNextExecution :: "db \<Rightarrow> nat \<Rightarrow> int option \<Rightarrow> error + db" where
  "updateNextExecution st strategyId next =
     (case find (\<lambda>s. sid s = strategyId) (dcaStrategies st) of
        None \<Rightarrow> Inl StrategyNotFound
      | Some _ \<Rightarrow>
          Inr (st\<lparr>dcaStrategies :=
                   patch_first (\<lambda>s. sid s = strategyId) (\<lambda>s. s\<lparr>nextExecution := next\<rparr>)
                     (dcaStrategies st)\<rparr>))"

text \<open>
  Modelled from the spec: the mutation \<open>logError\<close> (module \<open>mutations/dca\<close>, not among the
  sources). A failure is recorded against the strategy; the strategy itself is untouched.
\<close>

definition logError :: "db \<Rightarrow> nat \<Rightarrow> error \<Rightarrow> int \<Rightarrow> db" where
  "logError st strategyId e ts =
     st\<lparr>errorLog := errorLog st @
          [\<lparr>err_strategyId = strategyId, err_error = e, err_timestamp = ts\<rparr>]\<rparr>"

section \<open>The scheduler\<close>

text \<open>The price block of \<open>checkStrategyConditions\<close>: \<open>Inr False\<close> is its \<open>return false\<close>,
  \<open>Inl\<close> a failure of the price query.\<close>

definition priceBoundsOk :: "env \<Rightarrow> strategy \<Rightarrow> conditions \<Rightarrow> error + bool" where
  "priceBoundsOk ev s c =
     (if minPrice c \<noteq> None \<or> maxPrice c \<noteq> None then
        (case getCurrentPrice ev (tokenOut s) of
           Inl e \<Rightarrow> Inl e
         | Inr cur \<Rightarrow>
             if (case minPrice c of Some m \<Rightarrow> cur < m | None \<Rightarrow> False) then Inr False
             else if (case maxPrice c of Some m \<Rightarrow> cur > m | None \<Rightarrow> False) then Inr False
             else Inr True)
      else Inr True)"

text \<open>The buy-the-dip block; \<open>conditions.dipThreshold || -5\<close> is the threshold.\<close>

definition dipOk :: "env \<Rightarrow> strategy \<Rightarrow> conditions \<Rightarrow> error + bool" where
  "dipOk ev s c =
     (if onlyBuyDips c then
        (case getPriceChange24h ev (tokenOut s) of
           Inl e \<Rightarrow> Inl e
         | Inr priceChange \<Rightarrow>
             let dipThr = (if truthy (dipThreshold c) then the (dipThreshold c) else - 5)
             in if priceChange > dipThr then Inr False else Inr True)
      else Inr True)"

text \<open>The three limit blocks.\<close>

definition limitsOk :: "env \<Rightarrow> strategy \<Rightarrow> bool" where
  "limitsOk ev s =
     (if (case maxExecutions (s_limits s) of
            Some m \<Rightarrow> m \<noteq> 0 \<and> totalExecutions s \<ge> m | None \<Rightarrow> False) then False
      else if (case maxInvestment (s_limits s) of
                 Some m \<Rightarrow> totalInvested s \<ge> m | None \<Rightarrow> False) then False
      else if (case endDate (s_limits s) of
                 Some t \<Rightarrow> t \<noteq> 0 \<and> dateNow ev > t | None \<Rightarrow> False) then False
      else True)"

definition checkStrategyConditions :: "env \<Rightarrow> strategy \<Rightarrow> error + bool" where
  "checkStrategyConditions ev s =
     (case s_conditions s of
        None \<Rightarrow> Inr True
      | Some c \<Rightarrow>
          (case priceBoundsOk ev s c of
             Inl e \<Rightarrow> Inl e
           | Inr False \<Rightarrow> Inr False
           | Inr True \<Rightarrow>
               (case dipOk ev s c of
                  Inl e \<Rightarrow> Inl e
                | Inr False \<Rightarrow> Inr False
                | Inr True \<Rightarrow> Inr (limitsOk ev s))))"

text \<open>
  \<open>parseInt\<close> without a radix: leading white space is skipped (the tab, the line and
  form feeds, the carriage return and the blank; the white space beyond ASCII is not
  modelled), then a sign, then an optional prefix \<open>0x\<close> that makes the radix 16, then the
  longest run of digits of the radix. \<open>None\<close> is NaN.
\<close>

definition is_space :: "char \<Rightarrow> bool" where
  "is_space c = ((9 \<le> (of_char c :: nat) \<and> (of_char c :: nat) \<le> 13) \<or> (of_char c :: nat) = 32)"

definition digit_value :: "char \<Rightarrow> nat option" where
  "digit_value c =
     (let n = (of_char c :: nat)
      in if 48 \<le> n \<and> n \<le> 57 then Some (n - 48)
         else if 97 \<le> n \<and> n \<le> 122 then Some (n - 87)
         else if 65 \<le> n \<and> n \<le> 90 then Some (n - 55)
         else None)"

fun parse_digits :: "nat \<Rightarrow> string \<Rightarrow> nat option \<Rightarrow> nat option" where
  "parse_digits radix [] acc = acc"
| "parse_digits radix (c # cs) acc =
     (case digit_value c of
        None \<Rightarrow> acc
      | Some v \<Rightarrow>
          if v < radix
          then parse_digits radix cs
                 (Some (radix * (case acc of None \<Rightarrow> 0 | Some a \<Rightarrow> a) + v))
          else acc)"

definition parseInt :: "string \<Rightarrow> int option" where
  "parseInt str =
     (let s1 = dropWhile is_space str;
          negative = (take 1 s1 = ''-'');
          s2 = (if take 1 s1 = ''-'' \<or> take 1 s1 = ''+'' then drop 1 s1 else s1);
          hex = (take 2 s2 = ''0x'' \<or> take 2 s2 = ''0X'');
          s3 = (if hex then drop 2 s2 else s2)
      in map_option (\<lambda>n. if negative then - int n else int n)
           (parse_digits (if hex then 16 else 10) s3 None))"

definition parseInterval :: "string \<Rightarrow> int option" where
  "parseInterval intv =
     (let unit = slice_neg 1 intv;
          val = parseInt (butlast intv)
      in if unit = ''m'' then map_option (\<lambda>v. v * 60 * 1000) val
         else if unit = ''h'' then map_option (\<lambda>v. v * 60 * 60 * 1000) val
         else if unit = ''d'' then map_option (\<lambda>v. v * 24 * 60 * 60 * 1000) val
         else if unit = ''w'' then map_option (\<lambda>v. v * 7 * 24 * 60 * 60 * 1000) val
         else Some (60 * 60 * 1000))"

definition getNextCronExecution :: "string \<Rightarrow> int \<Rightarrow> int" where
  "getNextCronExecution cronExpression currentTime = currentTime + 60 * 60 * 1000"

definition calculateDynamicExecution :: "string \<Rightarrow> int \<Rightarrow> int" where
  "calculateDynamicExecution config currentTime = currentTime + 2 * 60 * 60 * 1000"

text \<open>The result is \<open>None\<close> where the source computes NaN.\<close>

definition calculateNextExecution :: "frequency \<Rightarrow> int \<Rightarrow> int option" where
  "calculateNextExecution fr currentTime =
     (case ftype fr of
        interval \<Rightarrow> map_option (\<lambda>i. currentTime + i) (parseInterval (fvalue fr))
      | cron \<Rightarrow> Some (getNextCronExecution (fvalue fr) currentTime)
      | dynamic \<Rightarrow> Some (calculateDynamicExecution (fvalue fr) currentTime))"

record results =
  total :: nat
  executed :: nat
  failed :: nat
  skipped :: nat

text \<open>
  One turn of the loop of \<open>executeScheduledStrategies\<close>, on the strategy as the due query
  returned it. \<open>now\<close> is the time read once at the start of the action; the clock reads
  inside the condition check and the mutations are \<open>dateNow\<close>. An exception anywhere in the
  \<open>try\<close> block is counted as failed and logged.
\<close>

definition executeStrategy :: "env \<Rightarrow> int \<Rightarrow> db \<times> results \<Rightarrow> strategy \<Rightarrow> db \<times> results" where
  "executeStrategy ev now acc s =
     (let st = fst acc; r = snd acc;
          fail = (\<lambda>st' e. (logError st' (sid s) e now, r\<lparr>failed := failed r + 1\<rparr>))
      in case checkStrategyConditions ev s of
           Inl e \<Rightarrow> fail st e
         | Inr False \<Rightarrow> (st, r\<lparr>skipped := skipped r + 1\<rparr>)
         | Inr True \<Rightarrow>
             (case placeTrade st (dateNow ev) (s_userId s) (s_walletId s) buy (tokenIn s)
                     (amount s) (tokenOut s) 1 of
                Inl e \<Rightarrow> fail st e
              | Inr (st1, orderId) \<Rightarrow>
                  (case recordExecution st1 (sid s) orderId (amount s) now of
                     Inl e \<Rightarrow> fail st1 e
                   | Inr st2 \<Rightarrow>
                       (case updateNextExecution st2 (sid s)
                               (calculateNextExecution (s_frequency s) now) of
                          Inl e \<Rightarrow> fail st2 e
                        | Inr st3 \<Rightarrow> (st3, r\<lparr>executed := executed r + 1\<rparr>)))))"

text \<open>The action, given the strategies its due query returned.\<close>

definition executeScheduledStrategies :: "env \<Rightarrow> int \<Rightarrow> strategy list \<Rightarrow> db \<Rightarrow> db \<times> results" where
  "executeScheduledStrategies ev now strategies st =
     foldl (executeStrategy ev now)
       (st, \<lparr>total = length strategies, executed = 0, failed = 0, skipped = 0\<rparr>) strategies"

section \<open>Value averaging\<close>

definition calculateTargetValue :: "strategy \<Rightarrow> real" where
  "calculateTargetValue s =
     (let executionNumber = totalExecutions s + 1; baseAmount = amount s
      in baseAmount * real executionNumber)"

definition getCurrentPositionValue :: "env \<Rightarrow> strategy \<Rightarrow> error + real" where
  "getCurrentPositionValue ev s =
     (case getPosition ev (s_userId s) (tokenOut s) of
        Inl e \<Rightarrow> Inl e
      | Inr None \<Rightarrow> Inr 0
      | Inr (Some marketValue) \<Rightarrow> Inr marketValue)"

definition adjustForMarketConditions :: "real \<Rightarrow> conditions option \<Rightarrow> real" where
  "adjustForMarketConditions amt conds =
     (case conds of
        Some c \<Rightarrow> if volatilityAdjustment c then amt * 0.8 else amt
      | None \<Rightarrow> amt)"

text \<open>One turn of the loop of \<open>processValueAveraging\<close>; an exception leaves the store as
  it was.\<close>

definition valueAveragingStep :: "env \<Rightarrow> db \<Rightarrow> strategy \<Rightarrow> db" where
  "valueAveragingStep ev st s =
     (let targetValue = calculateTargetValue s
      in case getCurrentPositionValue ev s of
           Inl _ \<Rightarrow> st
         | Inr currentValue \<Rightarrow>
             let investmentAmount = targetValue - currentValue
             in if investmentAmount \<le> 0 then st
                else let adjustedAmount = adjustForMarketConditions investmentAmount (s_conditions s)
                     in (case placeTrade st (dateNow ev) (s_userId s) (s_walletId s) buy
                                (tokenIn s) adjustedAmount (tokenOut s) 1.5 of
                           Inl _ \<Rightarrow> st
                         | Inr (st1, _) \<Rightarrow> st1))"

definition processValueAveraging :: "env \<Rightarrow> strategy list \<Rightarrow> db \<Rightarrow> db" where
  "processValueAveraging ev strategies st = foldl (valueAveragingStep ev) st strategies"

section \<open>The weekend boost\<close>

text \<open>
  One turn of the loop of \<open>weekendBoost\<close>, with the count of executed strategies;
  \<open>optedIn\<close> is the truth value of what the turn reads from
  \<open>strategy.config.advanced.weekendBoost\<close>.
\<close>

definition boostTurn :: "bool \<Rightarrow> env \<Rightarrow> db \<times> nat \<Rightarrow> strategy \<Rightarrow> db \<times> nat" where
  "boostTurn optedIn ev acc s =
     (let st = fst acc; n = snd acc
      in if \<not> optedIn then (st, n)
         else let boostedAmount = amount s * 1.5
              in case placeTrade st (dateNow ev) (s_userId s) (s_walletId s) buy (tokenIn s)
                        boostedAmount (tokenOut s) 1 of
                   Inl _ \<Rightarrow> (st, n)
                 | Inr (st1, _) \<Rightarrow> (st1, n + 1))"

definition weekendBoostStep :: "env \<Rightarrow> db \<times> nat \<Rightarrow> strategy \<Rightarrow> db \<times> nat" where
  "weekendBoostStep ev acc s = boostTurn (advanced_weekendBoost (s_advanced s)) ev acc s"

text \<open>The action, given the strategies its active query returned; at most 50 are taken.\<close>

definition weekendBoost :: "env \<Rightarrow> strategy list \<Rightarrow> db \<Rightarrow> db \<times> nat" where
  "weekendBoost ev strategies st = foldl (weekendBoostStep ev) (st, 0) (take 50 strategies)"

section \<open>The specification's wording of the vote rule\<close>

text \<open>
  The weights and the sides as the specification words them, to be compared with what
  \<open>generateTradingSignals\<close> counts: an RSI entry weighs 2, every other entry 1; an entry
  is a bullish one when it reports an oversold reading, a bullish crossover or an uptrend.
\<close>

fun spec_weight :: "indicator_type \<Rightarrow> int" where
  "spec_weight RSI = 2"
| "spec_weight MACD = 1"
| "spec_weight MA = 1"
| "spec_weight BB = 1"

fun bullish_kind :: "signal_kind \<Rightarrow> bool" where
  "bullish_kind oversold = True"
| "bullish_kind bullish_crossover = True"
| "bullish_kind uptrend = True"
| "bullish_kind _ = False"

definition spec_bullish_votes :: "signal_entry list \<Rightarrow> int" where
  "spec_bullish_votes es =
     sum_list (map (\<lambda>e. spec_weight (etype e)) (filter (\<lambda>e. bullish_kind (esignal e)) es))"

definition spec_bearish_votes :: "signal_entry list \<Rightarrow> int" where
  "spec_bearish_votes es =
     sum_list (map (\<lambda>e. spec_weight (etype e)) (filter (\<lambda>e. \<not> bullish_kind (esignal e)) es))"

definition votes_agree :: "votes \<Rightarrow> bool" where
  "votes_agree v \<longleftrightarrow> bullishSignals v = spec_bullish_votes (entries v)
                    \<and> bearishSignals v = spec_bearish_votes (entries v)"

section \<open>Sums over a run of buys\<close>

definition buy_quantity :: "(real \<times> real) list \<Rightarrow> real" where
  "buy_quantity bs = sum_list (map fst bs)"

definition buy_cost :: "(real \<times> real) list \<Rightarrow> real" where
  "buy_cost bs = sum_list (map (\<lambda>b. fst b * snd b) bs)"

text \<open>The double nearest to 0.1.\<close>

definition d01 :: real where
  "d01 = 7205759403792794 / 2 ^ 56"

text \<open>The double nearest to 123.456.\<close>

definition c123 :: real where
  "c123 = 8687443681197687 / 2 ^ 46"

text \<open>The double next below it.\<close>

definition c123_below :: real where
  "c123_below = 4343721840598843 / 2 ^ 45"

section \<open>The uniqueness invariant\<close>

text \<open>Strategy ids are distinct, and no strategy has two execution records of one time.\<close>

definition store_inv :: "db \<Rightarrow> bool" where
  "store_inv st \<longleftrightarrow> distinct (map sid (dcaStrategies st))
                   \<and> (\<forall>s\<in>set (dcaStrategies st). distinct (map e_timestamp (executions s)))"

section \<open>Reachable stores\<close>

text \<open>The keys (strategyId, scheduledTime) of all execution records of the store.\<close>

fun execution_keys :: "strategy list \<Rightarrow> (nat \<times> int) list" where
  "execution_keys [] = []"
| "execution_keys (s # ss) =
     map (\<lambda>e. (sid s, e_timestamp e)) (executions s) @ execution_keys ss"

text \<open>
  A store is reachable when it starts with strategies of distinct ids that have no
  execution records, and then changes only through the operations above, called with any
  arguments: the three strategy mutations, a scheduler tick, a value-averaging pass, a
  weekend boost, placing a trade, and the creation of a new strategy under a fresh id.
\<close>

inductive reachable :: "db \<Rightarrow> bool" where
  by_init: "distinct (map sid (dcaStrategies st)) \<Longrightarrow> \<forall>s\<in>set (dcaStrategies st). executions s = []
           \<Longrightarrow> reachable st"
| by_create: "reachable st \<Longrightarrow> sid s \<notin> set (map sid (dcaStrategies st)) \<Longrightarrow> executions s = []
           \<Longrightarrow> reachable (st\<lparr>dcaStrategies := dcaStrategies st @ [s]\<rparr>)"
| by_record: "reachable st \<Longrightarrow> recordExecution st strategyId orderId amt ts = Inr st'
           \<Longrightarrow> reachable st'"
| by_reschedule: "reachable st \<Longrightarrow> updateNextExecution st strategyId next = Inr st'
           \<Longrightarrow> reachable st'"
| by_log: "reachable st \<Longrightarrow> reachable (logError st strategyId e ts)"
| by_trade: "reachable st \<Longrightarrow> placeTrade st now userId walletId sd tokIn amt tokOut slip = Inr (st', oid)
           \<Longrightarrow> reachable st'"
| by_tick: "reachable st \<Longrightarrow> reachable (fst (executeScheduledStrategies ev now strategies st))"
| by_averaging: "reachable st \<Longrightarrow> reachable (processValueAveraging ev strategies st)"
| by_boost: "reachable st \<Longrightarrow> reachable (fst (weekendBoost ev strategies st))"

section \<open>Concrete inputs\<close>

text \<open>Fifteen and twenty falling closes; twenty closes that fall and tick up once at the
  end; a flat window of fourteen; a flat candle.\<close>

definition falling15 :: "real list" where
  "falling15 = [15, 14, 13, 12, 11, 10, 9, 8, 7, 6, 5, 4, 3, 2, 1]"

definition falling20 :: "real list" where
  "falling20 = [20, 19, 18, 17, 16, 15, 14, 13, 12, 11, 10, 9, 8, 7, 6, 5, 4, 3, 2, 1]"

definition dip20 :: "real list" where
  "dip20 = [20, 19, 18, 17, 16, 15, 14, 13, 12, 11, 10, 9, 8, 7, 6, 5, 4, 3, 2, 3]"

definition flat14 :: "real list" where
  "flat14 = replicate 14 1"

definition flat_candle :: candle where
  "flat_candle = \<lparr>timestamp = 0, c_open = 1, high = 1, low = 1, close = 1, volume = 1\<rparr>"

text \<open>
  A store with one active user and one wallet; a dip-only strategy buying 50 a day with
  threshold -5; a strategy without a conditions block that has used up its three
  executions; two readings of the market, 3 per cent and 8 per cent down.
\<close>

definition user1 :: user where
  "user1 = \<lparr>u_isActive = True, dailyTrades = 10, maxOpenPositions = 5, lastActive = 0\<rparr>"

definition daily :: frequency where
  "daily = \<lparr>ftype = interval, fvalue = ''1d''\<rparr>"

definition dipOnly :: conditions where
  "dipOnly = \<lparr>minPrice = None, maxPrice = None, onlyBuyDips = True, dipThreshold = Some (- 5),
              volatilityAdjustment = False\<rparr>"

definition noLimits :: limits where
  "noLimits = \<lparr>maxInvestment = None, maxExecutions = None, endDate = None\<rparr>"

definition dipStrategy :: strategy where
  "dipStrategy =
     \<lparr>sid = 1, s_userId = 1, s_walletId = 1, isActive = True, isPaused = False,
      tokenIn = ''USDC'', tokenOut = ''SOL'', amount = 50, s_frequency = daily,
      s_conditions = Some dipOnly, s_limits = noLimits,
      s_advanced = \<lparr>valueAveraging = False, rebalancing = False, compounding = False\<rparr>,
      totalExecutions = 0, totalInvested = 0, nextExecution = Some 1000, executions = []\<rparr>"

definition cappedStrategy :: strategy where
  "cappedStrategy =
     \<lparr>sid = 2, s_userId = 1, s_walletId = 1, isActive = True, isPaused = False,
      tokenIn = ''USDC'', tokenOut = ''SOL'', amount = 50, s_frequency = daily,
      s_conditions = None,
      s_limits = \<lparr>maxInvestment = None, maxExecutions = Some 3, endDate = None\<rparr>,
      s_advanced = \<lparr>valueAveraging = True, rebalancing = False, compounding = False\<rparr>,
      totalExecutions = 3, totalInvested = 150, nextExecution = Some 1000, executions = []\<rparr>"

definition market :: "real \<Rightarrow> env" where
  "market change =
     \<lparr>getCurrentPrice = (\<lambda>_. Inr 100), getPriceChange24h = (\<lambda>_. Inr change),
      getPosition = (\<lambda>_ _. Inr None), dateNow = 1000\<rparr>"

definition db0 :: db where
  "db0 = \<lparr>users = [1 \<mapsto> user1], wallets = [1 \<mapsto> 1], orders = [], positions = [],
          dcaStrategies = [dipStrategy, cappedStrategy], errorLog = []\<rparr>"

text \<open>The store after the dip-only strategy's execution of time 1000 was recorded.\<close>

definition db1 :: db where
  "db1 = db0\<lparr>dcaStrategies :=
               [dipStrategy\<lparr>executions := [\<lparr>e_orderId = 0, e_timestamp = 1000, e_amountIn = 50\<rparr>],
                            totalExecutions := 1, totalInvested := 50\<rparr>,
                cappedStrategy]\<rparr>"

section \<open>Rounding to a double\<close>

lemma round_half_even_near: "\<bar>of_int (round_half_even r) - r\<bar> \<le> 1 / 2"
  unfolding round_half_even_def Let_def by (auto simp: abs_if) linarith+

lemma powr2_int: "(2::real) powr real_of_int n = 2 powi n"
  using powr_real_of_int'[of 2 n] by simp

lemma powi2_split: "(2::real) powi e = 2 powi (e - 52) * 2 ^ 52"
  using power_int_add[of "2::real" "e - 52" 52] by simp

lemma binary_exponent_bounds:
  assumes "0 < x"
  shows "2 powi (binary_exponent x) \<le> x \<and> x < 2 powi (binary_exponent x + 1)"
proof -
  have "\<lfloor>log 2 x\<rfloor> = binary_exponent x" using assms by (simp add: binary_exponent_def)
  then have "2 powr (real_of_int (binary_exponent x)) \<le> x
      \<and> x < 2 powr (real_of_int (binary_exponent x + 1))"
    using floor_log_eq_powr_iff[of x 2 "binary_exponent x"] assms by simp
  then show ?thesis by (simp only: powr2_int)
qed

lemma binary_exponent_eq:
  assumes "2 powi e \<le> x" and "x < 2 powi (e + 1)"
  shows "binary_exponent x = e"
proof -
  have pos: "0 < x" using assms(1) zero_less_power_int[of "2::real" e] by linarith
  have "2 powr (real_of_int e) \<le> x \<and> x < 2 powr (real_of_int (e + 1))"
    using assms by (simp only: powr2_int)
  then have "\<lfloor>log 2 x\<rfloor> = e" using floor_log_eq_powr_iff[of x 2 e] pos by simp
  then show ?thesis using pos by (simp add: binary_exponent_def)
qed

lemma double_round_error:
  assumes "0 \<le> x"
  shows "(1 - unit_roundoff) * x \<le> double_round x \<and> double_round x \<le> (1 + unit_roundoff) * x"
proof (cases "x = 0")
  case True
  then show ?thesis by (simp add: double_round_def)
next
  case False
  then have pos: "0 < x" using assms by simp
  define e where "e = binary_exponent x"
  define ulp :: real where "ulp = 2 powi (e - 52)"
  have ulp_pos: "0 < ulp" by (simp add: ulp_def zero_less_power_int)
  have lo: "2 powi e \<le> x" using binary_exponent_bounds[OF pos] by (simp add: e_def)
  have pe: "(2::real) powi e = ulp * 2 ^ 52" unfolding ulp_def by (rule powi2_split)
  have dr: "double_round x = of_int (round_half_even (x / ulp)) * ulp"
    using pos by (simp add: double_round_def Let_def e_def ulp_def)
  have "\<bar>of_int (round_half_even (x / ulp)) - x / ulp\<bar> \<le> 1 / 2" by (rule round_half_even_near)
  then have "\<bar>of_int (round_half_even (x / ulp)) - x / ulp\<bar> * ulp \<le> 1 / 2 * ulp"
    using ulp_pos by (simp only: mult_le_cancel_right_pos)
  moreover have "\<bar>of_int (round_half_even (x / ulp)) - x / ulp\<bar> * ulp = \<bar>double_round x - x\<bar>"
    using ulp_pos by (simp add: dr abs_mult[symmetric, of _ ulp, simplified] left_diff_distrib abs_mult_pos)
  ultimately have err: "\<bar>double_round x - x\<bar> \<le> ulp / 2" by simp
  have "ulp / 2 = unit_roundoff * (ulp * 2 ^ 52)" by (simp add: unit_roundoff_def)
  also have "\<dots> \<le> unit_roundoff * x" using lo pe by (simp add: unit_roundoff_def)
  finally have "\<bar>double_round x - x\<bar> \<le> unit_roundoff * x" using err by linarith
  then show ?thesis by (simp add: abs_le_iff algebra_simps)
qed

lemma rounds_within_double: "rounds_within unit_roundoff double_round"
  unfolding rounds_within_def using double_round_error by (simp add: unit_roundoff_def)

lemma rounds_within_id: "rounds_within 0 id"
  by (simp add: rounds_within_def)

lemma double_round_at:
  assumes "2 powi e \<le> \<bar>x\<bar>" and "\<bar>x\<bar> < 2 powi (e + 1)"
  shows "double_round x = of_int (round_half_even (x / 2 powi (e - 52))) * 2 powi (e - 52)"
proof -
  have pos: "0 < \<bar>x\<bar>" using assms(1) zero_less_power_int[of "2::real" e] by linarith
  have "binary_exponent \<bar>x\<bar> = e" using binary_exponent_eq[OF assms] by simp
  then show ?thesis using pos by (simp add: double_round_def Let_def)
qed

lemma double_round_3: "double_round 3 = 3"
  using double_round_at[of 1 3] by (simp add: round_half_even_def Let_def)

lemma double_round_6: "double_round 6 = 6"
  using double_round_at[of 2 6] by (simp add: round_half_even_def Let_def)

lemma double_round_d01: "double_round d01 = d01"
  using double_round_at[of "-4" d01] by (simp add: d01_def round_half_even_def Let_def)

lemma double_round_3d01: "double_round (3 * d01) = 5404319552844596 / 2 ^ 54"
  using double_round_at[of "-2" "3 * d01"] by (simp add: d01_def round_half_even_def Let_def)

lemma double_round_sum:
  "double_round (5404319552844596 / 2 ^ 54 + 5404319552844596 / 2 ^ 54) = 5404319552844596 / 2 ^ 53"
  using double_round_at[of "-1" "5404319552844596 / 2 ^ 54 + 5404319552844596 / 2 ^ 54"]
  by (simp add: round_half_even_def Let_def)

lemma double_round_quot:
  "double_round (5404319552844596 / 2 ^ 53 / 6) = 7205759403792795 / 2 ^ 56"
  using double_round_at[of "-4" "5404319552844596 / 2 ^ 53 / 6"]
  by (simp add: round_half_even_def Let_def)

text \<open>The roundings met by the EMA of a flat series, at 1 and at 123.456.\<close>

lemma double_round_m12: "double_round (2 / 13) = 1385722962267845 / 2 ^ 53"
  using double_round_at[of "-3" "2 / 13"] by (simp add: round_half_even_def Let_def)

lemma double_round_om12: "double_round (1 - 1385722962267845 / 2 ^ 53) = 7621476292473147 / 2 ^ 53"
  using double_round_at[of "-1" "1 - 1385722962267845 / 2 ^ 53"] by (simp add: round_half_even_def Let_def)

lemma double_round_m12_id: "double_round (1385722962267845 / 2 ^ 53) = 1385722962267845 / 2 ^ 53"
  using double_round_at[of "-3" "1385722962267845 / 2 ^ 53"] by (simp add: round_half_even_def Let_def)

lemma double_round_om12_id: "double_round (7621476292473147 / 2 ^ 53) = 7621476292473147 / 2 ^ 53"
  using double_round_at[of "-1" "7621476292473147 / 2 ^ 53"] by (simp add: round_half_even_def Let_def)

lemma double_round_one12: "double_round (1385722962267845 / 2 ^ 53 + 7621476292473147 / 2 ^ 53) = 1"
  using double_round_at[of "0" "1385722962267845 / 2 ^ 53 + 7621476292473147 / 2 ^ 53"] by (simp add: round_half_even_def Let_def)

lemma double_round_m26: "double_round (2 / 27) = 667199944795629 / 2 ^ 53"
  using double_round_at[of "-4" "2 / 27"] by (simp add: round_half_even_def Let_def)

lemma double_round_om26: "double_round (1 - 667199944795629 / 2 ^ 53) = 8339999309945363 / 2 ^ 53"
  using double_round_at[of "-1" "1 - 667199944795629 / 2 ^ 53"] by (simp add: round_half_even_def Let_def)

lemma double_round_m26_id: "double_round (667199944795629 / 2 ^ 53) = 667199944795629 / 2 ^ 53"
  using double_round_at[of "-4" "667199944795629 / 2 ^ 53"] by (simp add: round_half_even_def Let_def)

lemma double_round_om26_id: "double_round (8339999309945363 / 2 ^ 53) = 8339999309945363 / 2 ^ 53"
  using double_round_at[of "-1" "8339999309945363 / 2 ^ 53"] by (simp add: round_half_even_def Let_def)

lemma double_round_one26: "double_round (667199944795629 / 2 ^ 53 + 8339999309945363 / 2 ^ 53) = 1"
  using double_round_at[of "0" "667199944795629 / 2 ^ 53 + 8339999309945363 / 2 ^ 53"] by (simp add: round_half_even_def Let_def)

lemma double_round_c123_m12: "double_round (8687443681197687 / 2 ^ 46 * (1385722962267845 / 2 ^ 53)) = 2673059594214673 / 2 ^ 47"
  using double_round_at[of "4" "8687443681197687 / 2 ^ 46 * (1385722962267845 / 2 ^ 53)"] by (simp add: round_half_even_def Let_def)

lemma double_round_c123_om12: "double_round (8687443681197687 / 2 ^ 46 * (7621476292473147 / 2 ^ 53)) = 3675456942045175 / 2 ^ 45"
  using double_round_at[of "6" "8687443681197687 / 2 ^ 46 * (7621476292473147 / 2 ^ 53)"] by (simp add: round_half_even_def Let_def)

lemma double_round_c123_sum12: "double_round (2673059594214673 / 2 ^ 47 + 3675456942045175 / 2 ^ 45) = 4343721840598843 / 2 ^ 45"
  using double_round_at[of "6" "2673059594214673 / 2 ^ 47 + 3675456942045175 / 2 ^ 45"] by (simp add: round_half_even_def Let_def)

lemma double_round_e12_om12: "double_round (4343721840598843 / 2 ^ 45 * (7621476292473147 / 2 ^ 53)) = 3675456942045175 / 2 ^ 45"
  using double_round_at[of "6" "4343721840598843 / 2 ^ 45 * (7621476292473147 / 2 ^ 53)"] by (simp add: round_half_even_def Let_def)

lemma double_round_c123_m26: "double_round (8687443681197687 / 2 ^ 46 * (667199944795629 / 2 ^ 53)) = 5148114774043073 / 2 ^ 49"
  using double_round_at[of "3" "8687443681197687 / 2 ^ 46 * (667199944795629 / 2 ^ 53)"] by (simp add: round_half_even_def Let_def)

lemma double_round_c123_om26: "double_round (8687443681197687 / 2 ^ 46 * (8339999309945363 / 2 ^ 53)) = 8043929334442303 / 2 ^ 46"
  using double_round_at[of "6" "8687443681197687 / 2 ^ 46 * (8339999309945363 / 2 ^ 53)"] by (simp add: round_half_even_def Let_def)

lemma double_round_c123_sum26: "double_round (5148114774043073 / 2 ^ 49 + 8043929334442303 / 2 ^ 46) = 8687443681197687 / 2 ^ 46"
  using double_round_at[of "6" "5148114774043073 / 2 ^ 49 + 8043929334442303 / 2 ^ 46"] by (simp add: round_half_even_def Let_def)

lemma double_round_macd_c123: "double_round (4343721840598843 / 2 ^ 45 - 8687443681197687 / 2 ^ 46) = - (1 / 2 ^ 46)"
  using double_round_at[of "-46" "4343721840598843 / 2 ^ 45 - 8687443681197687 / 2 ^ 46"] by (simp add: round_half_even_def Let_def)

lemma double_round_hist_c123: "double_round (- (1 / 2 ^ 46) - 0) = - (1 / 2 ^ 46)"
  using double_round_at[of "-46" "- (1 / 2 ^ 46) - 0"] by (simp add: round_half_even_def Let_def)

section \<open>Arrays and sums\<close>

lemma foldl_plus_sum_list: "foldl (+) a xs = a + sum_list xs" for a :: real
  by (induction xs arbitrary: a) auto

lemma reduce_sum_sum_list: "reduce_sum xs = sum_list xs"
  by (simp add: reduce_sum_def foldl_plus_sum_list)

lemma slice_neg_drop: "0 < n \<Longrightarrow> slice_neg n xs = drop (length xs - n) xs"
  by (auto simp: slice_neg_def slice_from_def nat_diff_distrib' intro: arg_cong2[where f=drop])

lemma length_slice_neg: "0 < n \<Longrightarrow> n \<le> length xs \<Longrightarrow> length (slice_neg n xs) = n"
  by (simp add: slice_neg_drop)

lemma slice_neg_map: "slice_neg n (map f xs) = map f (slice_neg n xs)"
  by (simp add: slice_neg_def slice_from_def drop_map)

lemma length_price_changes: "length (price_changes xs) = length xs - 1"
  by (induction xs rule: price_changes.induct) auto

lemma sum_list_zero_all:
  fixes xs :: "real list"
  assumes "\<forall>x\<in>set xs. x = 0" shows "sum_list xs = 0"
  using assms by (induction xs) auto

lemma sum_list_pos_all:
  fixes xs :: "real list"
  assumes "xs \<noteq> []" "\<forall>x\<in>set xs. 0 < x" shows "0 < sum_list xs"
  using assms by (induction xs) (auto intro: add_pos_nonneg sum_list_nonneg less_imp_le)

lemma last_in_slice_neg:
  assumes "xs \<noteq> []" and "0 < n"
  shows "last xs \<in> set (slice_neg n xs)"
proof -
  have lt: "length xs - n < length xs" using assms by (cases xs) auto
  then have ne: "drop (length xs - n) xs \<noteq> []" by simp
  then have "last (drop (length xs - n) xs) \<in> set (drop (length xs - n) xs)" by (rule last_in_set)
  moreover have "last (drop (length xs - n) xs) = last xs" using lt by (rule last_drop)
  ultimately show ?thesis using assms(2) by (simp add: slice_neg_drop)
qed

lemma slice_range_last_window:
  "0 < period \<Longrightarrow> period \<le> length xs \<Longrightarrow>
     slice_range (length xs - period) (length xs) xs = slice_neg period xs"
  by (simp add: slice_range_def slice_neg_drop)

section \<open>The relative strength index\<close>

lemma avgGain_sum: "avgGain prices period =
   sum_list (map (\<lambda>c. max c 0) (slice_neg period (price_changes prices))) / real period"
proof -
  have "(\<lambda>c::real. if c > 0 then c else 0) = (\<lambda>c. max c 0)" by (auto simp: fun_eq_iff)
  then show ?thesis
    by (simp add: avgGain_def gains_def slice_neg_map reduce_sum_sum_list)
qed

lemma avgLoss_sum: "avgLoss prices period =
   sum_list (map (\<lambda>c. max (- c) 0) (slice_neg period (price_changes prices))) / real period"
proof -
  have "(\<lambda>c::real. if c < 0 then \<bar>c\<bar> else 0) = (\<lambda>c. max (- c) 0)" by (auto simp: fun_eq_iff)
  then show ?thesis
    by (simp add: avgLoss_def losses_def slice_neg_map reduce_sum_sum_list)
qed

lemma avgGain_nonneg: "0 \<le> avgGain prices period"
  unfolding avgGain_sum by (intro divide_nonneg_nonneg sum_list_nonneg) auto

lemma avgLoss_nonneg: "0 \<le> avgLoss prices period"
  unfolding avgLoss_sum by (intro divide_nonneg_nonneg sum_list_nonneg) auto

lemma rsi_formula_range:
  fixes g l :: real
  assumes "0 \<le> g" "0 < l"
  shows "0 \<le> 100 - 100 / (1 + g / l)" "100 - 100 / (1 + g / l) \<le> 100"
proof -
  have q: "1 \<le> 1 + g / l" using assms by simp
  have "100 / (1 + g / l) \<le> 100 / 1"
    using q by (intro divide_left_mono) auto
  then show "0 \<le> 100 - 100 / (1 + g / l)" by simp
  have "0 \<le> 100 / (1 + g / l)" using q by (intro divide_nonneg_nonneg) auto
  then show "100 - 100 / (1 + g / l) \<le> 100" by simp
qed

text \<open>
  Claim C8. For a series long enough to compute it (more than \<open>period\<close> closes, the
  program uses period 14), the RSI is a number between 0 and 100. It is 100 when the
  trailing average loss is 0, and otherwise \<open>100 - 100 / (1 + avgGain / avgLoss)\<close>, where
  the two averages are the plain sums of the gains and of the losses among the last
  \<open>period\<close> price changes, divided by the period (simple averages, not exponential ones).
  A window of gains only gives 100 and a window of losses only gives 0.
\<close>

theorem calculateRSI_range:
  assumes "0 < period" and "period + 1 \<le> length prices"
  shows "\<exists>r. calculateRSI prices period = Some r \<and> 0 \<le> r \<and> r \<le> 100
           \<and> (avgLoss prices period = 0 \<longrightarrow> r = 100)
           \<and> (avgLoss prices period \<noteq> 0 \<longrightarrow>
                r = 100 - 100 / (1 + avgGain prices period / avgLoss prices period))
           \<and> avgGain prices period =
                sum_list (map (\<lambda>c. max c 0) (slice_neg period (price_changes prices))) / real period
           \<and> avgLoss prices period =
                sum_list (map (\<lambda>c. max (- c) 0) (slice_neg period (price_changes prices))) / real period
           \<and> ((\<forall>c\<in>set (slice_neg period (price_changes prices)). 0 \<le> c) \<longrightarrow> r = 100)
           \<and> ((\<forall>c\<in>set (slice_neg period (price_changes prices)). c < 0) \<longrightarrow> r = 0)"
proof -
  let ?W = "slice_neg period (price_changes prices)"
  let ?g = "avgGain prices period" and ?l = "avgLoss prices period"
  have len: "length ?W = period"
    using assms by (simp add: length_slice_neg length_price_changes)
  have W_ne: "?W \<noteq> []" using len assms(1) by auto
  have gains_case: "?l = 0" if "\<forall>c\<in>set ?W. 0 \<le> c"
  proof -
    have "sum_list (map (\<lambda>c. max (- c) 0) ?W) = 0"
      using that by (intro sum_list_zero_all) auto
    then show ?thesis by (simp add: avgLoss_sum)
  qed
  have losses_case: "?g = 0 \<and> 0 < ?l" if "\<forall>c\<in>set ?W. c < 0"
  proof -
    have "sum_list (map (\<lambda>c. max c 0) ?W) = 0"
      using that by (intro sum_list_zero_all) (auto simp: max_def)
    moreover have "0 < sum_list (map (\<lambda>c. max (- c) 0) ?W)"
      using that W_ne by (intro sum_list_pos_all) (auto simp: max_def)
    ultimately show ?thesis using assms(1) by (simp add: avgGain_sum avgLoss_sum)
  qed
  show ?thesis
  proof (cases "?l = 0")
    case True
    then have "calculateRSI prices period = Some 100"
      using assms by (simp add: calculateRSI_def)
    moreover have "\<not> (\<forall>c\<in>set ?W. c < 0)" using losses_case True by auto
    ultimately show ?thesis using True avgGain_sum avgLoss_sum by auto
  next
    case False
    then have lpos: "0 < ?l" using avgLoss_nonneg[of prices period] by simp
    have r: "calculateRSI prices period = Some (100 - 100 / (1 + ?g / ?l))"
      using assms False by (simp add: calculateRSI_def)
    have rng: "0 \<le> 100 - 100 / (1 + ?g / ?l)" "100 - 100 / (1 + ?g / ?l) \<le> 100"
      using rsi_formula_range[OF avgGain_nonneg lpos] by auto
    have "\<not> (\<forall>c\<in>set ?W. 0 \<le> c)" using gains_case False by auto
    moreover have "100 - 100 / (1 + ?g / ?l) = 0" if "\<forall>c\<in>set ?W. c < 0"
      using losses_case[OF that] by simp
    ultimately show ?thesis using r rng False avgGain_sum avgLoss_sum by auto
  qed
qed

theorem calculateRSI_range_witness:
  "0 < (14::nat) \<and> 14 + 1 \<le> length falling15 \<and> calculateRSI falling15 14 = Some 0"
proof -
  have h1: "0 < (14::nat)" and h2: "14 + 1 \<le> length falling15"
    by (simp_all add: falling15_def)
  have neg: "\<forall>c\<in>set (slice_neg 14 (price_changes falling15)). c < 0"
    by (simp add: falling15_def slice_neg_def slice_from_def)
  from calculateRSI_range[OF h1 h2] obtain r where r: "calculateRSI falling15 14 = Some r"
    and z: "(\<forall>c\<in>set (slice_neg 14 (price_changes falling15)). c < 0) \<longrightarrow> r = 0"
    by (elim exE conjE)
  from z neg have "r = 0" by (rule mp)
  with r have "calculateRSI falling15 14 = Some 0" by simp
  with h1 h2 show ?thesis by simp
qed

section \<open>Insufficient data\<close>

lemma calculateSMA_None_iff: "calculateSMA prices period = None \<longleftrightarrow> length prices < period"
  by (simp add: calculateSMA_def)

lemma calculateEMA_short: "length prices < period \<Longrightarrow> calculateEMA fl prices period = None"
  by (simp add: calculateEMA_def)

lemma calculateMACD_short: "length prices < 26 \<Longrightarrow> calculateMACD fl prices = None"
  by (simp add: calculateMACD_def calculateEMA_def Let_def)

lemma calculateRSI_None_iff: "calculateRSI prices period = None \<longleftrightarrow> length prices < period + 1"
  by (simp add: calculateRSI_def Let_def)

lemma calculateStochastic_None_iff:
  "calculateStochastic highs lows closes period = None \<longleftrightarrow> length highs < period"
  by (simp add: calculateStochastic_def Let_def)

lemma calculateWilliamsR_None_iff:
  "calculateWilliamsR highs lows closes period = None \<longleftrightarrow> length highs < period"
  by (simp add: calculateWilliamsR_def Let_def)

lemma calculateBollingerBands_short:
  "length prices < period \<Longrightarrow> calculateBollingerBands prices period stdDev = None"
  by (simp add: calculateBollingerBands_def)

lemma calculateATR_None_iff:
  "calculateATR highs lows closes period = None \<longleftrightarrow> length highs < period + 1"
  by (auto simp: calculateATR_def calculateSMA_def trueRanges_def)

lemma length_concat_le:
  "(\<And>x. x \<in> set xs \<Longrightarrow> length (f x) \<le> 1) \<Longrightarrow> length (concat (map f xs)) \<le> length xs"
proof (induction xs)
  case Nil
  then show ?case by simp
next
  case (Cons x xs)
  have "length (f x) \<le> 1" using Cons.prems by simp
  moreover have "length (concat (map f xs)) \<le> length xs" using Cons by simp
  ultimately show ?case by simp
qed

lemma length_macdHistory: "length (macdHistory fl prices) \<le> length prices - 25"
proof -
  have "length (macdHistory fl prices) \<le> length [26 ..< Suc (length prices)]"
    unfolding macdHistory_def by (rule length_concat_le) (simp add: Let_def)
  moreover have "length [26 ..< Suc (length prices)] = Suc (length prices) - 26"
    by (simp only: length_upt)
  ultimately show ?thesis by arith
qed

lemma calculateMACD_signal_zero:
  assumes "length prices < 34" and "calculateMACD fl prices = Some m"
  shows "signal m = 0"
proof -
  have "length (macdHistory fl prices) < 9" using length_macdHistory[of fl prices] assms(1) by simp
  then have "calculateEMA fl (macdHistory fl prices) 9 = None" by (rule calculateEMA_short)
  then show ?thesis
    using assms(2) by (auto simp: calculateMACD_def Let_def split: if_splits)
qed

lemma calculateOBV_short: "length prices < 2 \<Longrightarrow> calculateOBV prices volumes = Num 0"
  by (simp add: calculateOBV_def)

lemma calculateTrendStrength_no_sma50:
  assumes "20 \<le> length prices" and "length prices < 50"
  shows "calculateTrendStrength prices =
           (if last prices > or_default (calculateSMA prices 20) 0 then 25 else 0)
           + (if last prices > 0 then 25 else 0)
           + (if or_default (calculateSMA prices 20) 0 > 0 then 25 else 0)
           + (if last prices > hd (slice_neg 10 prices) then 25 else 0)"
proof -
  have "calculateSMA prices 50 = None" using assms(2) by (simp add: calculateSMA_def)
  then have "or_default (calculateSMA prices 50) 0 = 0" by (simp add: or_default_def)
  then show ?thesis using assms(1) by (simp add: calculateTrendStrength_def Let_def)
qed

lemma ema_loop_fixed:
  "fl (fl (c * m) + fl (e * fl (1 - m))) = e \<Longrightarrow> ema_loop fl m e (replicate n c) = e"
  by (induction n) simp_all

text \<open>The EMA of a flat series, when the loop settles after one turn.\<close>

lemma calculateEMA_flat:
  assumes "fl (fl (c * fl (2 / (real p + 1))) + fl (c * fl (1 - fl (2 / (real p + 1))))) = e"
    and "fl (fl (c * fl (2 / (real p + 1))) + fl (e * fl (1 - fl (2 / (real p + 1))))) = e"
    and "p \<le> n" and "2 \<le> n"
  shows "calculateEMA fl (replicate n c) p = Some e"
proof -
  obtain n' where n: "n = Suc (Suc n')"
    using assms(4) by (metis add_2_eq_Suc le_Suc_ex)
  show ?thesis
    using assms(1,2,3) unfolding n by (simp add: calculateEMA_def ema_loop_fixed)
qed

lemma multiplier12: "double_round (2 / (real 12 + 1)) = 1385722962267845 / 2 ^ 53"
proof -
  have "2 / (real 12 + 1) = (2 / 13 :: real)" by simp
  then show ?thesis by (simp only: double_round_m12)
qed

lemma multiplier26: "double_round (2 / (real 26 + 1)) = 667199944795629 / 2 ^ 53"
proof -
  have "2 / (real 26 + 1) = (2 / 27 :: real)" by simp
  then show ?thesis by (simp only: double_round_m26)
qed

lemma ema12_flat1:
  assumes "12 \<le> n"
  shows "calculateEMA double_round (replicate n 1) 12 = Some 1"
proof -
  have st: "double_round (double_round (1 * double_round (2 / (real 12 + 1)))
              + double_round (1 * double_round (1 - double_round (2 / (real 12 + 1))))) = 1"
    by (simp only: multiplier12 mult_1 double_round_om12 double_round_m12_id
        double_round_om12_id double_round_one12)
  have n2: "2 \<le> n" using assms by simp
  show ?thesis by (rule calculateEMA_flat[of double_round 1 _ 1, OF st st assms n2])
qed

lemma ema26_flat1:
  assumes "26 \<le> n"
  shows "calculateEMA double_round (replicate n 1) 26 = Some 1"
proof -
  have st: "double_round (double_round (1 * double_round (2 / (real 26 + 1)))
              + double_round (1 * double_round (1 - double_round (2 / (real 26 + 1))))) = 1"
    by (simp only: multiplier26 mult_1 double_round_om26 double_round_m26_id
        double_round_om26_id double_round_one26)
  have n2: "2 \<le> n" using assms by simp
  show ?thesis by (rule calculateEMA_flat[of double_round 1 _ 1, OF st st assms n2])
qed

lemma macd_flat26:
  "calculateMACD double_round (replicate 26 1) = Some \<lparr>macd = 0, signal = 0, histogram = 0\<rparr>"
proof -
  have e12: "calculateEMA double_round (replicate 26 1) 12 = Some 1" by (rule ema12_flat1) simp
  have e26: "calculateEMA double_round (replicate 26 1) 26 = Some 1" by (rule ema26_flat1) simp
  have z: "double_round 0 = 0" by (simp add: double_round_def)
  have h: "macdHistory double_round (replicate 26 1) = [0]"
    by (simp add: macdHistory_def e12 e26 z Let_def)
  have sg: "calculateEMA double_round [0] 9 = None" by (simp add: calculateEMA_def)
  show ?thesis
    by (simp add: calculateMACD_def e12 e26 h sg z Let_def)
qed

lemma trend_flat20: "calculateTrendStrength (replicate 20 1) = 50"
proof -
  have s: "calculateSMA (replicate 20 1) 20 = Some 1"
    by (simp add: calculateSMA_def slice_neg_def slice_from_def reduce_sum_def numeral_eq_Suc)
  have l: "last (replicate 20 (1::real)) = 1" by simp
  have h: "hd (slice_neg 10 (replicate 20 (1::real))) = 1"
    by (simp add: slice_neg_def slice_from_def numeral_eq_Suc)
  show ?thesis
    using calculateTrendStrength_no_sma50[of "replicate 20 1"]
    by (simp add: s l h or_default_def)
qed

text \<open>
  Claim C2 says that each indicator returns null below its minimum window and that the
  entry point never raises an insufficient-data error. Neither holds throughout. The
  handler \<open>calculateTokenIndicators\<close> raises "Insufficient price data for technical
  analysis" on a history of 19 candles. The composite scores return numbers, not null, on
  series too short for them: trend strength 0 and volatility 0 on fifteen closes, momentum
  50 on three, and the on-balance volume 0 on a single close. On 26 flat closes the MACD
  is present with a signal line of 0, the nine values its signal line averages not being
  there; on 20 flat closes at 1 the SMA50 is null and the trend strength is 50, the two
  comparisons against the missing SMA50 being made against 0.
\<close>

theorem indicators_not_all_null:
  "calculateTokenIndicators double_round (Inr (replicate 19 flat_candle)) (\<lambda>_. None) = Inl InsufficientPriceData
   \<and> calculateTrendStrength falling15 = 0
   \<and> calculateVolatilityScore falling15 = Num 0
   \<and> calculateMomentumScore [3, 2, 1] = Num 50
   \<and> calculateOBV [5] [7] = Num 0
   \<and> calculateMACD double_round (replicate 26 1) = Some \<lparr>macd = 0, signal = 0, histogram = 0\<rparr>
   \<and> calculateSMA (replicate 20 1) 50 = None
   \<and> calculateTrendStrength (replicate 20 1) = 50"
  using macd_flat26 trend_flat20
  by (simp add: calculateTokenIndicators_def calculateTrendStrength_def
      calculateVolatilityScore_def calculateMomentumScore_def calculateOBV_def falling15_def
      calculateSMA_def)

text \<open>
  Claim C2, amended. Inside the indicator computation nothing is raised on a short series,
  and each windowed indicator returns null below its own window: SMA, EMA and the
  Bollinger bands below \<open>period\<close> values, MACD below 26, RSI and ATR below
  \<open>period + 1\<close>, Stochastic and Williams %R below \<open>period\<close>; SMA, RSI, Stochastic,
  Williams %R and ATR are null in no other case. The other indicators degrade to fixed
  numbers instead of null: below 34 closes a MACD that is present has the signal line 0;
  below 20 closes the trend strength is 0 and the volatility score 0; below 10 closes the
  momentum score is 50; below 2 closes the on-balance volume is 0; and from 20 to 49
  closes the trend strength is computed with 0 in the place of the missing SMA50. The entry
  point \<open>calculateTokenIndicators\<close> raises the insufficient-data error when its history
  has fewer than 20 candles; on 20 or more it returns the snapshot, unless storing it
  fails, and in that snapshot SMA200 is null exactly below 200 candles and SMA50 exactly
  below 50, while SMA20 and RSI are present. A failure of the history query is passed on.
\<close>

theorem indicators_degrade:
  "(calculateSMA prices period = None \<longleftrightarrow> length prices < period)
   \<and> (length prices < period \<longrightarrow> calculateEMA fl prices period = None)
   \<and> (length prices < 26 \<longrightarrow> calculateMACD fl prices = None)
   \<and> (calculateRSI prices period = None \<longleftrightarrow> length prices < period + 1)
   \<and> (calculateStochastic highs lows closes period = None \<longleftrightarrow> length highs < period)
   \<and> (calculateWilliamsR highs lows closes period = None \<longleftrightarrow> length highs < period)
   \<and> (length prices < period \<longrightarrow> calculateBollingerBands prices period stdDev = None)
   \<and> (calculateATR highs lows closes period = None \<longleftrightarrow> length highs < period + 1)
   \<and> (length prices < 34 \<longrightarrow> (\<forall>m. calculateMACD fl prices = Some m \<longrightarrow> signal m = 0))
   \<and> (length prices < 20 \<longrightarrow>
        calculateTrendStrength prices = 0 \<and> calculateVolatilityScore prices = Num 0)
   \<and> (length prices < 10 \<longrightarrow> calculateMomentumScore prices = Num 50)
   \<and> (length prices < 2 \<longrightarrow> calculateOBV prices volumes = Num 0)
   \<and> (20 \<le> length prices \<and> length prices < 50 \<longrightarrow>
        calculateTrendStrength prices =
          (if last prices > or_default (calculateSMA prices 20) 0 then 25 else 0)
          + (if last prices > 0 then 25 else 0)
          + (if or_default (calculateSMA prices 20) 0 > 0 then 25 else 0)
          + (if last prices > hd (slice_neg 10 prices) then 25 else 0))
   \<and> (length priceHistory < 20 \<longrightarrow>
        calculateTokenIndicators fl (Inr priceHistory) storeIndicators = Inl InsufficientPriceData)
   \<and> (20 \<le> length priceHistory \<longrightarrow>
        calculateTokenIndicators fl (Inr priceHistory) storeIndicators =
          (case storeIndicators (calculateAllIndicators fl priceHistory) of
             Some e \<Rightarrow> Inl e
           | None \<Rightarrow> Inr (calculateAllIndicators fl priceHistory))
        \<and> (sma200 (calculateAllIndicators fl priceHistory) = None \<longleftrightarrow> length priceHistory < 200)
        \<and> (sma50 (calculateAllIndicators fl priceHistory) = None \<longleftrightarrow> length priceHistory < 50)
        \<and> sma20 (calculateAllIndicators fl priceHistory) \<noteq> None
        \<and> rsi (calculateAllIndicators fl priceHistory) \<noteq> None)
   \<and> calculateTokenIndicators fl (Inl e) storeIndicators = Inl e"
proof -
  have c1: "calculateSMA prices period = None \<longleftrightarrow> length prices < period"
    by (rule calculateSMA_None_iff)
  have c2: "length prices < period \<longrightarrow> calculateEMA fl prices period = None"
    by (simp add: calculateEMA_short)
  have c3: "length prices < 26 \<longrightarrow> calculateMACD fl prices = None"
    by (simp add: calculateMACD_short)
  have c4: "calculateRSI prices period = None \<longleftrightarrow> length prices < period + 1"
    by (rule calculateRSI_None_iff)
  have c5: "calculateStochastic highs lows closes period = None \<longleftrightarrow> length highs < period"
    by (rule calculateStochastic_None_iff)
  have c6: "calculateWilliamsR highs lows closes period = None \<longleftrightarrow> length highs < period"
    by (rule calculateWilliamsR_None_iff)
  have c7: "length prices < period \<longrightarrow> calculateBollingerBands prices period stdDev = None"
    by (simp add: calculateBollingerBands_short)
  have c8: "calculateATR highs lows closes period = None \<longleftrightarrow> length highs < period + 1"
    by (rule calculateATR_None_iff)
  have c9: "length prices < 34 \<longrightarrow> (\<forall>m. calculateMACD fl prices = Some m \<longrightarrow> signal m = 0)"
    using calculateMACD_signal_zero[of prices fl] by blast
  have c10: "length prices < 20 \<longrightarrow>
        calculateTrendStrength prices = 0 \<and> calculateVolatilityScore prices = Num 0"
    by (simp add: calculateTrendStrength_def calculateVolatilityScore_def)
  have c11: "length prices < 10 \<longrightarrow> calculateMomentumScore prices = Num 50"
    by (simp add: calculateMomentumScore_def)
  have c12: "length prices < 2 \<longrightarrow> calculateOBV prices volumes = Num 0"
    by (simp add: calculateOBV_short)
  have c13: "20 \<le> length prices \<and> length prices < 50 \<longrightarrow>
        calculateTrendStrength prices =
          (if last prices > or_default (calculateSMA prices 20) 0 then 25 else 0)
          + (if last prices > 0 then 25 else 0)
          + (if or_default (calculateSMA prices 20) 0 > 0 then 25 else 0)
          + (if last prices > hd (slice_neg 10 prices) then 25 else 0)"
    using calculateTrendStrength_no_sma50[of prices] by blast
  have c14: "length priceHistory < 20 \<longrightarrow>
        calculateTokenIndicators fl (Inr priceHistory) storeIndicators = Inl InsufficientPriceData"
    by (simp add: calculateTokenIndicators_def)
  have c15: "20 \<le> length priceHistory \<longrightarrow>
        calculateTokenIndicators fl (Inr priceHistory) storeIndicators =
          (case storeIndicators (calculateAllIndicators fl priceHistory) of
             Some e \<Rightarrow> Inl e
           | None \<Rightarrow> Inr (calculateAllIndicators fl priceHistory))
        \<and> (sma200 (calculateAllIndicators fl priceHistory) = None \<longleftrightarrow> length priceHistory < 200)
        \<and> (sma50 (calculateAllIndicators fl priceHistory) = None \<longleftrightarrow> length priceHistory < 50)
        \<and> sma20 (calculateAllIndicators fl priceHistory) \<noteq> None
        \<and> rsi (calculateAllIndicators fl priceHistory) \<noteq> None"
  proof
    assume l: "20 \<le> length priceHistory"
    have e: "calculateTokenIndicators fl (Inr priceHistory) storeIndicators =
          (case storeIndicators (calculateAllIndicators fl priceHistory) of
             Some e \<Rightarrow> Inl e
           | None \<Rightarrow> Inr (calculateAllIndicators fl priceHistory))"
      using l by (simp add: calculateTokenIndicators_def Let_def)
    have s: "(sma200 (calculateAllIndicators fl priceHistory) = None \<longleftrightarrow> length priceHistory < 200)
        \<and> (sma50 (calculateAllIndicators fl priceHistory) = None \<longleftrightarrow> length priceHistory < 50)
        \<and> sma20 (calculateAllIndicators fl priceHistory) \<noteq> None
        \<and> rsi (calculateAllIndicators fl priceHistory) \<noteq> None"
      using l by (simp add: calculateAllIndicators_def Let_def calculateSMA_None_iff
          calculateRSI_None_iff)
    from e s show "calculateTokenIndicators fl (Inr priceHistory) storeIndicators =
          (case storeIndicators (calculateAllIndicators fl priceHistory) of
             Some e \<Rightarrow> Inl e
           | None \<Rightarrow> Inr (calculateAllIndicators fl priceHistory))
        \<and> (sma200 (calculateAllIndicators fl priceHistory) = None \<longleftrightarrow> length priceHistory < 200)
        \<and> (sma50 (calculateAllIndicators fl priceHistory) = None \<longleftrightarrow> length priceHistory < 50)
        \<and> sma20 (calculateAllIndicators fl priceHistory) \<noteq> None
        \<and> rsi (calculateAllIndicators fl priceHistory) \<noteq> None" by (rule conjI)
  qed
  have c16: "calculateTokenIndicators fl (Inl e) storeIndicators = Inl e"
    by (simp add: calculateTokenIndicators_def)
  show ?thesis
    by (intro conjI) (fact c1 c2 c3 c4 c5 c6 c7 c8 c9 c10 c11 c12 c13 c14 c15 c16)+
qed

theorem indicators_degrade_witness:
  "calculateSMA falling15 20 = None \<and> calculateEMA double_round falling15 20 = None
   \<and> calculateMACD double_round falling15 = None \<and> calculateRSI falling15 20 = None
   \<and> calculateStochastic falling15 falling15 falling15 20 = None
   \<and> calculateWilliamsR falling15 falling15 falling15 20 = None
   \<and> calculateBollingerBands falling15 20 2 = None
   \<and> calculateATR falling15 falling15 falling15 20 = None
   \<and> calculateTrendStrength falling15 = 0
   \<and> calculateVolatilityScore falling15 = Num 0
   \<and> calculateMomentumScore [3, 2, 1] = Num 50
   \<and> calculateOBV [5] [7] = Num 0
   \<and> map_option signal (calculateMACD double_round (replicate 26 1)) = Some 0
   \<and> calculateTrendStrength (replicate 20 1) = 50
   \<and> calculateTokenIndicators double_round (Inr (replicate 19 flat_candle)) (\<lambda>_. None) = Inl InsufficientPriceData
   \<and> calculateTokenIndicators double_round (Inl QueryFailed) (\<lambda>_. None) = Inl QueryFailed
   \<and> (\<exists>i. calculateTokenIndicators double_round (Inr (replicate 20 flat_candle)) (\<lambda>_. None) = Inr i
          \<and> sma200 i = None \<and> sma50 i = None \<and> sma20 i \<noteq> None \<and> rsi i \<noteq> None)"
proof -
  have a: "calculateSMA falling15 20 = None \<and> calculateEMA double_round falling15 20 = None
   \<and> calculateMACD double_round falling15 = None \<and> calculateRSI falling15 20 = None
   \<and> calculateStochastic falling15 falling15 falling15 20 = None
   \<and> calculateWilliamsR falling15 falling15 falling15 20 = None
   \<and> calculateBollingerBands falling15 20 2 = None
   \<and> calculateATR falling15 falling15 falling15 20 = None
   \<and> calculateTrendStrength falling15 = 0
   \<and> calculateVolatilityScore falling15 = Num 0
   \<and> calculateTokenIndicators double_round (Inr (replicate 19 flat_candle)) (\<lambda>_. None) = Inl InsufficientPriceData
   \<and> calculateTokenIndicators double_round (Inl QueryFailed) (\<lambda>_. None) = Inl QueryFailed"
    using indicators_degrade[of falling15 20 double_round falling15 falling15 falling15 2 "[]"
            "replicate 19 flat_candle" "\<lambda>_. None" QueryFailed]
    by (simp add: falling15_def)
  have b: "calculateMomentumScore [3, 2, 1] = Num 50 \<and> calculateOBV [5] [7] = Num 0"
    using indicators_degrade[of "[3, 2, 1]" 20 double_round "[]" "[]" "[]" 2 "[7]" "[]" "\<lambda>_. None" QueryFailed]
          indicators_degrade[of "[5]" 20 double_round "[]" "[]" "[]" 2 "[7]" "[]" "\<lambda>_. None" QueryFailed]
    by simp
  have c: "map_option signal (calculateMACD double_round (replicate 26 1)) = Some 0"
    using indicators_degrade[of "replicate 26 1" 20 double_round "[]" "[]" "[]" 2 "[]" "[]" "\<lambda>_. None" QueryFailed]
          macd_flat26
    by simp
  have s: "calculateSMA (replicate 20 1) 20 = Some 1"
    by (simp add: calculateSMA_def slice_neg_def slice_from_def reduce_sum_def numeral_eq_Suc)
  have h: "hd (slice_neg 10 (replicate 20 (1::real))) = 1"
    by (simp add: slice_neg_def slice_from_def numeral_eq_Suc)
  have d: "calculateTrendStrength (replicate 20 1) = 50"
    using indicators_degrade[of "replicate 20 1" 20 double_round "[]" "[]" "[]" 2 "[]" "[]" "\<lambda>_. None" QueryFailed]
    by (simp add: s h or_default_def)
  have e: "\<exists>i. calculateTokenIndicators double_round (Inr (replicate 20 flat_candle)) (\<lambda>_. None) = Inr i
          \<and> sma200 i = None \<and> sma50 i = None \<and> sma20 i \<noteq> None \<and> rsi i \<noteq> None"
    using indicators_degrade[of "[]" 20 double_round "[]" "[]" "[]" 2 "[]" "replicate 20 flat_candle"
            "\<lambda>_. None" QueryFailed]
    by simp
  show ?thesis using a b c d e by simp
qed

section \<open>Vote aggregation\<close>

lemma votes_agree_push:
  "votes_agree v \<Longrightarrow> w = spec_weight (etype e) \<Longrightarrow> bull = bullish_kind (esignal e)
     \<Longrightarrow> votes_agree (push_vote bull w e v)"
  by (simp add: votes_agree_def push_vote_def spec_bullish_votes_def spec_bearish_votes_def)

lemma votes_agree_rsi: "votes_agree v \<Longrightarrow> votes_agree (rsi_votes r v)"
  by (simp add: rsi_votes_def votes_agree_push)

lemma votes_agree_macd: "votes_agree v \<Longrightarrow> votes_agree (macd_votes m v)"
  by (simp add: macd_votes_def votes_agree_push split: option.splits)

lemma votes_agree_ma: "votes_agree v \<Longrightarrow> votes_agree (ma_votes c a b v)"
  by (simp add: ma_votes_def votes_agree_push)

lemma votes_agree_bb: "votes_agree v \<Longrightarrow> votes_agree (bb_votes c b v)"
  by (simp add: bb_votes_def votes_agree_push split: option.splits)

lemma votes_agree_collect: "votes_agree (collectVotes fl prices)"
proof -
  have "votes_agree \<lparr>bullishSignals = 0, bearishSignals = 0, entries = []\<rparr>"
    by (simp add: votes_agree_def spec_bullish_votes_def spec_bearish_votes_def)
  then show ?thesis
    unfolding collectVotes_def countVotes_def
    by (intro votes_agree_bb votes_agree_ma votes_agree_macd votes_agree_rsi)
qed

text \<open>The entries the synthesizer reports are the votes it counted, each with the weight
  the specification gives its indicator, and the overall signal follows from the net count.\<close>

lemma reported_entries_are_votes:
  "let r = generateTradingSignals fl prices highs lows volumes;
       net = spec_bullish_votes (signals r) - spec_bearish_votes (signals r)
   in signals r = entries (collectVotes fl prices)
      \<and> bullishSignals (collectVotes fl prices) = spec_bullish_votes (signals r)
      \<and> bearishSignals (collectVotes fl prices) = spec_bearish_votes (signals r)
      \<and> (\<bar>net\<bar> \<le> 1 \<longrightarrow> overall r = neutral \<and> strength r = 0)
      \<and> (net > 1 \<longrightarrow> overall r = bullish \<and> strength r = min 100 (net * 20))
      \<and> (net < - 1 \<longrightarrow> overall r = bearish \<and> strength r = min 100 (\<bar>net\<bar> * 20))"
proof -
  have sig: "signals (generateTradingSignals fl prices highs lows volumes) = entries (collectVotes fl prices)"
    by (simp add: generateTradingSignals_def Let_def)
  have ag: "bullishSignals (collectVotes fl prices) = spec_bullish_votes (entries (collectVotes fl prices))"
    "bearishSignals (collectVotes fl prices) = spec_bearish_votes (entries (collectVotes fl prices))"
    using votes_agree_collect[of fl prices] by (simp_all add: votes_agree_def)
  show ?thesis
    unfolding Let_def sig
    using ag by (simp add: generateTradingSignals_def Let_def)
qed

text \<open>When each block votes, for every snapshot of indicator values and every price.\<close>

lemma countVotes_counts:
  "bullishSignals (countVotes rsiv macdv bb s20 s50 cur) =
     (if truthy rsiv \<and> the rsiv < 30 then 2 else 0)
     + (if macdv \<noteq> None \<and> macd (the macdv) > signal (the macdv) \<and> histogram (the macdv) > 0
        then 1 else 0)
     + (if truthy s20 \<and> truthy s50 \<and> price_gt cur (the s20) \<and> the s20 > the s50 then 1 else 0)
     + (if bb \<noteq> None \<and> price_lt cur (lower (the bb)) then 1 else 0)"
  "bearishSignals (countVotes rsiv macdv bb s20 s50 cur) =
     (if truthy rsiv \<and> \<not> the rsiv < 30 \<and> the rsiv > 70 then 2 else 0)
     + (if macdv \<noteq> None \<and> \<not> (macd (the macdv) > signal (the macdv) \<and> histogram (the macdv) > 0)
           \<and> macd (the macdv) < signal (the macdv) \<and> histogram (the macdv) < 0
        then 1 else 0)
     + (if truthy s20 \<and> truthy s50 \<and> \<not> (price_gt cur (the s20) \<and> the s20 > the s50)
           \<and> price_lt cur (the s20) \<and> the s20 < the s50 then 1 else 0)
     + (if bb \<noteq> None \<and> \<not> price_lt cur (lower (the bb)) \<and> price_gt cur (upper (the bb))
        then 1 else 0)"
  by (auto simp: countVotes_def rsi_votes_def macd_votes_def ma_votes_def bb_votes_def
      push_vote_def split: option.splits)

text \<open>Two series of twenty closes, both deep in a fall: one falls to the end, one ticks up
  on the last close.\<close>

lemma rsi_falling20: "calculateRSI falling20 14 = Some 0"
  by (simp add: falling20_def calculateRSI_def avgLoss_def avgGain_def losses_def gains_def
      slice_neg_def slice_from_def reduce_sum_def)

lemma rsi_dip20: "calculateRSI dip20 14 = Some (50 / 7)"
  by (simp add: dip20_def calculateRSI_def avgLoss_def avgGain_def losses_def gains_def
      slice_neg_def slice_from_def reduce_sum_def)

lemma sma_falling20: "calculateSMA falling20 20 = Some (21 / 2)"
  by (simp add: falling20_def calculateSMA_def slice_neg_def slice_from_def reduce_sum_def)

lemma sma_dip20: "calculateSMA dip20 20 = Some (53 / 5)"
  by (simp add: dip20_def calculateSMA_def slice_neg_def slice_from_def reduce_sum_def)

lemma bb_falling20:
  "calculateBollingerBands falling20 20 2 =
     Some \<lparr>upper = 21 / 2 + sqrt (133 / 4) * 2, middle = 21 / 2,
           lower = 21 / 2 - sqrt (133 / 4) * 2,
           bandwidth = ((21 / 2 + sqrt (133 / 4) * 2) - (21 / 2 - sqrt (133 / 4) * 2)) / (21 / 2)\<rparr>"
proof -
  have v: "foldl (\<lambda>acc price. acc + (price - 21 / 2) ^ 2) 0 (slice_neg 20 falling20) / real 20
            = 133 / 4"
    by (simp add: falling20_def slice_neg_def slice_from_def power2_eq_square)
  show ?thesis
    unfolding calculateBollingerBands_def sma_falling20 Let_def
    using v by (simp add: falling20_def)
qed

lemma bb_dip20:
  "calculateBollingerBands dip20 20 2 =
     Some \<lparr>upper = 53 / 5 + sqrt (1577 / 50) * 2, middle = 53 / 5,
           lower = 53 / 5 - sqrt (1577 / 50) * 2,
           bandwidth = ((53 / 5 + sqrt (1577 / 50) * 2) - (53 / 5 - sqrt (1577 / 50) * 2)) / (53 / 5)\<rparr>"
proof -
  have v: "foldl (\<lambda>acc price. acc + (price - 53 / 5) ^ 2) 0 (slice_neg 20 dip20) / real 20
            = 1577 / 50"
    by (simp add: dip20_def slice_neg_def slice_from_def power2_eq_square)
  show ?thesis
    unfolding calculateBollingerBands_def sma_dip20 Let_def
    using v by (simp add: dip20_def)
qed

lemma sqrt_falling20: "19 / 4 < sqrt (133 / 4)"
  by (rule real_less_rsqrt) (simp add: power2_eq_square)

lemma sqrt_dip20: "19 / 5 < sqrt (1577 / 50)"
  by (rule real_less_rsqrt) (simp add: power2_eq_square)

lemma signals_falling20:
  "generateTradingSignals fl falling20 falling20 falling20 falling20 =
     \<lparr>overall = neutral, strength = 0, signals = []\<rparr>"
proof -
  have m: "calculateMACD fl falling20 = None" by (rule calculateMACD_short) (simp add: falling20_def)
  have s50: "calculateSMA falling20 50 = None" by (simp add: calculateSMA_def falling20_def)
  have cur: "currentPrice falling20 = Some 1" by (simp add: currentPrice_def falling20_def)
  have v: "collectVotes fl falling20 = \<lparr>bullishSignals = 0, bearishSignals = 0, entries = []\<rparr>"
    using sqrt_falling20
    by (simp add: collectVotes_def countVotes_def rsi_falling20 m s50 cur sma_falling20
        bb_falling20 rsi_votes_def macd_votes_def ma_votes_def bb_votes_def)
  show ?thesis by (simp add: generateTradingSignals_def v)
qed

lemma signals_dip20:
  "generateTradingSignals fl dip20 dip20 dip20 dip20 =
     \<lparr>overall = bullish, strength = 40,
      signals = [\<lparr>etype = RSI, esignal = oversold, estrength = strong\<rparr>]\<rparr>"
proof -
  have m: "calculateMACD fl dip20 = None" by (rule calculateMACD_short) (simp add: dip20_def)
  have s50: "calculateSMA dip20 50 = None" by (simp add: calculateSMA_def dip20_def)
  have cur: "currentPrice dip20 = Some 3" by (simp add: currentPrice_def dip20_def)
  have v: "collectVotes fl dip20 = \<lparr>bullishSignals = 2, bearishSignals = 0,
             entries = [\<lparr>etype = RSI, esignal = oversold, estrength = strong\<rparr>]\<rparr>"
    using sqrt_dip20
    by (simp add: collectVotes_def countVotes_def rsi_dip20 m s50 cur sma_dip20
        bb_dip20 rsi_votes_def macd_votes_def ma_votes_def bb_votes_def push_vote_def)
  show ?thesis by (simp add: generateTradingSignals_def v)
qed

text \<open>
  Claim C4 gives an RSI extreme the weight 2. On twenty closes falling from 20 to 1 the RSI
  is 0, the strongest oversold reading there is, yet the synthesizer casts no vote and
  reports a neutral signal of strength 0 with no entry: its RSI block is entered on the
  truth value of the RSI, and 0 is falsy. When the last close ticks up from 2 to 3 the RSI
  is above 0 and below 30, the RSI vote of weight 2 is cast, and the signal is bullish with
  strength 40.
\<close>

theorem rsi_zero_casts_no_vote:
  "calculateRSI falling20 14 = Some 0
   \<and> generateTradingSignals double_round falling20 falling20 falling20 falling20 =
       \<lparr>overall = neutral, strength = 0, signals = []\<rparr>
   \<and> generateTradingSignals double_round dip20 dip20 dip20 dip20 =
       \<lparr>overall = bullish, strength = 40,
        signals = [\<lparr>etype = RSI, esignal = oversold, estrength = strong\<rparr>]\<rparr>"
  using rsi_falling20 signals_falling20 signals_dip20 by simp

section \<open>Rounding in the votes\<close>

lemma ema12_c123: "calculateEMA double_round (replicate 26 c123) 12 = Some c123_below"
proof -
  have st1: "double_round (double_round (c123 * double_round (2 / (real 12 + 1)))
              + double_round (c123 * double_round (1 - double_round (2 / (real 12 + 1))))) = c123_below"
    by (simp only: multiplier12 c123_def c123_below_def double_round_om12 double_round_c123_m12
        double_round_c123_om12 double_round_c123_sum12)
  have st2: "double_round (double_round (c123 * double_round (2 / (real 12 + 1)))
              + double_round (c123_below * double_round (1 - double_round (2 / (real 12 + 1))))) = c123_below"
    by (simp only: multiplier12 c123_def c123_below_def double_round_om12 double_round_c123_m12
        double_round_e12_om12 double_round_c123_sum12)
  show ?thesis by (rule calculateEMA_flat[of double_round c123 12 c123_below 26, OF st1 st2]) simp_all
qed

lemma ema26_c123: "calculateEMA double_round (replicate 26 c123) 26 = Some c123"
proof -
  have st: "double_round (double_round (c123 * double_round (2 / (real 26 + 1)))
              + double_round (c123 * double_round (1 - double_round (2 / (real 26 + 1))))) = c123"
    by (simp only: multiplier26 c123_def double_round_om26 double_round_c123_m26
        double_round_c123_om26 double_round_c123_sum26)
  show ?thesis by (rule calculateEMA_flat[of double_round c123 26 c123 26, OF st st]) simp_all
qed

lemma macd_c123:
  "calculateMACD double_round (replicate 26 c123)
     = Some \<lparr>macd = c123_below - c123, signal = 0, histogram = c123_below - c123\<rparr>"
proof -
  have dm: "double_round (c123_below - c123) = c123_below - c123"
  proof -
    have "c123_below - c123 = - (1 / 2 ^ 46)" by (simp add: c123_def c123_below_def)
    moreover have "double_round (c123_below - c123) = - (1 / 2 ^ 46)"
      by (simp only: c123_def c123_below_def double_round_macd_c123)
    ultimately show ?thesis by simp
  qed
  have nz: "c123 \<noteq> 0" "c123_below \<noteq> 0" by (simp_all add: c123_def c123_below_def)
  have h: "macdHistory double_round (replicate 26 c123) = [c123_below - c123]"
    by (simp add: macdHistory_def ema12_c123 ema26_c123 dm nz Let_def)
  have sg: "calculateEMA double_round [c123_below - c123] 9 = None" by (simp add: calculateEMA_def)
  show ?thesis
    by (simp add: calculateMACD_def ema12_c123 ema26_c123 h sg dm nz Let_def)
qed

lemma calculateSMA_flat:
  assumes "0 < p" and "p \<le> n"
  shows "calculateSMA (replicate n c) p = Some c"
proof -
  have "slice_neg p (replicate n c) = replicate p c"
    using assms by (simp add: slice_neg_drop)
  then show ?thesis
    using assms by (simp add: calculateSMA_def reduce_sum_sum_list sum_list_replicate)
qed

lemma price_changes_flat: "price_changes (replicate n c) = replicate (n - 1) 0"
proof (induction n)
  case 0
  then show ?case by simp
next
  case (Suc n)
  then show ?case by (cases n) simp_all
qed

lemma calculateRSI_flat:
  assumes "p < n"
  shows "calculateRSI (replicate n c) p = Some 100"
proof -
  have "losses (price_changes (replicate n c)) = replicate (n - 1) 0"
    by (simp add: price_changes_flat losses_def)
  then have "avgLoss (replicate n c) p = 0"
    by (cases "p = 0") (simp_all add: avgLoss_def slice_neg_def slice_from_def reduce_sum_sum_list sum_list_replicate)
  then show ?thesis using assms by (simp add: calculateRSI_def)
qed

lemma variance_flat: "foldl (\<lambda>acc price. acc + (price - c) ^ 2) 0 (replicate n c) = (0::real)"
  by (induction n) simp_all

lemma bollinger_flat:
  assumes "0 < p" and "p \<le> n" and "c \<noteq> 0"
  shows "calculateBollingerBands (replicate n c) p stdDev
           = Some \<lparr>upper = c, middle = c, lower = c, bandwidth = 0\<rparr>"
proof -
  have sl: "slice_neg p (replicate n c) = replicate p c"
    using assms by (simp add: slice_neg_drop)
  show ?thesis
    using assms by (simp add: calculateBollingerBands_def calculateSMA_flat sl variance_flat Let_def)
qed

text \<open>
  On 26 closes flat at 123.456 the EMA12 settles one unit in the last place below the
  price and the EMA26 on the price, so the MACD line is negative, with no signal line yet,
  and the MACD block votes bearish beside the RSI block, which reads 100 on a series with
  no loss.
\<close>

lemma flat_closes_vote_bearish:
  "generateTradingSignals double_round (replicate 26 c123) [] [] []
     = \<lparr>overall = bearish, strength = 60,
        signals = [\<lparr>etype = RSI, esignal = overbought, estrength = strong\<rparr>,
                   \<lparr>etype = MACD, esignal = bearish_crossover, estrength = medium\<rparr>]\<rparr>"
proof -
  have nz: "c123 \<noteq> 0" by (simp add: c123_def)
  have lt: "c123_below < c123" by (simp add: c123_def c123_below_def)
  have r: "calculateRSI (replicate 26 c123) 14 = Some 100" by (rule calculateRSI_flat) simp
  have b: "calculateBollingerBands (replicate 26 c123) 20 2
             = Some \<lparr>upper = c123, middle = c123, lower = c123, bandwidth = 0\<rparr>"
    by (rule bollinger_flat) (simp_all add: nz)
  have s20: "calculateSMA (replicate 26 c123) 20 = Some c123" by (rule calculateSMA_flat) simp_all
  have s50: "calculateSMA (replicate 26 c123) 50 = None" by (simp add: calculateSMA_def)
  have cur: "currentPrice (replicate 26 c123) = Some c123"
    by (simp add: currentPrice_def numeral_eq_Suc)
  have v: "collectVotes double_round (replicate 26 c123)
             = \<lparr>bullishSignals = 0, bearishSignals = 3,
                entries = [\<lparr>etype = RSI, esignal = overbought, estrength = strong\<rparr>,
                           \<lparr>etype = MACD, esignal = bearish_crossover, estrength = medium\<rparr>]\<rparr>"
    using lt
    by (simp add: collectVotes_def countVotes_def r macd_c123 b s20 s50 cur
        rsi_votes_def macd_votes_def ma_votes_def bb_votes_def push_vote_def)
  show ?thesis by (simp add: generateTradingSignals_def v)
qed

section \<open>Flat windows in Stochastic and Williams %R\<close>

lemma is_finite_js_add: "is_finite (js_add a b) \<Longrightarrow> is_finite a \<and> is_finite b"
  by (cases a; cases b) auto

lemma not_finite_js_inf: "\<not> is_finite (js_inf s)"
  by (simp add: js_inf_def)

lemma js_div_zero_not_finite: "\<not> is_finite (js_div a (Num 0))"
  by (cases a) (simp_all add: not_finite_js_inf)

lemma js_mul_not_finite: "\<not> is_finite a \<Longrightarrow> \<not> is_finite (js_mul a (Num c))"
  by (cases a) (simp_all add: not_finite_js_inf)

lemma js_div_not_finite: "\<not> is_finite a \<Longrightarrow> \<not> is_finite (js_div a (Num c))"
  by (cases a) (simp_all add: not_finite_js_inf)

lemma is_finite_foldl_js_add:
  "is_finite (foldl js_add a xs) \<Longrightarrow> is_finite a \<and> (\<forall>x\<in>set xs. is_finite x)"
proof (induction xs arbitrary: a)
  case Nil
  then show ?case by simp
next
  case (Cons x xs)
  from Cons.prems have "is_finite (foldl js_add (js_add a x) xs)" by simp
  from Cons.IH[OF this] have "is_finite (js_add a x)" "\<forall>y\<in>set xs. is_finite y" by simp_all
  with is_finite_js_add[of a x] show ?case by simp
qed

lemma foldl_js_add_NaN_start: "foldl js_add NaN xs = NaN"
  by (induction xs) auto

lemma js_add_NaN_right: "js_add a NaN = NaN"
  by (cases a) auto

lemma foldl_js_add_NaN: "NaN \<in> set xs \<Longrightarrow> foldl js_add a xs = NaN"
proof (induction xs arbitrary: a)
  case Nil
  then show ?case by simp
next
  case (Cons x xs)
  show ?case
  proof (cases "x = NaN")
    case True
    then show ?thesis by (simp add: js_add_NaN_right foldl_js_add_NaN_start)
  next
    case False
    with Cons.prems have "NaN \<in> set xs" by simp
    then show ?thesis using Cons.IH by simp
  qed
qed

lemma math_max_min_eq: "math_max hs = math_min ls \<Longrightarrow> \<exists>h. math_max hs = Num h \<and> math_min ls = Num h"
  by (cases hs; cases ls) auto

lemma js_sub_self: "js_sub (Num h) (Num h) = Num 0"
  by (simp add: js_sub_def)

lemma percentK_flat_NaN: "percentK (Num h) (Num h) (Num h) = NaN"
  by (simp add: percentK_def js_sub_def js_inf_def)

lemma percentK_flat: "\<not> is_finite (percentK c (Num h) (Num h))"
  unfolding percentK_def js_sub_self
  by (rule js_mul_not_finite) (rule js_div_zero_not_finite)

lemma js_nth_last: "xs \<noteq> [] \<Longrightarrow> js_nth xs (length xs - 1) = js_last xs"
proof -
  assume ne: "xs \<noteq> []"
  then have "js_last xs = Num (last xs)" by (cases xs) (simp_all add: js_last_def)
  moreover have "js_nth xs (length xs - 1) = Num (xs ! (length xs - 1))"
    using ne by (cases xs) (simp_all add: js_nth_def)
  ultimately show ?thesis using ne by (simp add: last_conv_nth)
qed

lemma last_kValues:
  assumes "0 < period" "period \<le> length highs" "length lows = length highs"
    "length closes = length highs"
  shows "kValues highs lows closes period \<noteq> []"
    and "last (kValues highs lows closes period) =
           percentK (js_last closes) (math_min (slice_neg period lows))
             (math_max (slice_neg period highs))"
proof -
  let ?n = "length highs"
  have upt: "[period ..< Suc ?n] = [period ..< ?n] @ [?n]" using assms(2) by simp
  show "kValues highs lows closes period \<noteq> []"
    unfolding kValues_def upt by simp
  have n0: "?n \<noteq> 0" using assms(1,2) by (cases highs) auto
  have cl: "closes \<noteq> []" using assms(4) n0 by (cases closes) auto
  have "last (kValues highs lows closes period) =
          percentK (js_nth closes (?n - 1)) (math_min (slice_range (?n - period) ?n lows))
             (math_max (slice_range (?n - period) ?n highs))"
    unfolding kValues_def upt using n0 by (simp add: Let_def)
  also have "js_nth closes (?n - 1) = js_last closes"
    using js_nth_last[OF cl] assms(4) by simp
  also have "slice_range (?n - period) ?n lows = slice_neg period lows"
    using slice_range_last_window[of period lows] assms by simp
  also have "slice_range (?n - period) ?n highs = slice_neg period highs"
    using slice_range_last_window[of period highs] assms by simp
  finally show "last (kValues highs lows closes period) =
           percentK (js_last closes) (math_min (slice_neg period lows))
             (math_max (slice_neg period highs))" .
qed

text \<open>
  Claim C9 says a flat window resolves to a defined sentinel. On fourteen candles whose
  highs, lows and closes are all 1, Williams %R and both Stochastic lines are NaN: the
  quotient \<open>0 / 0\<close> is computed as it stands.
\<close>

theorem flat_window_is_NaN:
  "calculateWilliamsR flat14 flat14 flat14 14 = Some NaN
   \<and> calculateStochastic flat14 flat14 flat14 14
       = Some \<lparr>k = NaN, d = NaN\<rparr>"
  by (simp add: flat14_def calculateWilliamsR_def calculateStochastic_def kValues_def percentK_def
      slice_neg_def slice_from_def slice_range_def js_last_def js_nth_def js_sub_def js_inf_def
      numeral_eq_Suc Let_def)

text \<open>
  Claim C9, amended. For arrays of one length with at least \<open>period\<close> candles
  (\<open>period\<close> positive), whenever the highest high of the trailing window equals its
  lowest low, Williams %R, Stochastic %K and Stochastic %D are returned without an
  exception, and none of them is a finite number: no sentinel is substituted for the
  division by zero. When the current close equals the flat price, all three are NaN.
\<close>

theorem flat_window_not_finite:
  assumes "0 < period" and "period \<le> length highs"
    and "length lows = length highs" and "length closes = length highs"
    and "math_max (slice_neg period highs) = math_min (slice_neg period lows)"
  shows "\<exists>w s. calculateWilliamsR highs lows closes period = Some w
           \<and> calculateStochastic highs lows closes period = Some s
           \<and> \<not> is_finite w \<and> \<not> is_finite (k s) \<and> \<not> is_finite (d s)
           \<and> (js_last closes = math_max (slice_neg period highs)
                \<longrightarrow> w = NaN \<and> k s = NaN \<and> d s = NaN)"
proof -
  obtain h where hh: "math_max (slice_neg period highs) = Num h"
    and ll: "math_min (slice_neg period lows) = Num h"
    using math_max_min_eq[OF assms(5)] by blast
  let ?c = "js_last closes"
  let ?w = "js_mul (js_div (js_sub (Num h) ?c) (js_sub (Num h) (Num h))) (Num (- 100))"
  let ?kv = "percentK ?c (Num h) (Num h)"
  let ?ks = "kValues highs lows closes period"
  let ?dv = "js_div (foldl js_add (Num 0) (slice_neg 3 ?ks)) (Num 3)"
  have W: "calculateWilliamsR highs lows closes period = Some ?w"
    using assms(2) by (simp add: calculateWilliamsR_def hh ll Let_def)
  have S: "calculateStochastic highs lows closes period = Some \<lparr>k = ?kv, d = ?dv\<rparr>"
    using assms(2) by (simp add: calculateStochastic_def hh ll Let_def)
  have w_nf: "\<not> is_finite ?w"
    unfolding js_sub_self by (rule js_mul_not_finite) (rule js_div_zero_not_finite)
  have k_nf: "\<not> is_finite ?kv" by (rule percentK_flat)
  have last_k: "last ?ks = ?kv" and ks_ne: "?ks \<noteq> []"
    using last_kValues[OF assms(1-4)] hh ll by simp_all
  have mem: "?kv \<in> set (slice_neg 3 ?ks)"
    using last_in_slice_neg[OF ks_ne, of 3] last_k by simp
  have "\<not> is_finite (foldl js_add (Num 0) (slice_neg 3 ?ks))"
    using is_finite_foldl_js_add[of "Num 0" "slice_neg 3 ?ks"] mem k_nf by blast
  then have d_nf: "\<not> is_finite ?dv" by (rule js_div_not_finite)
  have nan: "?w = NaN \<and> ?kv = NaN \<and> ?dv = NaN" if "?c = Num h"
  proof -
    have kn: "?kv = NaN" using that by (simp add: percentK_flat_NaN)
    have "?w = NaN" using that by (simp add: js_sub_def js_inf_def)
    moreover have "foldl js_add (Num 0) (slice_neg 3 ?ks) = NaN"
      using mem kn by (intro foldl_js_add_NaN) simp
    ultimately show ?thesis using kn by simp
  qed
  show ?thesis
    using W S w_nf k_nf d_nf nan hh by simp
qed

theorem flat_window_not_finite_witness:
  "math_max (slice_neg 14 flat14) = math_min (slice_neg 14 flat14)
   \<and> (\<exists>w s. calculateWilliamsR flat14 flat14 flat14 14 = Some w
          \<and> calculateStochastic flat14 flat14 flat14 14 = Some s
          \<and> \<not> is_finite w \<and> \<not> is_finite (k s) \<and> \<not> is_finite (d s))"
proof -
  have h: "math_max (slice_neg 14 flat14) = math_min (slice_neg 14 flat14)"
    by (simp add: flat14_def slice_neg_def slice_from_def numeral_eq_Suc)
  have "0 < (14::nat)" "14 \<le> length flat14" "length flat14 = length flat14"
    by (simp_all add: flat14_def)
  from flat_window_not_finite[OF this(1,2,3,3) h] h show ?thesis by blast
qed

section \<open>Weighted average cost\<close>

lemma find_patch_first:
  "find P xs = Some e \<Longrightarrow> P (f e) \<Longrightarrow> find P (patch_first P f xs) = Some (f e)"
  by (induction xs) (auto split: if_splits)

lemma find_append_new: "find P xs = None \<Longrightarrow> P x \<Longrightarrow> find P (xs @ [x]) = Some x"
  by (induction xs) (auto split: if_splits)

lemma updatePosition_add_existing:
  assumes "find (\<lambda>x. p_userId x = u \<and> p_tokenMint x = t) ps = Some e"
  shows "\<exists>ps' e'. updatePosition fl ps u w t q p ActAdd = Inr (ps', updated)
           \<and> find (\<lambda>x. p_userId x = u \<and> p_tokenMint x = t) ps' = Some e'
           \<and> p_amount e' = fl_add fl (p_amount e) q
           \<and> p_averagePrice e' =
               fl_div fl (fl_add fl (fl_mul fl (p_amount e) (p_averagePrice e)) (fl_mul fl q p))
                 (fl_add fl (p_amount e) q)"
proof -
  let ?key = "\<lambda>x. p_userId x = u \<and> p_tokenMint x = t"
  have ke: "?key e" using assms by (auto simp: find_Some_iff)
  show ?thesis
    using assms ke
    by (simp add: updatePosition_def Let_def find_patch_first)
qed

lemma updatePosition_add_new:
  assumes "find (\<lambda>x. p_userId x = u \<and> p_tokenMint x = t) ps = None"
  shows "\<exists>ps' e'. updatePosition fl ps u w t q p ActAdd = Inr (ps', created)
           \<and> find (\<lambda>x. p_userId x = u \<and> p_tokenMint x = t) ps' = Some e'
           \<and> p_amount e' = q \<and> p_averagePrice e' = p"
  using assms by (simp add: updatePosition_def Let_def find_append_new)

lemma rounds_withinD:
  assumes "rounds_within u fl" and "0 \<le> x"
  shows "(1 - u) * x \<le> fl x" and "fl x \<le> (1 + u) * x" and "0 \<le> fl x"
proof -
  show lo: "(1 - u) * x \<le> fl x" and "fl x \<le> (1 + u) * x"
    using assms by (simp_all add: rounds_within_def)
  have "0 \<le> (1 - u) * x" using assms by (simp add: rounds_within_def)
  then show "0 \<le> fl x" using lo by linarith
qed

lemma rounds_within_pos:
  assumes "rounds_within u fl" and "0 < x"
  shows "0 < fl x"
proof -
  have "0 < (1 - u) * x" using assms by (simp add: rounds_within_def)
  moreover have "(1 - u) * x \<le> fl x" using rounds_withinD(1)[OF assms(1)] assms(2) by simp
  ultimately show ?thesis by linarith
qed

lemma step_bounds:
  assumes rw: "rounds_within u fl" and A: "0 < A" and V: "0 \<le> V" and q: "0 < q" and p: "0 \<le> p"
  shows "(1 - u) * (A + q) \<le> fl (A + q)"
    and "fl (A + q) \<le> (1 + u) * (A + q)"
    and "0 < fl (A + q)"
    and "0 \<le> fl (fl (fl (A * V) + fl (q * p)) / fl (A + q))"
    and "(1 - u) ^ 3 * (A * V + q * p) \<le> fl (A + q) * fl (fl (fl (A * V) + fl (q * p)) / fl (A + q))"
    and "fl (A + q) * fl (fl (fl (A * V) + fl (q * p)) / fl (A + q)) \<le> (1 + u) ^ 3 * (A * V + q * p)"
proof -
  have u0: "0 \<le> u" and u1: "u < 1" using rw by (simp_all add: rounds_within_def)
  define A' where "A' = fl (A + q)"
  define m1 where "m1 = fl (A * V)"
  define m2 where "m2 = fl (q * p)"
  define N where "N = fl (m1 + m2)"
  define V' where "V' = fl (N / A')"
  have AV: "0 \<le> A * V" using A V by simp
  have qp: "0 \<le> q * p" using q p by simp
  show a_lo: "(1 - u) * (A + q) \<le> fl (A + q)" and a_hi: "fl (A + q) \<le> (1 + u) * (A + q)"
    using rounds_withinD[OF rw, of "A + q"] A q by simp_all
  show A'pos: "0 < fl (A + q)" using rounds_within_pos[OF rw, of "A + q"] A q by simp
  have m1b: "(1 - u) * (A * V) \<le> m1" "m1 \<le> (1 + u) * (A * V)" "0 \<le> m1"
    unfolding m1_def using rounds_withinD[OF rw AV] by simp_all
  have m2b: "(1 - u) * (q * p) \<le> m2" "m2 \<le> (1 + u) * (q * p)" "0 \<le> m2"
    unfolding m2_def using rounds_withinD[OF rw qp] by simp_all
  have s0: "0 \<le> m1 + m2" using m1b m2b by simp
  have Nb: "(1 - u) * (m1 + m2) \<le> N" "N \<le> (1 + u) * (m1 + m2)" "0 \<le> N"
    unfolding N_def using rounds_withinD[OF rw s0] by simp_all
  have slo: "(1 - u) * (A * V + q * p) \<le> m1 + m2"
    using m1b(1) m2b(1) by (simp add: algebra_simps)
  have shi: "m1 + m2 \<le> (1 + u) * (A * V + q * p)"
    using m1b(2) m2b(2) by (simp add: algebra_simps)
  have "(1 - u) * ((1 - u) * (A * V + q * p)) \<le> (1 - u) * (m1 + m2)"
    using slo u1 by (intro mult_left_mono) simp_all
  then have Nlo: "(1 - u) ^ 2 * (A * V + q * p) \<le> N"
    using Nb(1) by (simp add: power2_eq_square)
  have "(1 + u) * (m1 + m2) \<le> (1 + u) * ((1 + u) * (A * V + q * p))"
    using shi u0 by (intro mult_left_mono) simp_all
  then have Nhi: "N \<le> (1 + u) ^ 2 * (A * V + q * p)"
    using Nb(2) by (simp add: power2_eq_square)
  have A'p: "0 < A'" using A'pos by (simp add: A'_def)
  have d0: "0 \<le> N / A'" using Nb(3) A'p by simp
  have Vb: "(1 - u) * (N / A') \<le> V'" "V' \<le> (1 + u) * (N / A')" "0 \<le> V'"
    unfolding V'_def using rounds_withinD[OF rw d0] by simp_all
  show "0 \<le> fl (fl (fl (A * V) + fl (q * p)) / fl (A + q))"
    using Vb(3) by (simp add: V'_def N_def m1_def m2_def A'_def)
  have "A' * ((1 - u) * (N / A')) \<le> A' * V'"
    using Vb(1) A'p by (intro mult_left_mono) simp_all
  then have c1: "(1 - u) * N \<le> A' * V'" using A'p by simp
  have "A' * V' \<le> A' * ((1 + u) * (N / A'))"
    using Vb(2) A'p by (intro mult_left_mono) simp_all
  then have c2: "A' * V' \<le> (1 + u) * N" using A'p by simp
  have "(1 - u) * ((1 - u) ^ 2 * (A * V + q * p)) \<le> (1 - u) * N"
    using Nlo u1 by (intro mult_left_mono) simp_all
  then have "(1 - u) ^ 3 * (A * V + q * p) \<le> A' * V'"
    using c1 by (simp add: power3_eq_cube power2_eq_square)
  then show "(1 - u) ^ 3 * (A * V + q * p)
      \<le> fl (A + q) * fl (fl (fl (A * V) + fl (q * p)) / fl (A + q))"
    by (simp add: V'_def N_def m1_def m2_def A'_def)
  have "(1 + u) * N \<le> (1 + u) * ((1 + u) ^ 2 * (A * V + q * p))"
    using Nhi u0 by (intro mult_left_mono) simp_all
  then have "A' * V' \<le> (1 + u) ^ 3 * (A * V + q * p)"
    using c2 by (simp add: power3_eq_cube power2_eq_square)
  then show "fl (A + q) * fl (fl (fl (A * V) + fl (q * p)) / fl (A + q))
      \<le> (1 + u) ^ 3 * (A * V + q * p)"
    by (simp add: V'_def N_def m1_def m2_def A'_def)
qed

lemma buy_quantity_Cons: "buy_quantity ((q, p) # bs) = q + buy_quantity bs"
  by (simp add: buy_quantity_def)

lemma buy_cost_Cons: "buy_cost ((q, p) # bs) = q * p + buy_cost bs"
  by (simp add: buy_cost_def)

lemma buy_quantity_nonneg: "\<forall>b\<in>set bs. 0 < fst b \<and> 0 \<le> snd b \<Longrightarrow> 0 \<le> buy_quantity bs"
  unfolding buy_quantity_def by (induction bs) auto

lemma buy_cost_nonneg: "\<forall>b\<in>set bs. 0 < fst b \<and> 0 \<le> snd b \<Longrightarrow> 0 \<le> buy_cost bs"
  unfolding buy_cost_def by (induction bs) auto

lemma scale_lo:
  fixes c :: real
  assumes "0 \<le> c" "c \<le> 1" "0 \<le> m" "c * x \<le> y" "0 \<le> z" "m * (y + z) \<le> r"
  shows "m * c * (x + z) \<le> r"
proof -
  have "c * z \<le> z" using assms(1,2,5) by (simp add: mult_left_le_one_le)
  then have "c * (x + z) \<le> y + z" using assms(4) by (simp add: algebra_simps)
  then have "m * (c * (x + z)) \<le> m * (y + z)" using assms(3) by (rule mult_left_mono)
  then show ?thesis using assms(6) by (simp add: mult.assoc)
qed

lemma scale_hi:
  fixes c :: real
  assumes "1 \<le> c" "0 \<le> m" "y \<le> c * x" "0 \<le> z" "r \<le> m * (y + z)"
  shows "r \<le> m * c * (x + z)"
proof -
  have "z \<le> c * z" using assms(1,4) by (simp add: mult_le_cancel_right1)
  then have "y + z \<le> c * (x + z)" using assms(3) by (simp add: algebra_simps)
  then have "m * (y + z) \<le> m * (c * (x + z))" using assms(2) by (rule mult_left_mono)
  then show ?thesis using assms(5) by (simp add: mult.assoc)
qed

lemma applyBuys_existing:
  assumes rw: "rounds_within u fl"
    and "find (\<lambda>x. p_userId x = uid \<and> p_tokenMint x = t) ps = Some e"
    and "p_amount e = Num A" and "p_averagePrice e = Num V" and "0 < A" and "0 \<le> V"
    and "\<forall>b\<in>set bs. 0 < fst b \<and> 0 \<le> snd b"
  shows "\<exists>e' A' V'. find (\<lambda>x. p_userId x = uid \<and> p_tokenMint x = t) (applyBuys fl ps uid w t bs) = Some e'
           \<and> p_amount e' = Num A' \<and> p_averagePrice e' = Num V' \<and> 0 < A' \<and> 0 \<le> V'
           \<and> (1 - u) ^ length bs * (A + buy_quantity bs) \<le> A'
           \<and> A' \<le> (1 + u) ^ length bs * (A + buy_quantity bs)
           \<and> (1 - u) ^ (3 * length bs) * (A * V + buy_cost bs) \<le> A' * V'
           \<and> A' * V' \<le> (1 + u) ^ (3 * length bs) * (A * V + buy_cost bs)"
  using assms(2-)
proof (induction bs arbitrary: ps e A V)
  case Nil
  then show ?case by (simp add: buy_quantity_def buy_cost_def)
next
  case (Cons b bs)
  have u0: "0 \<le> u" and u1: "u < 1" using rw by (simp_all add: rounds_within_def)
  obtain q p where b: "b = (q, p)" by (cases b)
  have q: "0 < q" and p: "0 \<le> p" using Cons.prems(6) b by simp_all
  have rest: "\<forall>b\<in>set bs. 0 < fst b \<and> 0 \<le> snd b" using Cons.prems(6) by simp
  define A1 where "A1 = fl (A + q)"
  define V1 where "V1 = fl (fl (fl (A * V) + fl (q * p)) / fl (A + q))"
  note sb = step_bounds[OF rw Cons.prems(4) Cons.prems(5) q p]
  have A1pos: "0 < A1" and V1nn: "0 \<le> V1" using sb(3,4) by (simp_all add: A1_def V1_def)
  obtain ps1 e1 where u1': "updatePosition fl ps uid w t (Num q) (Num p) ActAdd = Inr (ps1, updated)"
    and f1: "find (\<lambda>x. p_userId x = uid \<and> p_tokenMint x = t) ps1 = Some e1"
    and a1: "p_amount e1 = fl_add fl (p_amount e) (Num q)"
    and v1: "p_averagePrice e1 =
               fl_div fl (fl_add fl (fl_mul fl (p_amount e) (p_averagePrice e)) (fl_mul fl (Num q) (Num p)))
                 (fl_add fl (p_amount e) (Num q))"
    using updatePosition_add_existing[OF Cons.prems(1), of fl w "Num q" "Num p"] by blast
  have a1': "p_amount e1 = Num A1"
    using a1 Cons.prems(2) by (simp add: fl_add_def A1_def)
  have v1': "p_averagePrice e1 = Num V1"
    using v1 Cons.prems(2,3) sb(3)
    by (simp add: fl_add_def fl_mul_def fl_div_def V1_def)
  obtain e' A' V' where
    f': "find (\<lambda>x. p_userId x = uid \<and> p_tokenMint x = t) (applyBuys fl ps1 uid w t bs) = Some e'"
    and r1: "p_amount e' = Num A'" "p_averagePrice e' = Num V'" "0 < A'" "0 \<le> V'"
    and alo: "(1 - u) ^ length bs * (A1 + buy_quantity bs) \<le> A'"
    and ahi: "A' \<le> (1 + u) ^ length bs * (A1 + buy_quantity bs)"
    and clo: "(1 - u) ^ (3 * length bs) * (A1 * V1 + buy_cost bs) \<le> A' * V'"
    and chi: "A' * V' \<le> (1 + u) ^ (3 * length bs) * (A1 * V1 + buy_cost bs)"
    using Cons.IH[OF f1 a1' v1' A1pos V1nn rest] by blast
  have Q: "0 \<le> buy_quantity bs" and S: "0 \<le> buy_cost bs"
    using buy_quantity_nonneg[OF rest] buy_cost_nonneg[OF rest] by simp_all
  have c3lo: "0 \<le> (1 - u) ^ 3" "(1 - u) ^ 3 \<le> 1" using u0 u1 by (simp_all add: power_le_one)
  have c3hi: "1 \<le> (1 + u) ^ 3" using u0 by (simp add: one_le_power)
  have g1: "(1 - u) ^ length bs * (1 - u) * (A + q + buy_quantity bs) \<le> A'"
    by (rule scale_lo[OF _ _ _ _ Q alo]) (use u0 u1 sb(1) in \<open>simp_all add: A1_def\<close>)
  have g2: "A' \<le> (1 + u) ^ length bs * (1 + u) * (A + q + buy_quantity bs)"
    by (rule scale_hi[OF _ _ _ Q ahi]) (use u0 u1 sb(2) in \<open>simp_all add: A1_def\<close>)
  have g3: "(1 - u) ^ (3 * length bs) * (1 - u) ^ 3 * (A * V + q * p + buy_cost bs) \<le> A' * V'"
    by (rule scale_lo[OF c3lo(1) c3lo(2) _ _ S clo]) (use u0 u1 sb(5) in \<open>simp_all add: A1_def V1_def\<close>)
  have g4: "A' * V' \<le> (1 + u) ^ (3 * length bs) * (1 + u) ^ 3 * (A * V + q * p + buy_cost bs)"
    by (rule scale_hi[OF c3hi _ _ S chi]) (use u0 u1 sb(6) in \<open>simp_all add: A1_def V1_def\<close>)
  have pw: "c ^ (3 * length ((q, p) # bs)) = c ^ (3 * length bs) * c ^ 3" for c :: real
    by (simp add: power_add)
  have "applyBuys fl ps uid w t (b # bs) = applyBuys fl ps1 uid w t bs" using b u1' by simp
  moreover have "(1 - u) ^ length (b # bs) * (A + buy_quantity (b # bs)) \<le> A'"
    using g1 b by (simp add: buy_quantity_Cons algebra_simps)
  moreover have "A' \<le> (1 + u) ^ length (b # bs) * (A + buy_quantity (b # bs))"
    using g2 b by (simp add: buy_quantity_Cons algebra_simps)
  moreover have "(1 - u) ^ (3 * length (b # bs)) * (A * V + buy_cost (b # bs)) \<le> A' * V'"
    using g3 by (simp only: b pw buy_cost_Cons add.assoc)
  moreover have "A' * V' \<le> (1 + u) ^ (3 * length (b # bs)) * (A * V + buy_cost (b # bs))"
    using g4 by (simp only: b pw buy_cost_Cons add.assoc)
  ultimately show ?case using f' r1 by auto
qed

lemma applyBuys_from_empty:
  assumes rw: "rounds_within u fl"
    and "find (\<lambda>x. p_userId x = uid \<and> p_tokenMint x = t) ps = None"
    and "bs \<noteq> []" and "\<forall>b\<in>set bs. 0 < fst b \<and> 0 \<le> snd b"
  shows "\<exists>e A V. find (\<lambda>x. p_userId x = uid \<and> p_tokenMint x = t) (applyBuys fl ps uid w t bs) = Some e
           \<and> p_amount e = Num A \<and> p_averagePrice e = Num V
           \<and> (1 - u) ^ (length bs - 1) * buy_quantity bs \<le> A
           \<and> A \<le> (1 + u) ^ (length bs - 1) * buy_quantity bs
           \<and> (1 - u) ^ (3 * (length bs - 1)) / (1 + u) ^ (length bs - 1)
                 * (buy_cost bs / buy_quantity bs) \<le> V
           \<and> V \<le> (1 + u) ^ (3 * (length bs - 1)) / (1 - u) ^ (length bs - 1)
                 * (buy_cost bs / buy_quantity bs)"
proof -
  have u0: "0 \<le> u" and u1: "u < 1" using rw by (simp_all add: rounds_within_def)
  obtain q p rest where bs: "bs = (q, p) # rest" using assms(3) by (cases bs) auto
  have q: "0 < q" and p: "0 \<le> p" and rest: "\<forall>b\<in>set rest. 0 < fst b \<and> 0 \<le> snd b"
    using assms(4) bs by simp_all
  obtain ps1 e1 where u1': "updatePosition fl ps uid w t (Num q) (Num p) ActAdd = Inr (ps1, created)"
    and f1: "find (\<lambda>x. p_userId x = uid \<and> p_tokenMint x = t) ps1 = Some e1"
    and a1: "p_amount e1 = Num q" and v1: "p_averagePrice e1 = Num p"
    using updatePosition_add_new[OF assms(2), of fl w "Num q" "Num p"] by blast
  define n where "n = length rest"
  define Q where "Q = buy_quantity bs"
  define S where "S = buy_cost bs"
  obtain e A V where
    f: "find (\<lambda>x. p_userId x = uid \<and> p_tokenMint x = t) (applyBuys fl ps1 uid w t rest) = Some e"
    and r: "p_amount e = Num A" "p_averagePrice e = Num V" "0 < A" "0 \<le> V"
    and alo: "(1 - u) ^ n * Q \<le> A"
    and ahi: "A \<le> (1 + u) ^ n * Q"
    and clo: "(1 - u) ^ (3 * n) * S \<le> A * V"
    and chi: "A * V \<le> (1 + u) ^ (3 * n) * S"
    using applyBuys_existing[OF rw f1 a1 v1 q p rest, of w]
    unfolding n_def Q_def S_def bs buy_quantity_Cons buy_cost_Cons by blast
  have Qpos: "0 < Q" using q buy_quantity_nonneg[OF rest] by (simp add: Q_def bs buy_quantity_Cons)
  have Snn: "0 \<le> S" using q p buy_cost_nonneg[OF rest] by (simp add: S_def bs buy_cost_Cons)
  have lo_pos: "0 < (1 - u) ^ n * Q" using u1 Qpos by simp
  have hi_pos: "0 < (1 + u) ^ n * Q" using u0 Qpos by simp
  have Veq: "V = A * V / A" using r(3) by simp
  have "A * V / A \<le> ((1 + u) ^ (3 * n) * S) / ((1 - u) ^ n * Q)"
    using chi alo lo_pos Snn u0 by (intro frac_le) simp_all
  then have vhi: "V \<le> (1 + u) ^ (3 * n) / (1 - u) ^ n * (S / Q)" using Veq by simp
  have "((1 - u) ^ (3 * n) * S) / ((1 + u) ^ n * Q) \<le> A * V / A"
    using clo ahi r(3,4) by (intro frac_le) simp_all
  then have vlo: "(1 - u) ^ (3 * n) / (1 + u) ^ n * (S / Q) \<le> V" using Veq by simp
  have "applyBuys fl ps uid w t bs = applyBuys fl ps1 uid w t rest" using bs u1' by simp
  moreover have "length bs - 1 = n" by (simp add: bs n_def)
  ultimately show ?thesis using f r(1,2) alo ahi vlo vhi unfolding Q_def S_def by auto
qed

lemma rounded_average_3_d01:
  "double_round (double_round (double_round (3 * d01) + double_round (3 * d01)) / double_round (3 + 3))
     = 7205759403792795 / 2 ^ 56"
proof -
  have six: "(3::real) + 3 = 6" by simp
  show ?thesis
    by (simp only: six double_round_3d01 double_round_sum double_round_6 double_round_quot)
qed

text \<open>
  Claim C3 says that after every buy the average cost equals the quantity-weighted mean of
  the buys so far. The ledger computes in doubles and the three roundings of a step do not
  cancel. Two buys of 3 at 0.1 into an empty position: \<open>3 * 0.1\<close> rounds up to
  0.30000000000000004, the sum of the two products is exact, and its quotient by 6 rounds
  to 0.10000000000000002, the double next above 0.1, which is the stored average. The
  quantity-weighted mean of the two buys is 0.1. The price is \<open>d01\<close>, the double
  nearest to 0.1; it and the quantity 3 are doubles, which rounding leaves as they are.
\<close>

theorem buys_average_not_weighted_mean:
  "map_option p_averagePrice
     (find (\<lambda>x. p_userId x = 1 \<and> p_tokenMint x = ''SOL'')
        (applyBuys double_round [] 1 1 ''SOL'' [(3, d01), (3, d01)]))
     = Some (Num (7205759403792795 / 2 ^ 56))
   \<and> buy_cost [(3, d01), (3, d01)] / buy_quantity [(3, d01), (3, d01)] = 7205759403792794 / 2 ^ 56
   \<and> double_round 3 = 3 \<and> double_round d01 = d01"
proof -
  let ?key = "\<lambda>x. p_userId x = (1::nat) \<and> p_tokenMint x = ''SOL''"
  have none: "find ?key ([]::position list) = None" by simp
  obtain ps1 e1 where u1: "updatePosition double_round [] 1 1 ''SOL'' (Num 3) (Num d01) ActAdd = Inr (ps1, created)"
    and f1: "find ?key ps1 = Some e1"
    and a1: "p_amount e1 = Num 3" and v1: "p_averagePrice e1 = Num d01"
    using updatePosition_add_new[OF none, of double_round 1 "Num 3" "Num d01"] by blast
  obtain ps2 e2 where u2: "updatePosition double_round ps1 1 1 ''SOL'' (Num 3) (Num d01) ActAdd = Inr (ps2, updated)"
    and f2: "find ?key ps2 = Some e2"
    and v2: "p_averagePrice e2 =
               fl_div double_round
                 (fl_add double_round (fl_mul double_round (p_amount e1) (p_averagePrice e1))
                    (fl_mul double_round (Num 3) (Num d01)))
                 (fl_add double_round (p_amount e1) (Num 3))"
    using updatePosition_add_existing[OF f1, of double_round 1 "Num 3" "Num d01"] by blast
  have dr6: "double_round (3 + 3) \<noteq> 0" by (simp add: double_round_6)
  have "p_averagePrice e2 =
      Num (double_round (double_round (double_round (3 * d01) + double_round (3 * d01)) / double_round (3 + 3)))"
    unfolding v2 a1 v1 fl_div_def fl_add_def fl_mul_def using dr6 by simp
  then have avg: "p_averagePrice e2 = Num (7205759403792795 / 2 ^ 56)"
    by (simp only: rounded_average_3_d01)
  have "applyBuys double_round [] 1 1 ''SOL'' [(3, d01), (3, d01)] = ps2"
    using u1 u2 by simp
  then have "map_option p_averagePrice
     (find ?key (applyBuys double_round [] 1 1 ''SOL'' [(3, d01), (3, d01)]))
     = Some (Num (7205759403792795 / 2 ^ 56))"
    using f2 avg by simp
  moreover have "buy_cost [(3, d01), (3, d01)] / buy_quantity [(3, d01), (3, d01)]
      = 7205759403792794 / 2 ^ 56"
    by (simp add: buy_cost_def buy_quantity_def d01_def)
  ultimately show ?thesis using double_round_3 double_round_d01 by simp
qed

text \<open>
  Claim C3, amended. Let every operation of the ledger return its exact result with a
  relative error of at most \<open>u\<close> (for doubles \<open>u\<close> is \<open>2^-53\<close>, as long as no result
  overflows or is subnormal). Take a store with no position for the owner and asset, and
  a run of buy fills with positive quantities and prices that are not negative. After
  every buy (after the first \<open>n\<close> fills, for each \<open>n\<close> from 1 to the length of the run)
  the position's amount \<open>A\<close> and average price \<open>V\<close> are finite numbers; with \<open>Q\<close> the sum of
  the quantities so far and \<open>S\<close> the sum of quantity times price, \<open>A\<close> lies between
  \<open>(1 - u)^(n-1) * Q\<close> and \<open>(1 + u)^(n-1) * Q\<close>, and \<open>V\<close> lies between
  \<open>(1 - u)^(3(n-1)) / (1 + u)^(n-1) * (S / Q)\<close> and
  \<open>(1 + u)^(3(n-1)) / (1 - u)^(n-1) * (S / Q)\<close>. The average is the quantity-weighted mean
  itself after the first buy, and after every buy when the arithmetic is exact (\<open>u = 0\<close>).
  Each buy into an existing position sets the amount to the rounded sum
  \<open>oldQuantity + quantity\<close> and the average to the rounded quotient of the rounded
  \<open>oldQuantity * oldAverage + quantity * price\<close> (each product rounded) by that amount.
\<close>

theorem buys_average_within_rounding:
  "(rounds_within u fl \<and> find (\<lambda>x. p_userId x = uid \<and> p_tokenMint x = t) ps = None
      \<and> (\<forall>b\<in>set bs. 0 < fst b \<and> 0 \<le> snd b)
      \<longrightarrow> (\<forall>n. 0 < n \<and> n \<le> length bs \<longrightarrow>
            (\<exists>e A V. find (\<lambda>x. p_userId x = uid \<and> p_tokenMint x = t)
                       (applyBuys fl ps uid w t (take n bs)) = Some e
                 \<and> p_amount e = Num A \<and> p_averagePrice e = Num V
                 \<and> (1 - u) ^ (n - 1) * buy_quantity (take n bs) \<le> A
                 \<and> A \<le> (1 + u) ^ (n - 1) * buy_quantity (take n bs)
                 \<and> (1 - u) ^ (3 * (n - 1)) / (1 + u) ^ (n - 1)
                       * (buy_cost (take n bs) / buy_quantity (take n bs)) \<le> V
                 \<and> V \<le> (1 + u) ^ (3 * (n - 1)) / (1 - u) ^ (n - 1)
                       * (buy_cost (take n bs) / buy_quantity (take n bs)))))
   \<and> (\<forall>e. find (\<lambda>x. p_userId x = uid \<and> p_tokenMint x = t) ps = Some e
      \<longrightarrow> (\<exists>ps' e'. updatePosition fl ps uid w t q p ActAdd = Inr (ps', updated)
             \<and> find (\<lambda>x. p_userId x = uid \<and> p_tokenMint x = t) ps' = Some e'
             \<and> p_amount e' = fl_add fl (p_amount e) q
             \<and> p_averagePrice e' =
                 fl_div fl (fl_add fl (fl_mul fl (p_amount e) (p_averagePrice e)) (fl_mul fl q p))
                   (fl_add fl (p_amount e) q)))"
proof (intro conjI impI allI)
  fix n
  assume h: "rounds_within u fl \<and> find (\<lambda>x. p_userId x = uid \<and> p_tokenMint x = t) ps = None
      \<and> (\<forall>b\<in>set bs. 0 < fst b \<and> 0 \<le> snd b)"
    and n: "0 < n \<and> n \<le> length bs"
  have ne: "take n bs \<noteq> []" using n by (cases bs) auto
  have len: "length (take n bs) - 1 = n - 1" using n by simp
  have pos: "\<forall>b\<in>set (take n bs). 0 < fst b \<and> 0 \<le> snd b" using h by (auto dest: in_set_takeD)
  have rw: "rounds_within u fl"
    and none: "find (\<lambda>x. p_userId x = uid \<and> p_tokenMint x = t) ps = None"
    using h by simp_all
  from applyBuys_from_empty[OF rw none ne pos, of w]
  show "\<exists>e A V. find (\<lambda>x. p_userId x = uid \<and> p_tokenMint x = t)
                       (applyBuys fl ps uid w t (take n bs)) = Some e
                 \<and> p_amount e = Num A \<and> p_averagePrice e = Num V
                 \<and> (1 - u) ^ (n - 1) * buy_quantity (take n bs) \<le> A
                 \<and> A \<le> (1 + u) ^ (n - 1) * buy_quantity (take n bs)
                 \<and> (1 - u) ^ (3 * (n - 1)) / (1 + u) ^ (n - 1)
                       * (buy_cost (take n bs) / buy_quantity (take n bs)) \<le> V
                 \<and> V \<le> (1 + u) ^ (3 * (n - 1)) / (1 - u) ^ (n - 1)
                       * (buy_cost (take n bs) / buy_quantity (take n bs))"
    unfolding len by blast
next
  fix e
  assume "find (\<lambda>x. p_userId x = uid \<and> p_tokenMint x = t) ps = Some e"
  from updatePosition_add_existing[OF this]
  show "\<exists>ps' e'. updatePosition fl ps uid w t q p ActAdd = Inr (ps', updated)
             \<and> find (\<lambda>x. p_userId x = uid \<and> p_tokenMint x = t) ps' = Some e'
             \<and> p_amount e' = fl_add fl (p_amount e) q
             \<and> p_averagePrice e' =
                 fl_div fl (fl_add fl (fl_mul fl (p_amount e) (p_averagePrice e)) (fl_mul fl q p))
                   (fl_add fl (p_amount e) q)"
    by blast
qed

theorem buys_average_within_rounding_witness:
  "(\<exists>e A V. find (\<lambda>x. p_userId x = 1 \<and> p_tokenMint x = ''SOL'')
              (applyBuys double_round [] 1 1 ''SOL'' [(3, d01), (3, d01)]) = Some e
        \<and> p_amount e = Num A \<and> p_averagePrice e = Num V
        \<and> (1 - unit_roundoff) * 6 \<le> A \<and> A \<le> (1 + unit_roundoff) * 6
        \<and> (1 - unit_roundoff) ^ 3 / (1 + unit_roundoff) * d01 \<le> V
        \<and> V \<le> (1 + unit_roundoff) ^ 3 / (1 - unit_roundoff) * d01)
   \<and> (\<exists>e. find (\<lambda>x. p_userId x = 1 \<and> p_tokenMint x = ''SOL'')
            (applyBuys id [] 1 1 ''SOL'' [(10, 10), (5, 16)]) = Some e
        \<and> p_amount e = Num 15 \<and> p_averagePrice e = Num 12)"
proof -
  let ?key = "\<lambda>x. p_userId x = (1::nat) \<and> p_tokenMint x = ''SOL''"
  have n: "0 < (2::nat) \<and> 2 \<le> length [(3::real, d01), (3, d01)]"
    and n': "0 < (2::nat) \<and> 2 \<le> length [(10::real, 10::real), (5, 16)]" by simp_all
  have h: "rounds_within unit_roundoff double_round \<and> find ?key ([]::position list) = None
           \<and> (\<forall>b\<in>set [(3::real, d01), (3, d01)]. 0 < fst b \<and> 0 \<le> snd b)"
    using rounds_within_double by (simp add: d01_def)
  have h': "rounds_within 0 id \<and> find ?key ([]::position list) = None
           \<and> (\<forall>b\<in>set [(10::real, 10::real), (5, 16)]. 0 < fst b \<and> 0 \<le> snd b)"
    using rounds_within_id by simp
  have t1: "take 2 [(3, d01), (3, d01)] = [(3, d01), (3, d01)]"
    and t2: "take 2 [(10::real, 10::real), (5, 16)] = [(10, 10), (5, 16)]" by simp_all
  have q1: "buy_quantity [(3, d01), (3, d01)] = 6"
    and c1: "buy_cost [(3, d01), (3, d01)] / 6 = d01"
    by (simp_all add: buy_quantity_def buy_cost_def)
  have q2: "buy_quantity [(10, 10), (5, 16)] = 15"
    and c2: "buy_cost [(10, 10), (5, 16)] / 15 = 12"
    by (simp_all add: buy_quantity_def buy_cost_def)
  have ar1: "(1 - unit_roundoff) ^ (2 - 1) * 6 = (1 - unit_roundoff) * 6"
    "(1 + unit_roundoff) ^ (2 - 1) * 6 = (1 + unit_roundoff) * 6"
    "(1 - unit_roundoff) ^ (3 * (2 - 1)) / (1 + unit_roundoff) ^ (2 - 1) * d01
       = (1 - unit_roundoff) ^ 3 / (1 + unit_roundoff) * d01"
    "(1 + unit_roundoff) ^ (3 * (2 - 1)) / (1 - unit_roundoff) ^ (2 - 1) * d01
       = (1 + unit_roundoff) ^ 3 / (1 - unit_roundoff) * d01"
    by simp_all
  have ar2: "(1 - 0::real) ^ (2 - 1) * 15 = 15" "(1 + 0::real) ^ (2 - 1) * 15 = 15"
    "(1 - 0::real) ^ (3 * (2 - 1)) / (1 + 0) ^ (2 - 1) * 12 = 12"
    "(1 + 0::real) ^ (3 * (2 - 1)) / (1 - 0) ^ (2 - 1) * 12 = 12"
    by simp_all
  from buys_average_within_rounding[of unit_roundoff double_round 1 "''SOL''" "[]"
      "[(3, d01), (3, d01)]" 1 "Num 0" "Num 0"] h n
  have "\<exists>e A V. find ?key (applyBuys double_round [] 1 1 ''SOL'' (take 2 [(3, d01), (3, d01)])) = Some e
        \<and> p_amount e = Num A \<and> p_averagePrice e = Num V
        \<and> (1 - unit_roundoff) ^ (2 - 1) * buy_quantity (take 2 [(3, d01), (3, d01)]) \<le> A
        \<and> A \<le> (1 + unit_roundoff) ^ (2 - 1) * buy_quantity (take 2 [(3, d01), (3, d01)])
        \<and> (1 - unit_roundoff) ^ (3 * (2 - 1)) / (1 + unit_roundoff) ^ (2 - 1)
             * (buy_cost (take 2 [(3, d01), (3, d01)]) / buy_quantity (take 2 [(3, d01), (3, d01)])) \<le> V
        \<and> V \<le> (1 + unit_roundoff) ^ (3 * (2 - 1)) / (1 - unit_roundoff) ^ (2 - 1)
             * (buy_cost (take 2 [(3, d01), (3, d01)]) / buy_quantity (take 2 [(3, d01), (3, d01)]))"
    by blast
  then have first: "\<exists>e A V. find ?key (applyBuys double_round [] 1 1 ''SOL'' [(3, d01), (3, d01)]) = Some e
        \<and> p_amount e = Num A \<and> p_averagePrice e = Num V
        \<and> (1 - unit_roundoff) * 6 \<le> A \<and> A \<le> (1 + unit_roundoff) * 6
        \<and> (1 - unit_roundoff) ^ 3 / (1 + unit_roundoff) * d01 \<le> V
        \<and> V \<le> (1 + unit_roundoff) ^ 3 / (1 - unit_roundoff) * d01"
    by (simp only: t1 q1 c1 ar1)
  from buys_average_within_rounding[of 0 id 1 "''SOL''" "[]"
      "[(10, 10), (5, 16)]" 1 "Num 0" "Num 0"] h' n'
  have "\<exists>e A V. find ?key (applyBuys id [] 1 1 ''SOL'' (take 2 [(10, 10), (5, 16)])) = Some e
        \<and> p_amount e = Num A \<and> p_averagePrice e = Num V
        \<and> (1 - 0) ^ (2 - 1) * buy_quantity (take 2 [(10, 10), (5, 16)]) \<le> A
        \<and> A \<le> (1 + 0) ^ (2 - 1) * buy_quantity (take 2 [(10, 10), (5, 16)])
        \<and> (1 - 0) ^ (3 * (2 - 1)) / (1 + 0) ^ (2 - 1)
             * (buy_cost (take 2 [(10, 10), (5, 16)]) / buy_quantity (take 2 [(10, 10), (5, 16)])) \<le> V
        \<and> V \<le> (1 + 0) ^ (3 * (2 - 1)) / (1 - 0) ^ (2 - 1)
             * (buy_cost (take 2 [(10, 10), (5, 16)]) / buy_quantity (take 2 [(10, 10), (5, 16)]))"
    by blast
  then have "\<exists>e A V. find ?key (applyBuys id [] 1 1 ''SOL'' [(10, 10), (5, 16)]) = Some e
        \<and> p_amount e = Num A \<and> p_averagePrice e = Num V
        \<and> 15 \<le> A \<and> A \<le> 15 \<and> 12 \<le> V \<and> V \<le> 12"
    by (simp only: t2 q2 c2 ar2)
  then have second: "\<exists>e. find ?key (applyBuys id [] 1 1 ''SOL'' [(10, 10), (5, 16)]) = Some e
        \<and> p_amount e = Num 15 \<and> p_averagePrice e = Num 12"
    by (metis order_antisym)
  show ?thesis using first second by blast
qed

text \<open>The amended claim asks for positive quantities: two fills of quantity 0 leave an
  average of NaN, the quotient of zero by zero.\<close>

lemma zero_quantity_average_is_NaN:
  "map_option p_averagePrice
     (find (\<lambda>x. p_userId x = 1 \<and> p_tokenMint x = ''SOL'')
        (applyBuys double_round [] 1 1 ''SOL'' [(0, 5), (0, 5)])) = Some NaN"
  by (simp add: updatePosition_def Let_def fl_add_def fl_mul_def fl_div_def fl_sub_def
      double_round_def js_inf_def)

section \<open>What the mutations leave alone\<close>

lemma placeTrade_effect:
  assumes "placeTrade st now u w sd ti a to sl = Inr (st1, i)"
  shows "dcaStrategies st1 = dcaStrategies st"
    and "orders st1 = orders st @
           [\<lparr>o_userId = u, o_walletId = w, o_side = sd, o_tokenIn = ti, o_amount = a,
             o_tokenOut = to, o_slippage = sl, o_createdAt = now\<rparr>]"
    and "positions st1 = positions st" and "errorLog st1 = errorLog st"
  using assms
  by (auto simp: placeTrade_def Let_def split: option.splits if_splits)

lemma logError_frame:
  "dcaStrategies (logError st i e ts) = dcaStrategies st"
  "orders (logError st i e ts) = orders st"
  by (simp_all add: logError_def)

section \<open>A skipped strategy\<close>

lemma executeStrategy_skip:
  "checkStrategyConditions ev s = Inr False \<Longrightarrow>
     executeStrategy ev now (st, r) s = (st, r\<lparr>skipped := skipped r + 1\<rparr>)"
  by (simp add: executeStrategy_def Let_def)

lemma foldl_executeStrategy_skip:
  "\<forall>s\<in>set ss. checkStrategyConditions ev s = Inr False \<Longrightarrow>
     foldl (executeStrategy ev now) (st, r) ss = (st, r\<lparr>skipped := skipped r + length ss\<rparr>)"
proof (induction ss arbitrary: r)
  case Nil
  then show ?case by simp
next
  case (Cons s ss)
  then show ?case by (simp add: executeStrategy_skip)
qed

text \<open>
  Claim C1 says a skipped strategy's \<open>nextExecution\<close> advances to the next normal slot.
  The dip-only strategy is due at time 1000 and the market is 3 per cent down: the check
  fails, the tick returns the store as it was, and the strategy's \<open>nextExecution\<close> is
  still 1000, not the next daily slot 86401000.
\<close>

theorem skip_does_not_advance:
  "checkStrategyConditions (market (- 3)) dipStrategy = Inr False
   \<and> fst (executeScheduledStrategies (market (- 3)) 1000 [dipStrategy] db0) = db0
   \<and> map nextExecution
        (dcaStrategies (fst (executeScheduledStrategies (market (- 3)) 1000 [dipStrategy] db0)))
      = [Some 1000, Some 1000]
   \<and> calculateNextExecution (s_frequency dipStrategy) 1000 = Some 86401000"
proof -
  have c: "checkStrategyConditions (market (- 3)) dipStrategy = Inr False"
    by (simp add: checkStrategyConditions_def priceBoundsOk_def dipOk_def market_def
        dipStrategy_def dipOnly_def)
  have e: "executeScheduledStrategies (market (- 3)) 1000 [dipStrategy] db0 =
             (db0, \<lparr>total = 1, executed = 0, failed = 0, skipped = 1\<rparr>)"
    by (simp add: executeScheduledStrategies_def executeStrategy_skip[OF c])
  have n: "calculateNextExecution (s_frequency dipStrategy) 1000 = Some 86401000"
    by (simp add: calculateNextExecution_def dipStrategy_def daily_def parseInterval_def
        parseInt_def slice_neg_def slice_from_def is_space_def digit_value_def)
  have m: "map nextExecution (dcaStrategies db0) = [Some 1000, Some 1000]"
    by (simp add: db0_def dipStrategy_def cappedStrategy_def)
  show ?thesis using c e n m by simp
qed

text \<open>
  Claim C1, amended. For every strategy whose due check finds its conditions failing, the
  scheduler skips the execution: the turn counts one skipped strategy and leaves the store
  as it was, so no trade is placed, no execution is recorded and \<open>nextExecution\<close> is not
  advanced; the strategy stays due and is checked again on the next tick. A tick whose
  strategies all fail their check returns the store unchanged.
\<close>

theorem skip_leaves_store:
  "(checkStrategyConditions ev s = Inr False \<longrightarrow>
      executeStrategy ev now (st, r) s = (st, r\<lparr>skipped := skipped r + 1\<rparr>))
   \<and> ((\<forall>s\<in>set strategies. checkStrategyConditions ev s = Inr False) \<longrightarrow>
      executeScheduledStrategies ev now strategies st =
        (st, \<lparr>total = length strategies, executed = 0, failed = 0,
              skipped = length strategies\<rparr>))"
  by (simp add: executeScheduledStrategies_def foldl_executeStrategy_skip executeStrategy_skip)

theorem skip_leaves_store_witness:
  "executeStrategy (market (- 3)) 1000
     (db0, \<lparr>total = 1, executed = 0, failed = 0, skipped = 0\<rparr>) dipStrategy =
     (db0, \<lparr>total = 1, executed = 0, failed = 0, skipped = 1\<rparr>)
   \<and> executeScheduledStrategies (market (- 3)) 1000 [dipStrategy] db0 =
     (db0, \<lparr>total = 1, executed = 0, failed = 0, skipped = 1\<rparr>)"
proof -
  have c: "checkStrategyConditions (market (- 3)) dipStrategy = Inr False"
    by (simp add: checkStrategyConditions_def priceBoundsOk_def dipOk_def market_def
        dipStrategy_def dipOnly_def)
  then have c': "\<forall>s\<in>set [dipStrategy]. checkStrategyConditions (market (- 3)) s = Inr False"
    by simp
  from skip_leaves_store[of "market (- 3)" dipStrategy 1000 db0
         "\<lparr>total = 1, executed = 0, failed = 0, skipped = 0\<rparr>" "[dipStrategy]"] c c'
  show ?thesis by simp
qed

section \<open>The condition check\<close>

lemma checkStrategyConditions_order:
  assumes "s_conditions s = Some c"
  shows "(priceBoundsOk ev s c = Inr False \<longrightarrow> checkStrategyConditions ev s = Inr False)
       \<and> (priceBoundsOk ev s c = Inr True \<and> dipOk ev s c = Inr False
            \<longrightarrow> checkStrategyConditions ev s = Inr False)
       \<and> (priceBoundsOk ev s c = Inr True \<and> dipOk ev s c = Inr True
            \<longrightarrow> checkStrategyConditions ev s = Inr (limitsOk ev s))"
  using assms by (simp add: checkStrategyConditions_def)

lemma dip_scenario:
  "checkStrategyConditions (market (- 3)) dipStrategy = Inr False
   \<and> checkStrategyConditions (market (- 8)) dipStrategy = Inr True"
  by (simp add: checkStrategyConditions_def priceBoundsOk_def dipOk_def limitsOk_def market_def
      dipStrategy_def dipOnly_def noLimits_def)

text \<open>
  Claim C5 makes the limit checks the third step of every due check. A strategy without a
  conditions block returns from the check before any limit is read: with
  \<open>maxExecutions = 3\<close> and three executions done, the check still passes, although the
  limit block on its own refuses the strategy and the same strategy with an empty
  conditions block is refused.
\<close>

theorem limits_bypassed_without_conditions:
  "checkStrategyConditions (market (- 8)) cappedStrategy = Inr True
   \<and> limitsOk (market (- 8)) cappedStrategy = False
   \<and> checkStrategyConditions (market (- 8))
        (cappedStrategy\<lparr>s_conditions := Some (dipOnly\<lparr>onlyBuyDips := False\<rparr>)\<rparr>) = Inr False"
  by (simp add: checkStrategyConditions_def priceBoundsOk_def dipOk_def limitsOk_def market_def
      cappedStrategy_def dipOnly_def)

section \<open>A tick that executes\<close>

text \<open>With the market 8 per cent down the dip-only strategy passes its check: the tick
  places the order, records the execution of time 1000 and moves the next execution one
  day on.\<close>

lemma dipStrategy_fields:
  "sid dipStrategy = 1" "s_userId dipStrategy = 1" "s_walletId dipStrategy = 1"
  "tokenIn dipStrategy = ''USDC''" "tokenOut dipStrategy = ''SOL''" "amount dipStrategy = 50"
  "s_frequency dipStrategy = daily"
  by (simp_all add: dipStrategy_def)

lemma next_daily: "calculateNextExecution daily 1000 = Some 86401000"
  by (simp add: calculateNextExecution_def daily_def parseInterval_def parseInt_def
      slice_neg_def slice_from_def is_space_def digit_value_def)

lemma place_db0:
  "placeTrade db0 1000 1 1 buy ''USDC'' 50 ''SOL'' 1 =
     Inr (db0\<lparr>orders := [\<lparr>o_userId = 1, o_walletId = 1, o_side = buy, o_tokenIn = ''USDC'',
                          o_amount = 50, o_tokenOut = ''SOL'', o_slippage = 1, o_createdAt = 1000\<rparr>],
              users := [1 \<mapsto> user1\<lparr>lastActive := 1000\<rparr>]\<rparr>, 0)"
  by (simp add: placeTrade_def db0_def user1_def Let_def)

lemma tick_executes:
  "executeScheduledStrategies (market (- 8)) 1000 [dipStrategy] db0 =
     (db0\<lparr>orders := [\<lparr>o_userId = 1, o_walletId = 1, o_side = buy, o_tokenIn = ''USDC'',
                          o_amount = 50, o_tokenOut = ''SOL'', o_slippage = 1, o_createdAt = 1000\<rparr>],
          users := [1 \<mapsto> user1\<lparr>lastActive := 1000\<rparr>],
          dcaStrategies :=
            [dipStrategy\<lparr>executions := [\<lparr>e_orderId = 0, e_timestamp = 1000, e_amountIn = 50\<rparr>],
                         totalExecutions := 1, totalInvested := 50,
                         nextExecution := Some 86401000\<rparr>,
             cappedStrategy]\<rparr>,
      \<lparr>total = 1, executed = 1, failed = 0, skipped = 0\<rparr>)"
proof -
  have now: "dateNow (market (- 8)) = 1000" by (simp add: market_def)
  have rec: "recordExecution
      (db0\<lparr>orders := [\<lparr>o_userId = 1, o_walletId = 1, o_side = buy, o_tokenIn = ''USDC'',
                          o_amount = 50, o_tokenOut = ''SOL'', o_slippage = 1, o_createdAt = 1000\<rparr>],
              users := [1 \<mapsto> user1\<lparr>lastActive := 1000\<rparr>]\<rparr>) 1 0 50 1000 =
     Inr (db0\<lparr>orders := [\<lparr>o_userId = 1, o_walletId = 1, o_side = buy, o_tokenIn = ''USDC'',
                          o_amount = 50, o_tokenOut = ''SOL'', o_slippage = 1, o_createdAt = 1000\<rparr>],
              users := [1 \<mapsto> user1\<lparr>lastActive := 1000\<rparr>],
              dcaStrategies :=
                [dipStrategy\<lparr>executions := [\<lparr>e_orderId = 0, e_timestamp = 1000, e_amountIn = 50\<rparr>],
                         totalExecutions := 1, totalInvested := 50\<rparr>, cappedStrategy]\<rparr>)"
    by (simp add: recordExecution_def db0_def dipStrategy_def cappedStrategy_def)
  have upd: "updateNextExecution
      (db0\<lparr>orders := [\<lparr>o_userId = 1, o_walletId = 1, o_side = buy, o_tokenIn = ''USDC'',
                          o_amount = 50, o_tokenOut = ''SOL'', o_slippage = 1, o_createdAt = 1000\<rparr>],
              users := [1 \<mapsto> user1\<lparr>lastActive := 1000\<rparr>],
              dcaStrategies :=
                [dipStrategy\<lparr>executions := [\<lparr>e_orderId = 0, e_timestamp = 1000, e_amountIn = 50\<rparr>],
                         totalExecutions := 1, totalInvested := 50\<rparr>, cappedStrategy]\<rparr>)
       1 (Some 86401000) =
     Inr (db0\<lparr>orders := [\<lparr>o_userId = 1, o_walletId = 1, o_side = buy, o_tokenIn = ''USDC'',
                          o_amount = 50, o_tokenOut = ''SOL'', o_slippage = 1, o_createdAt = 1000\<rparr>],
              users := [1 \<mapsto> user1\<lparr>lastActive := 1000\<rparr>],
              dcaStrategies :=
                [dipStrategy\<lparr>executions := [\<lparr>e_orderId = 0, e_timestamp = 1000, e_amountIn = 50\<rparr>],
                         totalExecutions := 1, totalInvested := 50,
                         nextExecution := Some 86401000\<rparr>, cappedStrategy]\<rparr>)"
    by (simp add: updateNextExecution_def db0_def dipStrategy_def cappedStrategy_def)
  have chk: "checkStrategyConditions (market (- 8)) dipStrategy = Inr True"
    using dip_scenario by simp
  show ?thesis
    by (simp add: executeScheduledStrategies_def executeStrategy_def chk now dipStrategy_fields
        place_db0 rec next_daily upd Let_def del: One_nat_def)
qed

section \<open>Value averaging\<close>

lemma adjustForMarketConditions_pos: "0 < a \<Longrightarrow> 0 < adjustForMarketConditions a c"
  by (simp add: adjustForMarketConditions_def split: option.splits)

lemma valueAveragingStep_effect:
  "dcaStrategies (valueAveragingStep ev st s) = dcaStrategies st
   \<and> (\<exists>new. orders (valueAveragingStep ev st s) = orders st @ new
          \<and> (\<forall>ord\<in>set new. 0 < o_amount ord \<and> o_side ord = buy))"
proof (cases "getCurrentPositionValue ev s")
  case (Inl e)
  then show ?thesis by (simp add: valueAveragingStep_def)
next
  case (Inr cv)
  show ?thesis
  proof (cases "calculateTargetValue s - cv \<le> 0")
    case True
    then show ?thesis using Inr by (simp add: valueAveragingStep_def Let_def)
  next
    case False
    let ?a = "adjustForMarketConditions (calculateTargetValue s - cv) (s_conditions s)"
    let ?t = "placeTrade st (dateNow ev) (s_userId s) (s_walletId s) buy (tokenIn s) ?a
                (tokenOut s) 1.5"
    have apos: "0 < ?a" using False by (intro adjustForMarketConditions_pos) simp
    show ?thesis
    proof (cases ?t)
      case (Inl e)
      then show ?thesis using Inr False by (simp add: valueAveragingStep_def Let_def)
    next
      case tr: (Inr p)
      obtain st1 i where p: "p = (st1, i)" by (cases p)
      have step: "valueAveragingStep ev st s = st1"
        using Inr False tr p by (simp add: valueAveragingStep_def Let_def)
      from placeTrade_effect(1,2)[OF tr[unfolded p]] apos show ?thesis
        unfolding step by simp
    qed
  qed
qed

lemma processValueAveraging_effect:
  "dcaStrategies (processValueAveraging ev ss st) = dcaStrategies st
   \<and> (\<exists>new. orders (processValueAveraging ev ss st) = orders st @ new
          \<and> (\<forall>ord\<in>set new. 0 < o_amount ord \<and> o_side ord = buy))"
proof (induction ss arbitrary: st)
  case Nil
  then show ?case by (simp add: processValueAveraging_def)
next
  case (Cons s ss)
  let ?st1 = "valueAveragingStep ev st s"
  obtain n1 where n1: "orders ?st1 = orders st @ n1"
    "\<forall>ord\<in>set n1. 0 < o_amount ord \<and> o_side ord = buy"
    and d1: "dcaStrategies ?st1 = dcaStrategies st"
    using valueAveragingStep_effect[of ev st s] by blast
  obtain n2 where n2: "orders (processValueAveraging ev ss ?st1) = orders ?st1 @ n2"
    "\<forall>ord\<in>set n2. 0 < o_amount ord \<and> o_side ord = buy"
    and d2: "dcaStrategies (processValueAveraging ev ss ?st1) = dcaStrategies ?st1"
    using Cons.IH[of ?st1] by blast
  have unf: "processValueAveraging ev (s # ss) st = processValueAveraging ev ss ?st1"
    by (simp add: processValueAveraging_def)
  have "orders (processValueAveraging ev (s # ss) st) = orders st @ (n1 @ n2)"
    using unf n1(1) n2(1) by simp
  moreover have "\<forall>ord\<in>set (n1 @ n2). 0 < o_amount ord \<and> o_side ord = buy"
    using n1(2) n2(2) by auto
  ultimately show ?case using unf d1 d2 by metis
qed

lemma trade_db0:
  "\<exists>st1 i. placeTrade db0 1000 1 1 buy ''USDC'' a ''SOL'' sl = Inr (st1, i)"
  by (simp add: placeTrade_def db0_def user1_def Let_def)

text \<open>
  Claim C6. In a value-averaging cycle the target is the per-execution amount times the
  number of executions so far plus one, and the amount to invest is the target minus the
  position's current market value. When that amount is not positive the cycle is skipped
  and the store is left as it was. Otherwise the trade is requested for that amount (as
  adjusted for market conditions; unadjusted when the strategy has no conditions block),
  and every order a pass adds is a buy of a positive amount.
\<close>

theorem value_averaging_invests_positive:
  "calculateTargetValue s = amount s * (real (totalExecutions s) + 1)
   \<and> (\<forall>cv. getCurrentPositionValue ev s = Inr cv \<and> calculateTargetValue s - cv \<le> 0
         \<longrightarrow> valueAveragingStep ev st s = st)
   \<and> (\<forall>cv st1 i. getCurrentPositionValue ev s = Inr cv \<and> 0 < calculateTargetValue s - cv
         \<and> placeTrade st (dateNow ev) (s_userId s) (s_walletId s) buy (tokenIn s)
             (adjustForMarketConditions (calculateTargetValue s - cv) (s_conditions s))
             (tokenOut s) 1.5 = Inr (st1, i)
         \<longrightarrow> valueAveragingStep ev st s = st1
             \<and> (s_conditions s = None \<longrightarrow>
                   map o_amount (orders st1) = map o_amount (orders st) @ [calculateTargetValue s - cv]))
   \<and> (\<exists>new. orders (processValueAveraging ev strategies st) = orders st @ new
          \<and> (\<forall>ord\<in>set new. 0 < o_amount ord \<and> o_side ord = buy))"
proof (intro conjI allI impI)
  show "calculateTargetValue s = amount s * (real (totalExecutions s) + 1)"
    by (simp add: calculateTargetValue_def Let_def)
next
  fix cv
  assume "getCurrentPositionValue ev s = Inr cv \<and> calculateTargetValue s - cv \<le> 0"
  then show "valueAveragingStep ev st s = st" by (simp add: valueAveragingStep_def Let_def)
next
  fix cv st1 i
  assume h: "getCurrentPositionValue ev s = Inr cv \<and> 0 < calculateTargetValue s - cv
         \<and> placeTrade st (dateNow ev) (s_userId s) (s_walletId s) buy (tokenIn s)
             (adjustForMarketConditions (calculateTargetValue s - cv) (s_conditions s))
             (tokenOut s) 1.5 = Inr (st1, i)"
  then show "valueAveragingStep ev st s = st1" by (simp add: valueAveragingStep_def Let_def)
  assume "s_conditions s = None"
  with h placeTrade_effect(2)[of st "dateNow ev" "s_userId s" "s_walletId s" buy "tokenIn s"
            "calculateTargetValue s - cv" "tokenOut s" "1.5" st1 i]
  show "map o_amount (orders st1) = map o_amount (orders st) @ [calculateTargetValue s - cv]"
    by (simp add: adjustForMarketConditions_def)
next
  show "\<exists>new. orders (processValueAveraging ev strategies st) = orders st @ new
          \<and> (\<forall>ord\<in>set new. 0 < o_amount ord \<and> o_side ord = buy)"
    using processValueAveraging_effect[of ev strategies st] by blast
qed

theorem value_averaging_invests_positive_witness:
  "calculateTargetValue cappedStrategy = 200
   \<and> valueAveragingStep ((market (- 8))\<lparr>getPosition := (\<lambda>_ _. Inr (Some 250))\<rparr>) db0 cappedStrategy = db0
   \<and> map o_amount (orders (valueAveragingStep (market (- 8)) db0 cappedStrategy)) = [200]"
proof -
  let ?rich = "(market (- 8))\<lparr>getPosition := (\<lambda>_ _. Inr (Some 250))\<rparr>"
  have t: "calculateTargetValue cappedStrategy = 200"
    using value_averaging_invests_positive[of cappedStrategy]
    by (simp add: cappedStrategy_def)
  have skip: "getCurrentPositionValue ?rich cappedStrategy = Inr 250
              \<and> calculateTargetValue cappedStrategy - 250 \<le> 0"
    using t by (simp add: getCurrentPositionValue_def market_def)
  have s1: "valueAveragingStep ?rich db0 cappedStrategy = db0"
    using value_averaging_invests_positive[of cappedStrategy ?rich db0] skip by blast
  obtain st1 i where tr: "placeTrade db0 1000 1 1 buy ''USDC'' 200 ''SOL'' 1.5 = Inr (st1, i)"
    using trade_db0[of 200 "1.5"] by blast
  have buy: "getCurrentPositionValue (market (- 8)) cappedStrategy = Inr 0
     \<and> 0 < calculateTargetValue cappedStrategy - 0
     \<and> placeTrade db0 (dateNow (market (- 8))) (s_userId cappedStrategy) (s_walletId cappedStrategy)
          buy (tokenIn cappedStrategy)
          (adjustForMarketConditions (calculateTargetValue cappedStrategy - 0)
             (s_conditions cappedStrategy))
          (tokenOut cappedStrategy) 1.5 = Inr (st1, i)"
    using t tr by (simp add: getCurrentPositionValue_def market_def cappedStrategy_def
        adjustForMarketConditions_def)
  have nc: "s_conditions cappedStrategy = None" by (simp add: cappedStrategy_def)
  have "valueAveragingStep (market (- 8)) db0 cappedStrategy = st1
        \<and> map o_amount (orders st1) = map o_amount (orders db0) @ [calculateTargetValue cappedStrategy - 0]"
    using value_averaging_invests_positive[of cappedStrategy "market (- 8)" db0] buy nc by blast
  then have "map o_amount (orders (valueAveragingStep (market (- 8)) db0 cappedStrategy)) = [200]"
    using t by (simp add: db0_def)
  with t s1 show ?thesis by simp
qed

section \<open>The weekend boost\<close>

text \<open>What a turn does with a strategy it reads as opted in: it requests a buy of 1.5 times
  the configured amount, and an accepted request adds that order.\<close>

lemma boostTurn_opted_in:
  assumes "placeTrade st (dateNow ev) (s_userId s) (s_walletId s) buy (tokenIn s)
             (amount s * 1.5) (tokenOut s) 1 = Inr (st1, i)"
  shows "boostTurn True ev (st, n) s = (st1, n + 1)"
    and "orders st1 = orders st @
           [\<lparr>o_userId = s_userId s, o_walletId = s_walletId s, o_side = buy,
             o_tokenIn = tokenIn s, o_amount = amount s * 1.5, o_tokenOut = tokenOut s,
             o_slippage = 1, o_createdAt = dateNow ev\<rparr>]"
  using assms placeTrade_effect(2)[OF assms] by (simp_all add: boostTurn_def Let_def)

lemma weekendBoostStep_skips: "weekendBoostStep ev acc s = acc"
  by (simp add: weekendBoostStep_def boostTurn_def advanced_weekendBoost_def)

lemma foldl_weekendBoostStep_skips: "foldl (weekendBoostStep ev) acc ss = acc"
  by (induction ss arbitrary: acc) (simp_all add: weekendBoostStep_skips)

lemma foldl_weekendBoostStep_frame:
  "dcaStrategies (fst (foldl (weekendBoostStep ev) acc ss)) = dcaStrategies (fst acc)"
  by (simp add: foldl_weekendBoostStep_skips)


section \<open>Uniqueness of execution records\<close>

lemma map_sid_patch_first:
  "(\<And>x. sid (f x) = sid x) \<Longrightarrow> map sid (patch_first P f xs) = map sid xs"
  by (induction xs) auto

lemma set_patch_first:
  "find P xs = Some s \<Longrightarrow> set (patch_first P f xs) \<subseteq> insert (f s) (set xs)"
  by (induction xs) (auto split: if_splits)

lemma find_in_set: "find P xs = Some s \<Longrightarrow> s \<in> set xs \<and> P s"
  by (induction xs) (auto split: if_splits)

lemma find_by_sid:
  "distinct (map sid ss) \<Longrightarrow> s \<in> set ss \<Longrightarrow> find (\<lambda>x. sid x = sid s) ss = Some s"
  by (induction ss) (auto simp: image_iff)

lemma fst_execution_keys: "fst ` set (execution_keys ss) \<subseteq> sid ` set ss"
  by (induction ss) auto

lemma execution_keys_mem:
  "(i, ts) \<in> set (execution_keys ss) \<longleftrightarrow>
     (\<exists>s\<in>set ss. sid s = i \<and> ts \<in> set (map e_timestamp (executions s)))"
  by (induction ss) auto

lemma distinct_pair_map:
  "distinct (map (\<lambda>e. (a, g e)) xs) = distinct (map g xs)"
  by (induction xs) auto

lemma distinct_execution_keys:
  "distinct (map sid ss) \<Longrightarrow> \<forall>s\<in>set ss. distinct (map e_timestamp (executions s))
     \<Longrightarrow> distinct (execution_keys ss)"
proof (induction ss)
  case Nil
  then show ?case by simp
next
  case (Cons s ss)
  have "sid s \<notin> fst ` set (execution_keys ss)"
    using Cons.prems(1) fst_execution_keys[of ss] by auto
  then have disj: "set (map (\<lambda>e. (sid s, e_timestamp e)) (executions s)) \<inter> set (execution_keys ss) = {}"
    by (auto simp: image_iff)
  show ?case
    using Cons disj by (simp add: distinct_pair_map)
qed

lemma store_inv_frame: "dcaStrategies st' = dcaStrategies st \<Longrightarrow> store_inv st \<Longrightarrow> store_inv st'"
  by (simp add: store_inv_def)

lemma recordExecution_inv:
  assumes "recordExecution st i oid amt ts = Inr st'" and "store_inv st"
  shows "store_inv st'"
proof -
  let ?f = "\<lambda>s. s\<lparr>executions := executions s @
                  [\<lparr>e_orderId = oid, e_timestamp = ts, e_amountIn = amt\<rparr>],
                totalExecutions := totalExecutions s + 1,
                totalInvested := totalInvested s + amt\<rparr>"
  obtain s where fs: "find (\<lambda>s. sid s = i) (dcaStrategies st) = Some s"
    and fresh: "ts \<notin> set (map e_timestamp (executions s))"
    and st': "st' = st\<lparr>dcaStrategies := patch_first (\<lambda>s. sid s = i) ?f (dcaStrategies st)\<rparr>"
    using assms(1) by (auto simp: recordExecution_def split: option.splits if_splits)
  have sids: "map sid (dcaStrategies st') = map sid (dcaStrategies st)"
    unfolding st' by (simp add: map_sid_patch_first)
  have s_in: "s \<in> set (dcaStrategies st)" using find_in_set[OF fs] by simp
  have "distinct (map e_timestamp (executions s))" using assms(2) s_in by (simp add: store_inv_def)
  then have fsd: "distinct (map e_timestamp (executions (?f s)))" using fresh by simp
  have "\<forall>x\<in>set (dcaStrategies st'). distinct (map e_timestamp (executions x))"
  proof
    fix x assume "x \<in> set (dcaStrategies st')"
    then have "x = ?f s \<or> x \<in> set (dcaStrategies st)"
      using set_patch_first[OF fs, of ?f] unfolding st' by auto
    then show "distinct (map e_timestamp (executions x))"
      using fsd assms(2) by (auto simp: store_inv_def)
  qed
  then show ?thesis using sids assms(2) by (simp add: store_inv_def)
qed

lemma updateNextExecution_inv:
  assumes "updateNextExecution st i nx = Inr st'" and "store_inv st"
  shows "store_inv st'"
proof -
  let ?f = "\<lambda>s. s\<lparr>nextExecution := nx\<rparr>"
  obtain s where fs: "find (\<lambda>s. sid s = i) (dcaStrategies st) = Some s"
    and st': "st' = st\<lparr>dcaStrategies := patch_first (\<lambda>s. sid s = i) ?f (dcaStrategies st)\<rparr>"
    using assms(1) by (auto simp: updateNextExecution_def split: option.splits)
  have sids: "map sid (dcaStrategies st') = map sid (dcaStrategies st)"
    unfolding st' by (simp add: map_sid_patch_first)
  have s_in: "s \<in> set (dcaStrategies st)" using find_in_set[OF fs] by simp
  have "\<forall>x\<in>set (dcaStrategies st'). distinct (map e_timestamp (executions x))"
  proof
    fix x assume "x \<in> set (dcaStrategies st')"
    then have "x = ?f s \<or> x \<in> set (dcaStrategies st)"
      using set_patch_first[OF fs, of ?f] unfolding st' by auto
    then show "distinct (map e_timestamp (executions x))"
      using s_in assms(2) by (auto simp: store_inv_def)
  qed
  then show ?thesis using sids assms(2) by (simp add: store_inv_def)
qed

lemma logError_inv: "store_inv st \<Longrightarrow> store_inv (logError st i e ts)"
  by (rule store_inv_frame[OF logError_frame(1)])

lemma placeTrade_inv: "placeTrade st now u w sd ti a to sl = Inr (st1, i) \<Longrightarrow> store_inv st \<Longrightarrow> store_inv st1"
  by (rule store_inv_frame[OF placeTrade_effect(1)])

lemma executeStrategy_inv:
  assumes "store_inv (fst acc)"
  shows "store_inv (fst (executeStrategy ev now acc s))"
proof (cases "checkStrategyConditions ev s")
  case (Inl e)
  then show ?thesis using assms by (simp add: executeStrategy_def Let_def logError_inv)
next
  case (Inr ok)
  show ?thesis
  proof (cases ok)
    case False
    then show ?thesis using Inr assms by (simp add: executeStrategy_def Let_def)
  next
    case True
    let ?t = "placeTrade (fst acc) (dateNow ev) (s_userId s) (s_walletId s) buy (tokenIn s)
                (amount s) (tokenOut s) 1"
    show ?thesis
    proof (cases ?t)
      case (Inl e)
      then show ?thesis using Inr True assms by (simp add: executeStrategy_def Let_def logError_inv)
    next
      case tr: (Inr p)
      obtain st1 oid where p: "p = (st1, oid)" by (cases p)
      have i1: "store_inv st1" using placeTrade_inv[OF tr[unfolded p] assms] .
      show ?thesis
      proof (cases "recordExecution st1 (sid s) oid (amount s) now")
        case (Inl e)
        then show ?thesis using Inr True tr p i1
          by (simp add: executeStrategy_def Let_def logError_inv)
      next
        case rc: (Inr st2)
        have i2: "store_inv st2" using recordExecution_inv[OF rc i1] .
        show ?thesis
        proof (cases "updateNextExecution st2 (sid s) (calculateNextExecution (s_frequency s) now)")
          case (Inl e)
          then show ?thesis using Inr True tr p rc i2
            by (simp add: executeStrategy_def Let_def logError_inv)
        next
          case up: (Inr st3)
          have "store_inv st3" using updateNextExecution_inv[OF up i2] .
          then show ?thesis using Inr True tr p rc up
            by (simp add: executeStrategy_def Let_def)
        qed
      qed
    qed
  qed
qed

lemma foldl_executeStrategy_inv:
  "store_inv (fst acc) \<Longrightarrow> store_inv (fst (foldl (executeStrategy ev now) acc ss))"
  by (induction ss arbitrary: acc) (simp_all add: executeStrategy_inv)

lemma reachable_inv: "reachable st \<Longrightarrow> store_inv st"
proof (induction rule: reachable.induct)
  case (by_init st)
  then show ?case by (simp add: store_inv_def)
next
  case (by_create st s)
  then show ?case by (auto simp: store_inv_def)
next
  case (by_record st strategyId orderId amt ts st')
  then show ?case using recordExecution_inv by blast
next
  case (by_reschedule st strategyId nx st')
  then show ?case using updateNextExecution_inv by blast
next
  case (by_log st strategyId e ts)
  then show ?case by (simp add: logError_inv)
next
  case (by_trade st now userId walletId sd tokIn amt tokOut slip st' oid)
  then show ?case using placeTrade_inv by blast
next
  case (by_tick st ev now strategies)
  then show ?case by (simp add: executeScheduledStrategies_def foldl_executeStrategy_inv)
next
  case (by_averaging st ev strategies)
  then show ?case
    using processValueAveraging_effect[of ev strategies st] store_inv_frame by blast
next
  case (by_boost st ev strategies)
  then show ?case
    using foldl_weekendBoostStep_frame[of ev "(st, 0)" "take 50 strategies"] store_inv_frame
    by (simp add: weekendBoost_def)
qed

lemma reachable_db0: "reachable db0"
  by (rule reachable.by_init) (simp_all add: db0_def dipStrategy_def cappedStrategy_def)

lemma record_db0: "recordExecution db0 1 0 50 1000 = Inr db1"
  by (simp add: recordExecution_def db0_def db1_def dipStrategy_def cappedStrategy_def)

text \<open>
  Claim C7. In every reachable store no two execution records have the same
  (strategyId, scheduledTime) key, and recording an execution under a key that already has
  a record is rejected as a concurrency conflict, which leaves the records as they were.
\<close>

theorem execution_keys_unique:
  assumes "reachable st"
  shows "distinct (execution_keys (dcaStrategies st))
       \<and> (\<forall>strategyId ts orderId amt.
            (strategyId, ts) \<in> set (execution_keys (dcaStrategies st))
            \<longrightarrow> recordExecution st strategyId orderId amt ts = Inl ConcurrencyConflict)"
proof (intro conjI allI impI)
  have inv: "store_inv st" using reachable_inv[OF assms] .
  show "distinct (execution_keys (dcaStrategies st))"
    using inv by (simp add: store_inv_def distinct_execution_keys)
  fix strategyId ts orderId amt
  assume "(strategyId, ts) \<in> set (execution_keys (dcaStrategies st))"
  then obtain s where s: "s \<in> set (dcaStrategies st)" "sid s = strategyId"
    "ts \<in> set (map e_timestamp (executions s))"
    using execution_keys_mem[of strategyId ts "dcaStrategies st"] by blast
  have "find (\<lambda>x. sid x = strategyId) (dcaStrategies st) = Some s"
    using find_by_sid[of "dcaStrategies st" s] inv s(1,2) by (simp add: store_inv_def)
  then show "recordExecution st strategyId orderId amt ts = Inl ConcurrencyConflict"
    using s(3) by (simp add: recordExecution_def)
qed

theorem execution_keys_unique_witness:
  "recordExecution db0 1 0 50 1000 = Inr db1
   \<and> (1, 1000) \<in> set (execution_keys (dcaStrategies db1))
   \<and> distinct (execution_keys (dcaStrategies db1))
   \<and> recordExecution db1 1 7 50 1000 = Inl ConcurrencyConflict"
proof -
  have r: "reachable db1" using reachable_db0 record_db0 by (rule reachable.by_record)
  have m: "(1, 1000) \<in> set (execution_keys (dcaStrategies db1))"
    by (simp add: db1_def dipStrategy_def)
  from execution_keys_unique[OF r] m record_db0 show ?thesis by blast
qed

end
